theory Spec2Isabelle
  imports Main "HOL-Library.Word"
begin

unbundle bit_operations_syntax

section \<open>Machine types and the register file\<close>

text \<open>
  The driver \<^verbatim>\<open>drivers/st/clk/stm32mp1_clk.c\<close> runs on the STM32MP1, an AArch32 platform
  (the platform code uses the AArch32 helper \<^verbatim>\<open>read_sctlr\<close> and the \<^verbatim>\<open>sp_min\<close> payload, and
  the driver itself stores \<^verbatim>\<open>stm32mp_rcc_base()\<close> in a \<^verbatim>\<open>uint32_t\<close>). So \<^verbatim>\<open>unsigned int\<close>,
  \<^verbatim>\<open>unsigned long\<close> and \<^verbatim>\<open>uintptr_t\<close> are 32 bits wide and \<^verbatim>\<open>unsigned long long\<close> is 64 bits
  wide.
\<close>

type_synonym u32 = "32 word"
type_synonym u64 = "64 word"
type_synonym ulong = "32 word"

text \<open>
  The RCC registers are addressed by their byte offset from \<^verbatim>\<open>stm32mp_rcc_base()\<close>;
  \<^verbatim>\<open>mmio_read_32(rcc_base + off)\<close> is \<open>regs off\<close>.
\<close>

type_synonym rcc_regs = "nat \<Rightarrow> u32"

text \<open>
  The macros of \<^verbatim>\<open>stm32mp1_rcc.h\<close> (register offsets, selector shifts and masks, selector
  values), of the device tree binding headers (clock identifiers) are not among the sources.
  Where the driver only passes such a macro around, it is read from a parameter \<open>H\<close> that
  maps the name of a macro to its value.
\<close>

type_synonym header = "string \<Rightarrow> nat"

text \<open>\<^verbatim>\<open>panic()\<close> does not return: a function that may call it returns \<open>Panic\<close> there.\<close>

datatype 'a ret = Panic | Ret 'a

datatype image = IMAGE_BL2 | IMAGE_BL32

section \<open>Constants of the register layout\<close>

text \<open>
  Modelled from the spec: the field layout macros of \<^verbatim>\<open>stm32mp1_rcc.h\<close> are missing from the
  sources. The widths are those of the spec's data model (M on 6 bits, P, Q and R on 7 bits,
  FRAC on 13 bits with scale \<open>2^13\<close>, three bit source and divider fields, a four bit MCU
  divider field), at the positions of the RCC register map.
\<close>

definition RCC_SELR_REFCLK_SRC_MASK :: u32 where "RCC_SELR_REFCLK_SRC_MASK = 0x3"
definition RCC_SELR_SRC_MASK :: u32 where "RCC_SELR_SRC_MASK = 0x7"
definition RCC_MPUDIV_MASK :: u32 where "RCC_MPUDIV_MASK = 0x7"
definition RCC_AXIDIV_MASK :: u32 where "RCC_AXIDIV_MASK = 0x7"
definition RCC_APBXDIV_MASK :: u32 where "RCC_APBXDIV_MASK = 0x7"
definition RCC_MCUDIV_MASK :: u32 where "RCC_MCUDIV_MASK = 0xF"
definition RCC_PLLNCR_PLLON :: u32 where "RCC_PLLNCR_PLLON = 0x1"
definition RCC_PLLNCFGR1_DIVM_SHIFT :: nat where "RCC_PLLNCFGR1_DIVM_SHIFT = 16"
definition RCC_PLLNCFGR1_DIVM_MASK :: u32 where "RCC_PLLNCFGR1_DIVM_MASK = 0x3F0000"
definition RCC_PLLNCFGR1_DIVN_SHIFT :: nat where "RCC_PLLNCFGR1_DIVN_SHIFT = 0"
definition RCC_PLLNCFGR1_DIVN_MASK :: u32 where "RCC_PLLNCFGR1_DIVN_MASK = 0x1FF"
definition RCC_PLLNCFGR1_IFRGE_SHIFT :: nat where "RCC_PLLNCFGR1_IFRGE_SHIFT = 24"
definition RCC_PLLNCFGR1_IFRGE_MASK :: u32 where "RCC_PLLNCFGR1_IFRGE_MASK = 0x3000000"
definition RCC_PLLNCFGR2_DIVX_MASK :: u32 where "RCC_PLLNCFGR2_DIVX_MASK = 0x7F"
definition RCC_PLLNCFGR2_DIVP_SHIFT :: nat where "RCC_PLLNCFGR2_DIVP_SHIFT = 0"
definition RCC_PLLNCFGR2_DIVP_MASK :: u32 where "RCC_PLLNCFGR2_DIVP_MASK = 0x7F"
definition RCC_PLLNCFGR2_DIVQ_SHIFT :: nat where "RCC_PLLNCFGR2_DIVQ_SHIFT = 8"
definition RCC_PLLNCFGR2_DIVQ_MASK :: u32 where "RCC_PLLNCFGR2_DIVQ_MASK = 0x7F00"
definition RCC_PLLNCFGR2_DIVR_SHIFT :: nat where "RCC_PLLNCFGR2_DIVR_SHIFT = 16"
definition RCC_PLLNCFGR2_DIVR_MASK :: u32 where "RCC_PLLNCFGR2_DIVR_MASK = 0x7F0000"
definition RCC_PLLNFRACR_FRACV_SHIFT :: nat where "RCC_PLLNFRACR_FRACV_SHIFT = 3"
definition RCC_PLLNFRACR_FRACV_MASK :: u32 where "RCC_PLLNFRACR_FRACV_MASK = 0xFFF8"
definition RCC_PLLNFRACR_FRACLE :: u32 where "RCC_PLLNFRACR_FRACLE = 0x10000"
definition RCC_MP_ENCLRR_OFFSET :: nat where "RCC_MP_ENCLRR_OFFSET = 4"

lemmas rcc_layout_defs =
  RCC_SELR_REFCLK_SRC_MASK_def RCC_SELR_SRC_MASK_def RCC_MPUDIV_MASK_def
  RCC_AXIDIV_MASK_def RCC_APBXDIV_MASK_def RCC_MCUDIV_MASK_def RCC_PLLNCR_PLLON_def
  RCC_PLLNCFGR1_DIVM_SHIFT_def RCC_PLLNCFGR1_DIVM_MASK_def RCC_PLLNCFGR1_DIVN_SHIFT_def
  RCC_PLLNCFGR1_DIVN_MASK_def RCC_PLLNCFGR1_IFRGE_SHIFT_def RCC_PLLNCFGR1_IFRGE_MASK_def
  RCC_PLLNCFGR2_DIVX_MASK_def RCC_PLLNCFGR2_DIVP_SHIFT_def RCC_PLLNCFGR2_DIVP_MASK_def
  RCC_PLLNCFGR2_DIVQ_SHIFT_def RCC_PLLNCFGR2_DIVQ_MASK_def RCC_PLLNCFGR2_DIVR_SHIFT_def
  RCC_PLLNCFGR2_DIVR_MASK_def RCC_PLLNFRACR_FRACV_SHIFT_def RCC_PLLNFRACR_FRACV_MASK_def
  RCC_PLLNFRACR_FRACLE_def RCC_MP_ENCLRR_OFFSET_def

text \<open>Error numbers of \<^verbatim>\<open>errno.h\<close>.\<close>

definition EPERM :: int where "EPERM = 1"
definition EIO :: int where "EIO = 5"
definition ENXIO :: int where "ENXIO = 6"
definition EACCES :: int where "EACCES = 13"
definition EINVAL :: int where "EINVAL = 22"

definition UINT_MAX :: u32 where "UINT_MAX = 0xFFFFFFFF"

section \<open>Enumerations of the driver\<close>

text \<open>
  \<^verbatim>\<open>enum stm32mp_osc_id\<close> (declared in the driver's header, in this order) and
  \<^verbatim>\<open>enum stm32mp1_parent_id\<close>, which continues it at \<^verbatim>\<open>NB_OSC\<close>. The C names start with
  an underscore, which is dropped here; the trailing \<open>p\<close> keeps them apart from the
  device tree macros of the same name.
\<close>

definition HSIp :: nat where "HSIp = 0"
definition HSEp :: nat where "HSEp = 1"
definition CSIp :: nat where "CSIp = 2"
definition LSIp :: nat where "LSIp = 3"
definition LSEp :: nat where "LSEp = 4"
definition I2S_CKINp :: nat where "I2S_CKINp = 5"
definition NB_OSC :: nat where "NB_OSC = 6"
definition UNKNOWN_OSC_ID :: nat where "UNKNOWN_OSC_ID = 0xff"

definition HSI_KERp :: nat where "HSI_KERp = 6"
definition HSE_KERp :: nat where "HSE_KERp = 7"
definition HSE_KER_DIV2p :: nat where "HSE_KER_DIV2p = 8"
definition CSI_KERp :: nat where "CSI_KERp = 9"
definition PLL1_Pp :: nat where "PLL1_Pp = 10"
definition PLL1_Qp :: nat where "PLL1_Qp = 11"
definition PLL1_Rp :: nat where "PLL1_Rp = 12"
definition PLL2_Pp :: nat where "PLL2_Pp = 13"
definition PLL2_Qp :: nat where "PLL2_Qp = 14"
definition PLL2_Rp :: nat where "PLL2_Rp = 15"
definition PLL3_Pp :: nat where "PLL3_Pp = 16"
definition PLL3_Qp :: nat where "PLL3_Qp = 17"
definition PLL3_Rp :: nat where "PLL3_Rp = 18"
definition PLL4_Pp :: nat where "PLL4_Pp = 19"
definition PLL4_Qp :: nat where "PLL4_Qp = 20"
definition PLL4_Rp :: nat where "PLL4_Rp = 21"
definition ACLKp :: nat where "ACLKp = 22"
definition PCLK1p :: nat where "PCLK1p = 23"
definition PCLK2p :: nat where "PCLK2p = 24"
definition PCLK3p :: nat where "PCLK3p = 25"
definition PCLK4p :: nat where "PCLK4p = 26"
definition PCLK5p :: nat where "PCLK5p = 27"
definition HCLK6p :: nat where "HCLK6p = 28"
definition HCLK2p :: nat where "HCLK2p = 29"
definition CK_PERp :: nat where "CK_PERp = 30"
definition CK_MPUp :: nat where "CK_MPUp = 31"
definition CK_MCUp :: nat where "CK_MCUp = 32"
definition USB_PHY_48p :: nat where "USB_PHY_48p = 33"
definition PARENT_NB :: nat where "PARENT_NB = 34"
definition UNKNOWN_ID :: nat where "UNKNOWN_ID = 0xff"

lemmas parent_id_defs =
  HSIp_def HSEp_def CSIp_def LSIp_def LSEp_def I2S_CKINp_def NB_OSC_def UNKNOWN_OSC_ID_def
  HSI_KERp_def HSE_KERp_def HSE_KER_DIV2p_def CSI_KERp_def
  PLL1_Pp_def PLL1_Qp_def PLL1_Rp_def PLL2_Pp_def PLL2_Qp_def PLL2_Rp_def
  PLL3_Pp_def PLL3_Qp_def PLL3_Rp_def PLL4_Pp_def PLL4_Qp_def PLL4_Rp_def
  ACLKp_def PCLK1p_def PCLK2p_def PCLK3p_def PCLK4p_def PCLK5p_def HCLK6p_def HCLK2p_def
  CK_PERp_def CK_MPUp_def CK_MCUp_def USB_PHY_48p_def PARENT_NB_def UNKNOWN_ID_def

text \<open>\<^verbatim>\<open>enum stm32mp1_parent_sel\<close>.\<close>

definition I2C12_SEL :: nat where "I2C12_SEL = 0"
definition I2C35_SEL :: nat where "I2C35_SEL = 1"
definition STGEN_SEL :: nat where "STGEN_SEL = 2"
definition I2C46_SEL :: nat where "I2C46_SEL = 3"
definition SPI6_SEL :: nat where "SPI6_SEL = 4"
definition UART1_SEL :: nat where "UART1_SEL = 5"
definition RNG1_SEL :: nat where "RNG1_SEL = 6"
definition UART6_SEL :: nat where "UART6_SEL = 7"
definition UART24_SEL :: nat where "UART24_SEL = 8"
definition UART35_SEL :: nat where "UART35_SEL = 9"
definition UART78_SEL :: nat where "UART78_SEL = 10"
definition SDMMC12_SEL :: nat where "SDMMC12_SEL = 11"
definition SDMMC3_SEL :: nat where "SDMMC3_SEL = 12"
definition QSPI_SEL :: nat where "QSPI_SEL = 13"
definition FMC_SEL :: nat where "FMC_SEL = 14"
definition AXIS_SEL :: nat where "AXIS_SEL = 15"
definition MCUS_SEL :: nat where "MCUS_SEL = 16"
definition USBPHY_SEL :: nat where "USBPHY_SEL = 17"
definition USBO_SEL :: nat where "USBO_SEL = 18"
definition RTC_SEL :: nat where "RTC_SEL = 19"
definition MPU_SEL :: nat where "MPU_SEL = 20"
definition PER_SEL :: nat where "PER_SEL = 21"
definition PARENT_SEL_NB :: nat where "PARENT_SEL_NB = 22"
definition UNKNOWN_SEL :: nat where "UNKNOWN_SEL = 0xff"

lemmas parent_sel_defs =
  I2C12_SEL_def I2C35_SEL_def STGEN_SEL_def I2C46_SEL_def SPI6_SEL_def UART1_SEL_def
  RNG1_SEL_def UART6_SEL_def UART24_SEL_def UART35_SEL_def UART78_SEL_def SDMMC12_SEL_def
  SDMMC3_SEL_def QSPI_SEL_def FMC_SEL_def AXIS_SEL_def MCUS_SEL_def USBPHY_SEL_def
  USBO_SEL_def RTC_SEL_def MPU_SEL_def PER_SEL_def PARENT_SEL_NB_def UNKNOWN_SEL_def

text \<open>\<^verbatim>\<open>enum stm32mp1_pll_id\<close>, \<^verbatim>\<open>enum stm32mp1_div_id\<close> and \<^verbatim>\<open>enum stm32mp1_pllcfg\<close>.\<close>

definition PLL1i :: nat where "PLL1i = 0"
definition PLL2i :: nat where "PLL2i = 1"
definition PLL3i :: nat where "PLL3i = 2"
definition PLL4i :: nat where "PLL4i = 3"
definition PLL_NB :: nat where "PLL_NB = 4"

definition DIV_P :: nat where "DIV_P = 0"
definition DIV_Q :: nat where "DIV_Q = 1"
definition DIV_R :: nat where "DIV_R = 2"
definition DIV_NB :: nat where "DIV_NB = 3"

definition PLLCFG_M :: nat where "PLLCFG_M = 0"
definition PLLCFG_N :: nat where "PLLCFG_N = 1"
definition PLLCFG_P :: nat where "PLLCFG_P = 2"
definition PLLCFG_Q :: nat where "PLLCFG_Q = 3"
definition PLLCFG_R :: nat where "PLLCFG_R = 4"
definition PLLCFG_O :: nat where "PLLCFG_O = 5"
definition PLLCFG_NB :: nat where "PLLCFG_NB = 6"

lemmas pll_enum_defs =
  PLL1i_def PLL2i_def PLL3i_def PLL4i_def PLL_NB_def DIV_P_def DIV_Q_def DIV_R_def DIV_NB_def
  PLLCFG_M_def PLLCFG_N_def PLLCFG_P_def PLLCFG_Q_def PLLCFG_R_def PLLCFG_O_def PLLCFG_NB_def

datatype plltype = PLL_800 | PLL_1600

section \<open>Static tables\<close>

text \<open>The C structures; the record of \<^verbatim>\<open>struct x\<close> is named \<open>x_s\<close>.\<close>

record stm32mp1_pll_s =
  refclk_min :: nat
  refclk_max :: nat
  divn_max :: nat

record stm32mp1_clk_gate_s =
  g_offset :: nat
  g_bit :: nat
  g_index :: nat
  g_set_clr :: nat
  g_secure :: nat
  g_sel :: nat
  g_fixed :: nat

record stm32mp1_clk_sel_s =
  s_offset :: nat
  s_src :: nat
  s_msk :: nat
  s_nb_parent :: nat
  s_parent :: "nat list"

record stm32mp1_clk_pll_s =
  plltype :: plltype
  rckxselr :: nat
  pllxcfgr1 :: nat
  pllxcfgr2 :: nat
  pllxfracr :: nat
  pllxcr :: nat
  pllxcsgr :: nat
  refclk :: "nat \<Rightarrow> nat"

text \<open>
  The fields of the C structures are \<^verbatim>\<open>uint8_t\<close> and \<^verbatim>\<open>uint16_t\<close>: an initialiser is
  truncated to the width of its field.
\<close>

definition u8 :: "nat \<Rightarrow> nat" where "u8 n = n mod 256"
definition u16 :: "nat \<Rightarrow> nat" where "u16 n = n mod 65536"

definition SEC :: nat where "SEC = 1"
definition N_S :: nat where "N_S = 0"

text \<open>The four gate macros \<^verbatim>\<open>_CLK_SELEC\<close>, \<^verbatim>\<open>_CLK_FIXED\<close>, \<^verbatim>\<open>_CLK_SC_SELEC\<close>, \<^verbatim>\<open>_CLK_SC_FIXED\<close>.\<close>

definition CLK_SELEC :: "nat \<Rightarrow> nat \<Rightarrow> nat \<Rightarrow> nat \<Rightarrow> nat \<Rightarrow> stm32mp1_clk_gate_s" where
  "CLK_SELEC sec off b idx s =
     \<lparr>g_offset = u16 off, g_bit = u8 b, g_index = u8 idx, g_set_clr = 0, g_secure = u8 sec,
      g_sel = u8 s, g_fixed = u8 UNKNOWN_ID\<rparr>"

definition CLK_FIXED :: "nat \<Rightarrow> nat \<Rightarrow> nat \<Rightarrow> nat \<Rightarrow> nat \<Rightarrow> stm32mp1_clk_gate_s" where
  "CLK_FIXED sec off b idx f =
     \<lparr>g_offset = u16 off, g_bit = u8 b, g_index = u8 idx, g_set_clr = 0, g_secure = u8 sec,
      g_sel = u8 UNKNOWN_SEL, g_fixed = u8 f\<rparr>"

definition CLK_SC_SELEC :: "nat \<Rightarrow> nat \<Rightarrow> nat \<Rightarrow> nat \<Rightarrow> nat \<Rightarrow> stm32mp1_clk_gate_s" where
  "CLK_SC_SELEC sec off b idx s =
     \<lparr>g_offset = u16 off, g_bit = u8 b, g_index = u8 idx, g_set_clr = 1, g_secure = u8 sec,
      g_sel = u8 s, g_fixed = u8 UNKNOWN_ID\<rparr>"

definition CLK_SC_FIXED :: "nat \<Rightarrow> nat \<Rightarrow> nat \<Rightarrow> nat \<Rightarrow> nat \<Rightarrow> stm32mp1_clk_gate_s" where
  "CLK_SC_FIXED sec off b idx f =
     \<lparr>g_offset = u16 off, g_bit = u8 b, g_index = u8 idx, g_set_clr = 1, g_secure = u8 sec,
      g_sel = u8 UNKNOWN_SEL, g_fixed = u8 f\<rparr>"

text \<open>
  The gate table \<^verbatim>\<open>stm32mp1_clk_gate[]\<close>. Its entries depend on the image the file is
  compiled for (\<^verbatim>\<open>IMAGE_BL2\<close> or \<^verbatim>\<open>IMAGE_BL32\<close>).
\<close>

definition only :: "image \<Rightarrow> image \<Rightarrow> 'a list \<Rightarrow> 'a list" where
  "only img i xs = (if img = i then xs else [])"

definition stm32mp1_clk_gate :: "header \<Rightarrow> image \<Rightarrow> stm32mp1_clk_gate_s list" where
  "stm32mp1_clk_gate H img =
    [ CLK_FIXED SEC (H ''RCC_DDRITFCR'') 0 (H ''DDRC1'') ACLKp,
      CLK_FIXED SEC (H ''RCC_DDRITFCR'') 1 (H ''DDRC1LP'') ACLKp,
      CLK_FIXED SEC (H ''RCC_DDRITFCR'') 2 (H ''DDRC2'') ACLKp,
      CLK_FIXED SEC (H ''RCC_DDRITFCR'') 3 (H ''DDRC2LP'') ACLKp,
      CLK_FIXED SEC (H ''RCC_DDRITFCR'') 4 (H ''DDRPHYC'') PLL2_Rp,
      CLK_FIXED SEC (H ''RCC_DDRITFCR'') 5 (H ''DDRPHYCLP'') PLL2_Rp,
      CLK_FIXED SEC (H ''RCC_DDRITFCR'') 6 (H ''DDRCAPB'') PCLK4p,
      CLK_FIXED SEC (H ''RCC_DDRITFCR'') 7 (H ''DDRCAPBLP'') PCLK4p,
      CLK_FIXED SEC (H ''RCC_DDRITFCR'') 8 (H ''AXIDCG'') ACLKp,
      CLK_FIXED SEC (H ''RCC_DDRITFCR'') 9 (H ''DDRPHYCAPB'') PCLK4p,
      CLK_FIXED SEC (H ''RCC_DDRITFCR'') 10 (H ''DDRPHYCAPBLP'') PCLK4p ]
    @ only img IMAGE_BL32
    [ CLK_SC_FIXED N_S (H ''RCC_MP_APB1ENSETR'') 6 (H ''TIM12_K'') PCLK1p ]
    @ only img IMAGE_BL2
    [ CLK_SC_SELEC N_S (H ''RCC_MP_APB1ENSETR'') 14 (H ''USART2_K'') UART24_SEL,
      CLK_SC_SELEC N_S (H ''RCC_MP_APB1ENSETR'') 15 (H ''USART3_K'') UART35_SEL,
      CLK_SC_SELEC N_S (H ''RCC_MP_APB1ENSETR'') 16 (H ''UART4_K'') UART24_SEL,
      CLK_SC_SELEC N_S (H ''RCC_MP_APB1ENSETR'') 17 (H ''UART5_K'') UART35_SEL,
      CLK_SC_SELEC N_S (H ''RCC_MP_APB1ENSETR'') 18 (H ''UART7_K'') UART78_SEL,
      CLK_SC_SELEC N_S (H ''RCC_MP_APB1ENSETR'') 19 (H ''UART8_K'') UART78_SEL ]
    @ only img IMAGE_BL32
    [ CLK_SC_FIXED N_S (H ''RCC_MP_APB2ENSETR'') 2 (H ''TIM15_K'') PCLK2p ]
    @ only img IMAGE_BL2
    [ CLK_SC_SELEC N_S (H ''RCC_MP_APB2ENSETR'') 13 (H ''USART6_K'') UART6_SEL ]
    @ [ CLK_SC_FIXED N_S (H ''RCC_MP_APB3ENSETR'') 11 (H ''SYSCFG'') UNKNOWN_ID ]
    @ only img IMAGE_BL32
    [ CLK_SC_SELEC N_S (H ''RCC_MP_APB4ENSETR'') 0 (H ''LTDC_PX'') UNKNOWN_SEL ]
    @ [ CLK_SC_SELEC N_S (H ''RCC_MP_APB4ENSETR'') 8 (H ''DDRPERFM'') UNKNOWN_SEL,
      CLK_SC_SELEC N_S (H ''RCC_MP_APB4ENSETR'') 15 (H ''IWDG2'') UNKNOWN_SEL,
      CLK_SC_SELEC N_S (H ''RCC_MP_APB4ENSETR'') 16 (H ''USBPHY_K'') USBPHY_SEL,
      CLK_SC_SELEC SEC (H ''RCC_MP_APB5ENSETR'') 0 (H ''SPI6_K'') SPI6_SEL,
      CLK_SC_SELEC SEC (H ''RCC_MP_APB5ENSETR'') 2 (H ''I2C4_K'') I2C46_SEL,
      CLK_SC_SELEC SEC (H ''RCC_MP_APB5ENSETR'') 3 (H ''I2C6_K'') I2C46_SEL,
      CLK_SC_SELEC SEC (H ''RCC_MP_APB5ENSETR'') 4 (H ''USART1_K'') UART1_SEL,
      CLK_SC_FIXED SEC (H ''RCC_MP_APB5ENSETR'') 8 (H ''RTCAPB'') PCLK5p,
      CLK_SC_FIXED SEC (H ''RCC_MP_APB5ENSETR'') 11 (H ''TZC1'') PCLK5p,
      CLK_SC_FIXED SEC (H ''RCC_MP_APB5ENSETR'') 12 (H ''TZC2'') PCLK5p,
      CLK_SC_FIXED SEC (H ''RCC_MP_APB5ENSETR'') 13 (H ''TZPC'') PCLK5p,
      CLK_SC_FIXED SEC (H ''RCC_MP_APB5ENSETR'') 15 (H ''IWDG1'') PCLK5p,
      CLK_SC_FIXED SEC (H ''RCC_MP_APB5ENSETR'') 16 (H ''BSEC'') PCLK5p,
      CLK_SC_SELEC SEC (H ''RCC_MP_APB5ENSETR'') 20 (H ''STGEN_K'') STGEN_SEL,
      CLK_SELEC SEC (H ''RCC_BDCR'') 20 (H ''RTC'') RTC_SEL ]
    @ only img IMAGE_BL32
    [ CLK_SC_SELEC N_S (H ''RCC_MP_AHB2ENSETR'') 0 (H ''DMA1'') UNKNOWN_SEL,
      CLK_SC_SELEC N_S (H ''RCC_MP_AHB2ENSETR'') 1 (H ''DMA2'') UNKNOWN_SEL,
      CLK_SC_SELEC N_S (H ''RCC_MP_AHB2ENSETR'') 8 (H ''USBO_K'') USBO_SEL,
      CLK_SC_SELEC N_S (H ''RCC_MP_AHB2ENSETR'') 16 (H ''SDMMC3_K'') SDMMC3_SEL ]
    @ [ CLK_SC_SELEC N_S (H ''RCC_MP_AHB4ENSETR'') 0 (H ''GPIOA'') UNKNOWN_SEL,
      CLK_SC_SELEC N_S (H ''RCC_MP_AHB4ENSETR'') 1 (H ''GPIOB'') UNKNOWN_SEL,
      CLK_SC_SELEC N_S (H ''RCC_MP_AHB4ENSETR'') 2 (H ''GPIOC'') UNKNOWN_SEL,
      CLK_SC_SELEC N_S (H ''RCC_MP_AHB4ENSETR'') 3 (H ''GPIOD'') UNKNOWN_SEL,
      CLK_SC_SELEC N_S (H ''RCC_MP_AHB4ENSETR'') 4 (H ''GPIOE'') UNKNOWN_SEL,
      CLK_SC_SELEC N_S (H ''RCC_MP_AHB4ENSETR'') 5 (H ''GPIOF'') UNKNOWN_SEL,
      CLK_SC_SELEC N_S (H ''RCC_MP_AHB4ENSETR'') 6 (H ''GPIOG'') UNKNOWN_SEL,
      CLK_SC_SELEC N_S (H ''RCC_MP_AHB4ENSETR'') 7 (H ''GPIOH'') UNKNOWN_SEL,
      CLK_SC_SELEC N_S (H ''RCC_MP_AHB4ENSETR'') 8 (H ''GPIOI'') UNKNOWN_SEL,
      CLK_SC_SELEC N_S (H ''RCC_MP_AHB4ENSETR'') 9 (H ''GPIOJ'') UNKNOWN_SEL,
      CLK_SC_SELEC N_S (H ''RCC_MP_AHB4ENSETR'') 10 (H ''GPIOK'') UNKNOWN_SEL,
      CLK_SC_FIXED SEC (H ''RCC_MP_AHB5ENSETR'') 0 (H ''GPIOZ'') PCLK5p,
      CLK_SC_FIXED SEC (H ''RCC_MP_AHB5ENSETR'') 4 (H ''CRYP1'') PCLK5p,
      CLK_SC_FIXED SEC (H ''RCC_MP_AHB5ENSETR'') 5 (H ''HASH1'') PCLK5p,
      CLK_SC_SELEC SEC (H ''RCC_MP_AHB5ENSETR'') 6 (H ''RNG1_K'') RNG1_SEL,
      CLK_SC_FIXED SEC (H ''RCC_MP_AHB5ENSETR'') 8 (H ''BKPSRAM'') PCLK5p ]
    @ only img IMAGE_BL32
    [ CLK_SC_FIXED SEC (H ''RCC_MP_TZAHB6ENSETR'') 0 (H ''MDMA'') ACLKp,
      CLK_SC_SELEC N_S (H ''RCC_MP_AHB6ENSETR'') 5 (H ''GPU'') UNKNOWN_SEL,
      CLK_SC_FIXED N_S (H ''RCC_MP_AHB6ENSETR'') 10 (H ''ETHMAC'') ACLKp ]
    @ only img IMAGE_BL2
    [ CLK_SC_SELEC N_S (H ''RCC_MP_AHB6ENSETR'') 12 (H ''FMC_K'') FMC_SEL,
      CLK_SC_SELEC N_S (H ''RCC_MP_AHB6ENSETR'') 14 (H ''QSPI_K'') QSPI_SEL ]
    @ [ CLK_SC_SELEC N_S (H ''RCC_MP_AHB6ENSETR'') 16 (H ''SDMMC1_K'') SDMMC12_SEL,
      CLK_SC_SELEC N_S (H ''RCC_MP_AHB6ENSETR'') 17 (H ''SDMMC2_K'') SDMMC12_SEL ]
    @ only img IMAGE_BL32
    [ CLK_SC_SELEC N_S (H ''RCC_MP_AHB6ENSETR'') 24 (H ''USBH'') UNKNOWN_SEL ]
    @ [ CLK_SELEC N_S (H ''RCC_DBGCFGR'') 8 (H ''CK_DBG'') UNKNOWN_SEL ]"

definition NB_GATES :: "header \<Rightarrow> image \<Rightarrow> nat" where
  "NB_GATES H img = length (stm32mp1_clk_gate H img)"

text \<open>The parent lists of the selectors.\<close>

definition i2c12_parents :: "nat list" where
  "i2c12_parents = [PCLK1p, PLL4_Rp, HSI_KERp, CSI_KERp]"
definition i2c35_parents :: "nat list" where
  "i2c35_parents = [PCLK1p, PLL4_Rp, HSI_KERp, CSI_KERp]"
definition stgen_parents :: "nat list" where
  "stgen_parents = [HSI_KERp, HSE_KERp]"
definition i2c46_parents :: "nat list" where
  "i2c46_parents = [PCLK5p, PLL3_Qp, HSI_KERp, CSI_KERp]"
definition spi6_parents :: "nat list" where
  "spi6_parents = [PCLK5p, PLL4_Qp, HSI_KERp, CSI_KERp, HSE_KERp, PLL3_Qp]"
definition usart1_parents :: "nat list" where
  "usart1_parents = [PCLK5p, PLL3_Qp, HSI_KERp, CSI_KERp, PLL4_Qp, HSE_KERp]"
definition rng1_parents :: "nat list" where
  "rng1_parents = [CSIp, PLL4_Rp, LSEp, LSIp]"
definition uart6_parents :: "nat list" where
  "uart6_parents = [PCLK2p, PLL4_Qp, HSI_KERp, CSI_KERp, HSE_KERp]"
definition uart234578_parents :: "nat list" where
  "uart234578_parents = [PCLK1p, PLL4_Qp, HSI_KERp, CSI_KERp, HSE_KERp]"
definition sdmmc12_parents :: "nat list" where
  "sdmmc12_parents = [HCLK6p, PLL3_Rp, PLL4_Pp, HSI_KERp]"
definition sdmmc3_parents :: "nat list" where
  "sdmmc3_parents = [HCLK2p, PLL3_Rp, PLL4_Pp, HSI_KERp]"
definition qspi_parents :: "nat list" where
  "qspi_parents = [ACLKp, PLL3_Rp, PLL4_Pp, CK_PERp]"
definition fmc_parents :: "nat list" where
  "fmc_parents = [ACLKp, PLL3_Rp, PLL4_Pp, CK_PERp]"
definition axiss_parents :: "nat list" where
  "axiss_parents = [HSIp, HSEp, PLL2_Pp]"
definition mcuss_parents :: "nat list" where
  "mcuss_parents = [HSIp, HSEp, CSIp, PLL3_Pp]"
definition usbphy_parents :: "nat list" where
  "usbphy_parents = [HSE_KERp, PLL4_Rp, HSE_KER_DIV2p]"
definition usbo_parents :: "nat list" where
  "usbo_parents = [PLL4_Rp, USB_PHY_48p]"
definition rtc_parents :: "nat list" where
  "rtc_parents = [UNKNOWN_ID, LSEp, LSIp, HSEp]"
definition mpu_parents :: "nat list" where
  "mpu_parents = [HSIp, HSEp, PLL1_Pp, PLL1_Pp]"
definition per_parents :: "nat list" where
  "per_parents = [HSIp, HSEp, CSIp]"

lemmas parents_defs =
  i2c12_parents_def i2c35_parents_def stgen_parents_def i2c46_parents_def spi6_parents_def
  usart1_parents_def rng1_parents_def uart6_parents_def uart234578_parents_def
  sdmmc12_parents_def sdmmc3_parents_def qspi_parents_def fmc_parents_def axiss_parents_def
  mcuss_parents_def usbphy_parents_def usbo_parents_def rtc_parents_def mpu_parents_def
  per_parents_def

text \<open>
  \<^verbatim>\<open>_CLK_PARENT_SEL(_label, _rcc_selr, _parents)\<close> pastes the names of the shift and mask
  macros together from the register name and the label.
\<close>

definition CLK_PARENT_SEL :: "header \<Rightarrow> string \<Rightarrow> string \<Rightarrow> nat list \<Rightarrow> stm32mp1_clk_sel_s"
  where
  "CLK_PARENT_SEL H label rcc_selr parents =
     \<lparr>s_offset = u16 (H rcc_selr),
      s_src = u8 (H (rcc_selr @ ''_'' @ label @ ''SRC_SHIFT'')),
      s_msk = u8 (H (rcc_selr @ ''_'' @ label @ ''SRC_MASK'') div
                  2 ^ H (rcc_selr @ ''_'' @ label @ ''SRC_SHIFT'')),
      s_nb_parent = u8 (length parents),
      s_parent = parents\<rparr>"

text \<open>
  \<^verbatim>\<open>stm32mp1_clk_sel[_PARENT_SEL_NB]\<close> is written with designated initialisers; the list
  below is in the order of the enumeration, so that entry \<open>s\<close> is \<open>stm32mp1_clk_sel H ! s\<close>.
\<close>

definition stm32mp1_clk_sel :: "header \<Rightarrow> stm32mp1_clk_sel_s list" where
  "stm32mp1_clk_sel H =
    [ CLK_PARENT_SEL H ''I2C12'' ''RCC_I2C12CKSELR'' i2c12_parents,
      CLK_PARENT_SEL H ''I2C35'' ''RCC_I2C35CKSELR'' i2c35_parents,
      CLK_PARENT_SEL H ''STGEN'' ''RCC_STGENCKSELR'' stgen_parents,
      CLK_PARENT_SEL H ''I2C46'' ''RCC_I2C46CKSELR'' i2c46_parents,
      CLK_PARENT_SEL H ''SPI6'' ''RCC_SPI6CKSELR'' spi6_parents,
      CLK_PARENT_SEL H ''UART1'' ''RCC_UART1CKSELR'' usart1_parents,
      CLK_PARENT_SEL H ''RNG1'' ''RCC_RNG1CKSELR'' rng1_parents,
      CLK_PARENT_SEL H ''UART6'' ''RCC_UART6CKSELR'' uart6_parents,
      CLK_PARENT_SEL H ''UART24'' ''RCC_UART24CKSELR'' uart234578_parents,
      CLK_PARENT_SEL H ''UART35'' ''RCC_UART35CKSELR'' uart234578_parents,
      CLK_PARENT_SEL H ''UART78'' ''RCC_UART78CKSELR'' uart234578_parents,
      CLK_PARENT_SEL H ''SDMMC12'' ''RCC_SDMMC12CKSELR'' sdmmc12_parents,
      CLK_PARENT_SEL H ''SDMMC3'' ''RCC_SDMMC3CKSELR'' sdmmc3_parents,
      CLK_PARENT_SEL H ''QSPI'' ''RCC_QSPICKSELR'' qspi_parents,
      CLK_PARENT_SEL H ''FMC'' ''RCC_FMCCKSELR'' fmc_parents,
      CLK_PARENT_SEL H ''AXIS'' ''RCC_ASSCKSELR'' axiss_parents,
      CLK_PARENT_SEL H ''MCUS'' ''RCC_MSSCKSELR'' mcuss_parents,
      CLK_PARENT_SEL H ''USBPHY'' ''RCC_USBCKSELR'' usbphy_parents,
      CLK_PARENT_SEL H ''USBO'' ''RCC_USBCKSELR'' usbo_parents,
      CLK_PARENT_SEL H ''RTC'' ''RCC_BDCR'' rtc_parents,
      CLK_PARENT_SEL H ''MPU'' ''RCC_MPCKSELR'' mpu_parents,
      CLK_PARENT_SEL H ''PER'' ''RCC_CPERCKSELR'' per_parents ]"

text \<open>\<^verbatim>\<open>stm32mp1_pll[PLL_TYPE_NB]\<close>: the reference clock range in MHz and the largest DIVN.\<close>

fun stm32mp1_pll :: "plltype \<Rightarrow> stm32mp1_pll_s" where
  "stm32mp1_pll PLL_800 = \<lparr>refclk_min = 4, refclk_max = 16, divn_max = 99\<rparr>"
| "stm32mp1_pll PLL_1600 = \<lparr>refclk_min = 8, refclk_max = 16, divn_max = 199\<rparr>"

definition pllncfgr2 :: "nat list" where
  "pllncfgr2 = [RCC_PLLNCFGR2_DIVP_SHIFT, RCC_PLLNCFGR2_DIVQ_SHIFT, RCC_PLLNCFGR2_DIVR_SHIFT]"

definition refclk4 :: "nat \<Rightarrow> nat \<Rightarrow> nat \<Rightarrow> nat \<Rightarrow> nat \<Rightarrow> nat" where
  "refclk4 p1 p2 p3 p4 i = (if i = 0 then p1 else if i = 1 then p2 else if i = 2 then p3 else p4)"

definition CLK_PLL ::
  "plltype \<Rightarrow> nat \<Rightarrow> nat \<Rightarrow> nat \<Rightarrow> nat \<Rightarrow> nat \<Rightarrow> nat \<Rightarrow> nat \<Rightarrow> nat \<Rightarrow> nat \<Rightarrow> nat \<Rightarrow> stm32mp1_clk_pll_s"
  where
  "CLK_PLL type off1 off2 off3 off4 off5 off6 p1 p2 p3 p4 =
     \<lparr>plltype = type, rckxselr = u16 off1, pllxcfgr1 = u16 off2, pllxcfgr2 = u16 off3,
      pllxfracr = u16 off4, pllxcr = u16 off5, pllxcsgr = u16 off6,
      refclk = refclk4 p1 p2 p3 p4\<rparr>"

definition stm32mp1_clk_pll :: "header \<Rightarrow> stm32mp1_clk_pll_s list" where
  "stm32mp1_clk_pll H =
    [ CLK_PLL PLL_1600 (H ''RCC_RCK12SELR'') (H ''RCC_PLL1CFGR1'') (H ''RCC_PLL1CFGR2'')
        (H ''RCC_PLL1FRACR'') (H ''RCC_PLL1CR'') (H ''RCC_PLL1CSGR'')
        HSIp HSEp UNKNOWN_OSC_ID UNKNOWN_OSC_ID,
      CLK_PLL PLL_1600 (H ''RCC_RCK12SELR'') (H ''RCC_PLL2CFGR1'') (H ''RCC_PLL2CFGR2'')
        (H ''RCC_PLL2FRACR'') (H ''RCC_PLL2CR'') (H ''RCC_PLL2CSGR'')
        HSIp HSEp UNKNOWN_OSC_ID UNKNOWN_OSC_ID,
      CLK_PLL PLL_800 (H ''RCC_RCK3SELR'') (H ''RCC_PLL3CFGR1'') (H ''RCC_PLL3CFGR2'')
        (H ''RCC_PLL3FRACR'') (H ''RCC_PLL3CR'') (H ''RCC_PLL3CSGR'')
        HSIp HSEp CSIp UNKNOWN_OSC_ID,
      CLK_PLL PLL_800 (H ''RCC_RCK4SELR'') (H ''RCC_PLL4CFGR1'') (H ''RCC_PLL4CFGR2'')
        (H ''RCC_PLL4FRACR'') (H ''RCC_PLL4CR'') (H ''RCC_PLL4CSGR'')
        HSIp HSEp CSIp I2S_CKINp ]"

text \<open>The prescaler tables.\<close>

definition stm32mp1_mcu_div :: "nat list" where
  "stm32mp1_mcu_div = [0, 1, 2, 3, 4, 6, 7, 8, 9, 9, 9, 9, 9, 9, 9, 9]"

definition stm32mp1_mpu_apbx_div :: "nat list" where
  "stm32mp1_mpu_apbx_div = [0, 1, 2, 3, 4, 4, 4, 4]"

definition stm32mp1_axi_div :: "ulong list" where
  "stm32mp1_axi_div = [1, 2, 3, 4, 4, 4, 4, 4]"

definition gate_ref :: "header \<Rightarrow> image \<Rightarrow> nat \<Rightarrow> stm32mp1_clk_gate_s" where
  "gate_ref H img idx = stm32mp1_clk_gate H img ! idx"

definition gate_is_non_secure :: "stm32mp1_clk_gate_s \<Rightarrow> bool" where
  "gate_is_non_secure gate = (g_secure gate = N_S)"

definition clk_sel_ref :: "header \<Rightarrow> nat \<Rightarrow> stm32mp1_clk_sel_s" where
  "clk_sel_ref H idx = stm32mp1_clk_sel H ! idx"

definition pll_ref :: "header \<Rightarrow> nat \<Rightarrow> stm32mp1_clk_pll_s" where
  "pll_ref H idx = stm32mp1_clk_pll H ! idx"

section \<open>Parent resolver\<close>

text \<open>
  \<^verbatim>\<open>parent_id_clock_id[_PARENT_NB]\<close>, in the order of the enumeration. The entries of
  \<^verbatim>\<open>_HCLK6\<close> and \<^verbatim>\<open>_HCLK2\<close> have no initialiser and are 0.
\<close>

definition parent_id_clock_id :: "header \<Rightarrow> nat list" where
  "parent_id_clock_id H = map u8
    [ H ''CK_HSI'', H ''CK_HSE'', H ''CK_CSI'', H ''CK_LSI'', H ''CK_LSE'', UNKNOWN_ID,
      H ''CK_HSI'', H ''CK_HSE'', H ''CK_HSE_DIV2'', H ''CK_CSI'',
      H ''PLL1_P'', H ''PLL1_Q'', H ''PLL1_R'', H ''PLL2_P'', H ''PLL2_Q'', H ''PLL2_R'',
      H ''PLL3_P'', H ''PLL3_Q'', H ''PLL3_R'', H ''PLL4_P'', H ''PLL4_Q'', H ''PLL4_R'',
      H ''CK_AXI'', H ''CK_AXI'', H ''CK_AXI'', H ''CK_AXI'', H ''CK_AXI'', H ''CK_AXI'',
      0, 0,
      H ''CK_PER'', H ''CK_MPU'', H ''CK_MCU'', UNKNOWN_ID ]"

text \<open>The search loops return the first index whose entry matches.\<close>

fun first_index :: "('a \<Rightarrow> bool) \<Rightarrow> 'a list \<Rightarrow> nat \<Rightarrow> nat option" where
  "first_index P [] n = None"
| "first_index P (x # xs) n = (if P x then Some n else first_index P xs (Suc n))"

definition clock_id2parent_id :: "header \<Rightarrow> nat \<Rightarrow> nat" where
  "clock_id2parent_id H cid =
     (case first_index (\<lambda>c. c = cid) (parent_id_clock_id H) 0 of
        Some n \<Rightarrow> n
      | None \<Rightarrow> UNKNOWN_ID)"

text \<open>\<^verbatim>\<open>stm32mp1_clk_get_gated_id\<close>: \<open>None\<close> stands for the return value \<^verbatim>\<open>-EINVAL\<close>.\<close>

definition stm32mp1_clk_get_gated_id :: "header \<Rightarrow> image \<Rightarrow> nat \<Rightarrow> nat option" where
  "stm32mp1_clk_get_gated_id H img cid =
     first_index (\<lambda>g. g_index g = cid) (stm32mp1_clk_gate H img) 0"

definition stm32mp1_clk_get_sel :: "header \<Rightarrow> image \<Rightarrow> nat \<Rightarrow> nat" where
  "stm32mp1_clk_get_sel H img i = g_sel (gate_ref H img i)"

definition stm32mp1_clk_get_fixed_parent :: "header \<Rightarrow> image \<Rightarrow> nat \<Rightarrow> nat" where
  "stm32mp1_clk_get_fixed_parent H img i = g_fixed (gate_ref H img i)"

text \<open>The field that \<^verbatim>\<open>stm32mp1_clk_get_parent\<close> reads from the selector register.\<close>

definition sel_field :: "rcc_regs \<Rightarrow> stm32mp1_clk_sel_s \<Rightarrow> u32" where
  "sel_field regs sel =
     drop_bit (s_src sel) (regs (s_offset sel) AND push_bit (s_src sel) (of_nat (s_msk sel)))"

definition stm32mp1_clk_get_parent :: "header \<Rightarrow> image \<Rightarrow> rcc_regs \<Rightarrow> nat \<Rightarrow> int ret" where
  "stm32mp1_clk_get_parent H img regs cid =
     (let i = clock_id2parent_id H cid in
      if i \<noteq> UNKNOWN_ID then Ret (int i)
      else
        case stm32mp1_clk_get_gated_id H img cid of
          None \<Rightarrow> Panic
        | Some i \<Rightarrow>
            let p = stm32mp1_clk_get_fixed_parent H img i in
            if p < PARENT_NB then Ret (int p)
            else
              let s = stm32mp1_clk_get_sel H img i in
              if s = UNKNOWN_SEL then Ret (- EINVAL)
              else if s \<ge> PARENT_SEL_NB then Panic
              else
                let sel = clk_sel_ref H s;
                    p_sel = sel_field regs sel
                in if unat p_sel < s_nb_parent sel
                   then Ret (int (s_parent sel ! unat p_sel))
                   else Ret (- EINVAL))"

section \<open>PLL mathematics and the rate engine\<close>

text \<open>\<open>osc\<close> is the array \<^verbatim>\<open>stm32mp1_osc[NB_OSC]\<close> of oscillator frequencies.\<close>

definition stm32mp1_clk_get_fixed :: "(nat \<Rightarrow> ulong) \<Rightarrow> nat \<Rightarrow> ulong" where
  "stm32mp1_clk_get_fixed osc idx = (if idx \<ge> NB_OSC then 0 else osc idx)"

definition stm32mp1_pll_get_fref :: "(nat \<Rightarrow> ulong) \<Rightarrow> rcc_regs \<Rightarrow> stm32mp1_clk_pll_s \<Rightarrow> ulong"
  where
  "stm32mp1_pll_get_fref osc regs pll =
     (let selr = regs (rckxselr pll);
          src = selr AND RCC_SELR_REFCLK_SRC_MASK
      in stm32mp1_clk_get_fixed osc (refclk pll (unat src)))"

text \<open>
  \<^verbatim>\<open>stm32mp1_pll_get_fvco\<close>. With \<^verbatim>\<open>FRACLE\<close> set the numerator and the denominator are
  \<^verbatim>\<open>unsigned long long\<close> and the quotient is cast to \<^verbatim>\<open>unsigned long\<close>; otherwise the
  whole expression is computed on \<^verbatim>\<open>unsigned long\<close> and \<^verbatim>\<open>uint32_t\<close> operands.
\<close>

definition stm32mp1_pll_get_fvco :: "(nat \<Rightarrow> ulong) \<Rightarrow> rcc_regs \<Rightarrow> stm32mp1_clk_pll_s \<Rightarrow> ulong"
  where
  "stm32mp1_pll_get_fvco osc regs pll =
     (let cfgr1 = regs (pllxcfgr1 pll);
          fracr = regs (pllxfracr pll);
          divm = drop_bit RCC_PLLNCFGR1_DIVM_SHIFT (cfgr1 AND RCC_PLLNCFGR1_DIVM_MASK);
          divn = cfgr1 AND RCC_PLLNCFGR1_DIVN_MASK;
          refclk = stm32mp1_pll_get_fref osc regs pll
      in if fracr AND RCC_PLLNFRACR_FRACLE \<noteq> 0 then
           let fracv = drop_bit RCC_PLLNFRACR_FRACV_SHIFT (fracr AND RCC_PLLNFRACR_FRACV_MASK);
               numerator0 = push_bit 13 ((ucast divn :: u64) + 1) + ucast fracv;
               numerator = ucast refclk * numerator0;
               denominator = push_bit 13 ((ucast divm :: u64) + 1)
           in ucast (numerator div denominator)
         else refclk * (divn + 1) div (divm + 1))"

definition stm32mp1_read_pll_freq ::
  "header \<Rightarrow> (nat \<Rightarrow> ulong) \<Rightarrow> rcc_regs \<Rightarrow> nat \<Rightarrow> nat \<Rightarrow> ulong" where
  "stm32mp1_read_pll_freq H osc regs pll_id div_id =
     (let pll = pll_ref H pll_id in
      if div_id \<ge> DIV_NB then 0
      else
        let cfgr2 = regs (pllxcfgr2 pll);
            divy = drop_bit (pllncfgr2 ! div_id) cfgr2 AND RCC_PLLNCFGR2_DIVX_MASK
        in stm32mp1_pll_get_fvco osc regs pll div (divy + 1))"

text \<open>A macro of the header as a case label of a \<^verbatim>\<open>switch\<close> on a \<^verbatim>\<open>uint32_t\<close>.\<close>

definition hv :: "header \<Rightarrow> string \<Rightarrow> u32" where
  "hv H name = of_nat (H name)"

text \<open>
  \<^verbatim>\<open>get_clock_rate\<close>. The four subsystems of its \<^verbatim>\<open>switch\<close> are written as functions of
  their own; \<open>mpu_rate\<close>, \<open>axi_rate\<close>, \<open>mcu_rate\<close> and \<open>per_rate\<close> are the bodies of
  the cases \<^verbatim>\<open>_CK_MPU\<close>, \<^verbatim>\<open>_ACLK\<close> \dots \<^verbatim>\<open>_PCLK5\<close>, \<^verbatim>\<open>_CK_MCU\<close> \dots \<^verbatim>\<open>_PCLK3\<close> and
  \<^verbatim>\<open>_CK_PER\<close>. A \<^verbatim>\<open>switch\<close> takes the first label that matches.
\<close>

definition mpu_rate :: "header \<Rightarrow> (nat \<Rightarrow> ulong) \<Rightarrow> rcc_regs \<Rightarrow> ulong" where
  "mpu_rate H osc regs =
     (let reg = regs (H ''RCC_MPCKSELR'');
          src = reg AND RCC_SELR_SRC_MASK
      in if src = hv H ''RCC_MPCKSELR_HSI'' then stm32mp1_clk_get_fixed osc HSIp
         else if src = hv H ''RCC_MPCKSELR_HSE'' then stm32mp1_clk_get_fixed osc HSEp
         else if src = hv H ''RCC_MPCKSELR_PLL'' then
           stm32mp1_read_pll_freq H osc regs PLL1i DIV_P
         else if src = hv H ''RCC_MPCKSELR_PLL_MPUDIV'' then
           (let clock = stm32mp1_read_pll_freq H osc regs PLL1i DIV_P;
                reg = regs (H ''RCC_MPCKDIVR'');
                clkdiv = reg AND RCC_MPUDIV_MASK
            in drop_bit (stm32mp1_mpu_apbx_div ! unat clkdiv) clock)
         else 0)"

definition axi_rate :: "header \<Rightarrow> (nat \<Rightarrow> ulong) \<Rightarrow> rcc_regs \<Rightarrow> nat \<Rightarrow> ulong" where
  "axi_rate H osc regs p =
     (let reg = regs (H ''RCC_ASSCKSELR'');
          src = reg AND RCC_SELR_SRC_MASK;
          clock =
            (if src = hv H ''RCC_ASSCKSELR_HSI'' then stm32mp1_clk_get_fixed osc HSIp
             else if src = hv H ''RCC_ASSCKSELR_HSE'' then stm32mp1_clk_get_fixed osc HSEp
             else if src = hv H ''RCC_ASSCKSELR_PLL'' then
               stm32mp1_read_pll_freq H osc regs PLL2i DIV_P
             else 0);
          reg = regs (H ''RCC_AXIDIVR'');
          clock = clock div (stm32mp1_axi_div ! unat (reg AND RCC_AXIDIV_MASK))
      in if p = PCLK4p then
           (let reg = regs (H ''RCC_APB4DIVR'')
            in drop_bit (stm32mp1_mpu_apbx_div ! unat (reg AND RCC_APBXDIV_MASK)) clock)
         else if p = PCLK5p then
           (let reg = regs (H ''RCC_APB5DIVR'')
            in drop_bit (stm32mp1_mpu_apbx_div ! unat (reg AND RCC_APBXDIV_MASK)) clock)
         else clock)"

definition mcu_rate :: "header \<Rightarrow> (nat \<Rightarrow> ulong) \<Rightarrow> rcc_regs \<Rightarrow> nat \<Rightarrow> ulong" where
  "mcu_rate H osc regs p =
     (let reg = regs (H ''RCC_MSSCKSELR'');
          src = reg AND RCC_SELR_SRC_MASK;
          clock =
            (if src = hv H ''RCC_MSSCKSELR_HSI'' then stm32mp1_clk_get_fixed osc HSIp
             else if src = hv H ''RCC_MSSCKSELR_HSE'' then stm32mp1_clk_get_fixed osc HSEp
             else if src = hv H ''RCC_MSSCKSELR_CSI'' then stm32mp1_clk_get_fixed osc CSIp
             else if src = hv H ''RCC_MSSCKSELR_PLL'' then
               stm32mp1_read_pll_freq H osc regs PLL3i DIV_P
             else 0);
          reg = regs (H ''RCC_MCUDIVR'');
          clock = drop_bit (stm32mp1_mcu_div ! unat (reg AND RCC_MCUDIV_MASK)) clock
      in if p = PCLK1p then
           (let reg = regs (H ''RCC_APB1DIVR'')
            in drop_bit (stm32mp1_mpu_apbx_div ! unat (reg AND RCC_APBXDIV_MASK)) clock)
         else if p = PCLK2p then
           (let reg = regs (H ''RCC_APB2DIVR'')
            in drop_bit (stm32mp1_mpu_apbx_div ! unat (reg AND RCC_APBXDIV_MASK)) clock)
         else if p = PCLK3p then
           (let reg = regs (H ''RCC_APB3DIVR'')
            in drop_bit (stm32mp1_mpu_apbx_div ! unat (reg AND RCC_APBXDIV_MASK)) clock)
         else clock)"

definition per_rate :: "header \<Rightarrow> (nat \<Rightarrow> ulong) \<Rightarrow> rcc_regs \<Rightarrow> ulong" where
  "per_rate H osc regs =
     (let reg = regs (H ''RCC_CPERCKSELR'');
          src = reg AND RCC_SELR_SRC_MASK
      in if src = hv H ''RCC_CPERCKSELR_HSI'' then stm32mp1_clk_get_fixed osc HSIp
         else if src = hv H ''RCC_CPERCKSELR_HSE'' then stm32mp1_clk_get_fixed osc HSEp
         else if src = hv H ''RCC_CPERCKSELR_CSI'' then stm32mp1_clk_get_fixed osc CSIp
         else 0)"

definition USB_PHY_48_MHZ :: ulong where "USB_PHY_48_MHZ = 48000000"

definition get_clock_rate :: "header \<Rightarrow> (nat \<Rightarrow> ulong) \<Rightarrow> rcc_regs \<Rightarrow> nat \<Rightarrow> ulong" where
  "get_clock_rate H osc regs p =
     (if p = CK_MPUp then mpu_rate H osc regs
      else if p = ACLKp \<or> p = HCLK2p \<or> p = HCLK6p \<or> p = PCLK4p \<or> p = PCLK5p then
        axi_rate H osc regs p
      else if p = CK_MCUp \<or> p = PCLK1p \<or> p = PCLK2p \<or> p = PCLK3p then
        mcu_rate H osc regs p
      else if p = CK_PERp then per_rate H osc regs
      else if p = HSIp \<or> p = HSI_KERp then stm32mp1_clk_get_fixed osc HSIp
      else if p = CSIp \<or> p = CSI_KERp then stm32mp1_clk_get_fixed osc CSIp
      else if p = HSEp \<or> p = HSE_KERp then stm32mp1_clk_get_fixed osc HSEp
      else if p = HSE_KER_DIV2p then drop_bit 1 (stm32mp1_clk_get_fixed osc HSEp)
      else if p = LSIp then stm32mp1_clk_get_fixed osc LSIp
      else if p = LSEp then stm32mp1_clk_get_fixed osc LSEp
      else if p = PLL1_Pp then stm32mp1_read_pll_freq H osc regs PLL1i DIV_P
      else if p = PLL1_Qp then stm32mp1_read_pll_freq H osc regs PLL1i DIV_Q
      else if p = PLL1_Rp then stm32mp1_read_pll_freq H osc regs PLL1i DIV_R
      else if p = PLL2_Pp then stm32mp1_read_pll_freq H osc regs PLL2i DIV_P
      else if p = PLL2_Qp then stm32mp1_read_pll_freq H osc regs PLL2i DIV_Q
      else if p = PLL2_Rp then stm32mp1_read_pll_freq H osc regs PLL2i DIV_R
      else if p = PLL3_Pp then stm32mp1_read_pll_freq H osc regs PLL3i DIV_P
      else if p = PLL3_Qp then stm32mp1_read_pll_freq H osc regs PLL3i DIV_Q
      else if p = PLL3_Rp then stm32mp1_read_pll_freq H osc regs PLL3i DIV_R
      else if p = PLL4_Pp then stm32mp1_read_pll_freq H osc regs PLL4i DIV_P
      else if p = PLL4_Qp then stm32mp1_read_pll_freq H osc regs PLL4i DIV_Q
      else if p = PLL4_Rp then stm32mp1_read_pll_freq H osc regs PLL4i DIV_R
      else if p = USB_PHY_48p then USB_PHY_48_MHZ
      else 0)"

definition stm32mp_clk_get_rate ::
  "header \<Rightarrow> image \<Rightarrow> (nat \<Rightarrow> ulong) \<Rightarrow> rcc_regs \<Rightarrow> nat \<Rightarrow> ulong ret" where
  "stm32mp_clk_get_rate H img osc regs cid =
     (case stm32mp1_clk_get_parent H img regs cid of
        Panic \<Rightarrow> Panic
      | Ret p \<Rightarrow> if p < 0 then Ret 0 else Ret (get_clock_rate H osc regs (nat p)))"

section \<open>A sample header\<close>

text \<open>
  One assignment of the header macros, used to run the model on concrete inputs. The
  values are those of the STM32MP15 register map and of its clock bindings; the general
  theorems below hold for every header.
\<close>

definition sample_macros :: "(string \<times> nat) list" where
  "sample_macros =
    [ (''CK_HSE'', 0), (''CK_CSI'', 1), (''CK_LSI'', 2), (''CK_LSE'', 3), (''CK_HSI'', 4),
      (''CK_HSE_DIV2'', 5), (''SYSCFG'', 51), (''IWDG2'', 58), (''RTCAPB'', 65), (''TZC1'', 66),
      (''TZPC'', 67), (''IWDG1'', 68), (''BSEC'', 69), (''DMA1'', 71), (''DMA2'', 72),
      (''GPIOA'', 84), (''GPIOB'', 85), (''GPIOC'', 86), (''GPIOD'', 87), (''GPIOE'', 88),
      (''GPIOF'', 89), (''GPIOG'', 90), (''GPIOH'', 91), (''GPIOI'', 92), (''GPIOJ'', 93),
      (''GPIOK'', 94), (''GPIOZ'', 95), (''CRYP1'', 96), (''HASH1'', 97), (''BKPSRAM'', 99),
      (''MDMA'', 100), (''GPU'', 101), (''ETHMAC'', 105), (''USBH'', 111), (''TZC2'', 113),
      (''SDMMC1_K'', 118), (''SDMMC2_K'', 119), (''SDMMC3_K'', 120), (''FMC_K'', 121),
      (''QSPI_K'', 122), (''RNG1_K'', 124), (''USBPHY_K'', 127), (''STGEN_K'', 128),
      (''SPI6_K'', 135), (''I2C4_K'', 140), (''I2C6_K'', 142), (''USART1_K'', 148),
      (''USART2_K'', 149), (''USART3_K'', 150), (''UART4_K'', 151), (''UART5_K'', 152),
      (''USART6_K'', 153), (''UART7_K'', 154), (''UART8_K'', 155), (''USBO_K'', 166),
      (''LTDC_PX'', 167),
      (''PLL1_P'', 180), (''PLL1_Q'', 181), (''PLL1_R'', 182), (''PLL2_P'', 183),
      (''PLL2_Q'', 184), (''PLL2_R'', 185), (''PLL3_P'', 186), (''PLL3_Q'', 187),
      (''PLL3_R'', 188), (''PLL4_P'', 189), (''PLL4_Q'', 190), (''PLL4_R'', 191),
      (''RTC'', 192), (''CK_PER'', 193), (''CK_MPU'', 194), (''CK_AXI'', 195), (''CK_MCU'', 196),
      (''TIM12_K'', 203), (''TIM15_K'', 208), (''CK_DBG'', 214),
      (''DDRC1'', 220), (''DDRC1LP'', 221), (''DDRC2'', 222), (''DDRC2LP'', 223),
      (''DDRPHYC'', 224), (''DDRPHYCLP'', 225), (''DDRCAPB'', 226), (''DDRCAPBLP'', 227),
      (''AXIDCG'', 228), (''DDRPHYCAPB'', 229), (''DDRPHYCAPBLP'', 230), (''DDRPERFM'', 231),
      (''RCC_MPCKSELR'', 0x20), (''RCC_ASSCKSELR'', 0x24), (''RCC_RCK12SELR'', 0x28),
      (''RCC_MPCKDIVR'', 0x2C), (''RCC_AXIDIVR'', 0x30), (''RCC_APB4DIVR'', 0x3C),
      (''RCC_APB5DIVR'', 0x40), (''RCC_MSSCKSELR'', 0x48),
      (''RCC_PLL1CR'', 0x80), (''RCC_PLL1CFGR1'', 0x84), (''RCC_PLL1CFGR2'', 0x88),
      (''RCC_PLL1FRACR'', 0x8C), (''RCC_PLL1CSGR'', 0x90),
      (''RCC_PLL2CR'', 0x94), (''RCC_PLL2CFGR1'', 0x98), (''RCC_PLL2CFGR2'', 0x9C),
      (''RCC_PLL2FRACR'', 0xA0), (''RCC_PLL2CSGR'', 0xA4),
      (''RCC_I2C46CKSELR'', 0xC0), (''RCC_SPI6CKSELR'', 0xC4), (''RCC_UART1CKSELR'', 0xC8),
      (''RCC_RNG1CKSELR'', 0xCC), (''RCC_CPERCKSELR'', 0xD0), (''RCC_STGENCKSELR'', 0xD4),
      (''RCC_DDRITFCR'', 0xD8), (''RCC_BDCR'', 0x140),
      (''RCC_MP_APB4ENSETR'', 0x200), (''RCC_MP_APB5ENSETR'', 0x208),
      (''RCC_MP_AHB5ENSETR'', 0x210), (''RCC_MP_AHB6ENSETR'', 0x218),
      (''RCC_MP_TZAHB6ENSETR'', 0x220), (''RCC_DBGCFGR'', 0x80C),
      (''RCC_RCK3SELR'', 0x820), (''RCC_RCK4SELR'', 0x824), (''RCC_MCUDIVR'', 0x830),
      (''RCC_APB1DIVR'', 0x834), (''RCC_APB2DIVR'', 0x838), (''RCC_APB3DIVR'', 0x83C),
      (''RCC_PLL3CR'', 0x880), (''RCC_PLL3CFGR1'', 0x884), (''RCC_PLL3CFGR2'', 0x888),
      (''RCC_PLL3FRACR'', 0x88C), (''RCC_PLL3CSGR'', 0x890),
      (''RCC_PLL4CR'', 0x894), (''RCC_PLL4CFGR1'', 0x898), (''RCC_PLL4CFGR2'', 0x89C),
      (''RCC_PLL4FRACR'', 0x8A0), (''RCC_PLL4CSGR'', 0x8A4),
      (''RCC_I2C12CKSELR'', 0x8C0), (''RCC_I2C35CKSELR'', 0x8C4), (''RCC_UART6CKSELR'', 0x8E4),
      (''RCC_UART24CKSELR'', 0x8E8), (''RCC_UART35CKSELR'', 0x8EC),
      (''RCC_UART78CKSELR'', 0x8F0), (''RCC_SDMMC12CKSELR'', 0x8F4),
      (''RCC_SDMMC3CKSELR'', 0x8F8), (''RCC_QSPICKSELR'', 0x900), (''RCC_FMCCKSELR'', 0x904),
      (''RCC_USBCKSELR'', 0x91C),
      (''RCC_MP_APB1ENSETR'', 0xA00), (''RCC_MP_APB2ENSETR'', 0xA08),
      (''RCC_MP_APB3ENSETR'', 0xA10), (''RCC_MP_AHB2ENSETR'', 0xA18),
      (''RCC_MP_AHB4ENSETR'', 0xA28),
      (''RCC_MPCKSELR_HSI'', 0), (''RCC_MPCKSELR_HSE'', 1), (''RCC_MPCKSELR_PLL'', 2),
      (''RCC_MPCKSELR_PLL_MPUDIV'', 3),
      (''RCC_ASSCKSELR_HSI'', 0), (''RCC_ASSCKSELR_HSE'', 1), (''RCC_ASSCKSELR_PLL'', 2),
      (''RCC_MSSCKSELR_HSI'', 0), (''RCC_MSSCKSELR_HSE'', 1), (''RCC_MSSCKSELR_CSI'', 2),
      (''RCC_MSSCKSELR_PLL'', 3),
      (''RCC_CPERCKSELR_HSI'', 0), (''RCC_CPERCKSELR_CSI'', 1), (''RCC_CPERCKSELR_HSE'', 2),
      (''RCC_I2C12CKSELR_I2C12SRC_MASK'', 0x7), (''RCC_I2C35CKSELR_I2C35SRC_MASK'', 0x7),
      (''RCC_STGENCKSELR_STGENSRC_MASK'', 0x3), (''RCC_I2C46CKSELR_I2C46SRC_MASK'', 0x7),
      (''RCC_SPI6CKSELR_SPI6SRC_MASK'', 0x7), (''RCC_UART1CKSELR_UART1SRC_MASK'', 0x7),
      (''RCC_RNG1CKSELR_RNG1SRC_MASK'', 0x3), (''RCC_UART6CKSELR_UART6SRC_MASK'', 0x7),
      (''RCC_UART24CKSELR_UART24SRC_MASK'', 0x7), (''RCC_UART35CKSELR_UART35SRC_MASK'', 0x7),
      (''RCC_UART78CKSELR_UART78SRC_MASK'', 0x7), (''RCC_SDMMC12CKSELR_SDMMC12SRC_MASK'', 0x7),
      (''RCC_SDMMC3CKSELR_SDMMC3SRC_MASK'', 0x7), (''RCC_QSPICKSELR_QSPISRC_MASK'', 0x3),
      (''RCC_FMCCKSELR_FMCSRC_MASK'', 0x3), (''RCC_ASSCKSELR_AXISSRC_MASK'', 0x7),
      (''RCC_MSSCKSELR_MCUSSRC_MASK'', 0x3), (''RCC_USBCKSELR_USBPHYSRC_MASK'', 0x3),
      (''RCC_USBCKSELR_USBOSRC_MASK'', 0x10), (''RCC_USBCKSELR_USBOSRC_SHIFT'', 4),
      (''RCC_BDCR_RTCSRC_MASK'', 0x30000), (''RCC_BDCR_RTCSRC_SHIFT'', 16),
      (''RCC_MPCKSELR_MPUSRC_MASK'', 0x3), (''RCC_CPERCKSELR_PERSRC_MASK'', 0x3),
      (''PLAT_MAX_OPP_NB'', 2), (''PLL1_SETTINGS_VALID_ID'', 0x504C4C31) ]"

definition sample_hdr :: header where
  "sample_hdr name = (case map_of sample_macros name of Some v \<Rightarrow> v | None \<Rightarrow> 0)"

section \<open>The fields a PLL's registers hold\<close>

text \<open>
  The dividers M and N, the fractional value FRAC, the flag FRACLE and the output dividers
  as \<^verbatim>\<open>stm32mp1_pll_get_fvco\<close> and \<^verbatim>\<open>stm32mp1_read_pll_freq\<close> extract them from
  the registers of a PLL, and the frequency of the selected reference oscillator.
\<close>

definition pll_M :: "rcc_regs \<Rightarrow> stm32mp1_clk_pll_s \<Rightarrow> nat" where
  "pll_M regs pll =
     unat (drop_bit RCC_PLLNCFGR1_DIVM_SHIFT (regs (pllxcfgr1 pll) AND RCC_PLLNCFGR1_DIVM_MASK))"

definition pll_N :: "rcc_regs \<Rightarrow> stm32mp1_clk_pll_s \<Rightarrow> nat" where
  "pll_N regs pll = unat (regs (pllxcfgr1 pll) AND RCC_PLLNCFGR1_DIVN_MASK)"

definition pll_FRAC :: "rcc_regs \<Rightarrow> stm32mp1_clk_pll_s \<Rightarrow> nat" where
  "pll_FRAC regs pll =
     unat (drop_bit RCC_PLLNFRACR_FRACV_SHIFT (regs (pllxfracr pll) AND RCC_PLLNFRACR_FRACV_MASK))"

definition pll_FRACLE :: "rcc_regs \<Rightarrow> stm32mp1_clk_pll_s \<Rightarrow> bool" where
  "pll_FRACLE regs pll = (regs (pllxfracr pll) AND RCC_PLLNFRACR_FRACLE \<noteq> 0)"

definition pll_DIV :: "rcc_regs \<Rightarrow> stm32mp1_clk_pll_s \<Rightarrow> nat \<Rightarrow> nat" where
  "pll_DIV regs pll div_id =
     unat (drop_bit (pllncfgr2 ! div_id) (regs (pllxcfgr2 pll)) AND RCC_PLLNCFGR2_DIVX_MASK)"

definition pll_reference :: "(nat \<Rightarrow> ulong) \<Rightarrow> rcc_regs \<Rightarrow> stm32mp1_clk_pll_s \<Rightarrow> nat" where
  "pll_reference osc regs pll = unat (stm32mp1_pll_get_fref osc regs pll)"

section \<open>Concrete inputs\<close>

text \<open>Register files and oscillator arrays given by the entries that are not zero.\<close>

definition regs_of :: "(nat \<times> u32) list \<Rightarrow> rcc_regs" where
  "regs_of kvs off = (case map_of kvs off of Some v \<Rightarrow> v | None \<Rightarrow> 0)"

definition osc_of :: "(nat \<times> ulong) list \<Rightarrow> nat \<Rightarrow> ulong" where
  "osc_of kvs i = (case map_of kvs i of Some v \<Rightarrow> v | None \<Rightarrow> 0)"

text \<open>
  Scenarios S1 and S2: HSE at 24 MHz is the reference of PLL1, M = 1, N = 65, P = 1, without
  and with a fractional part of 4096.
\<close>

definition s1_regs :: rcc_regs where
  "s1_regs = regs_of [(0x28, 1), (0x84, 0x10041), (0x8C, 0), (0x88, 1)]"

definition s2_regs :: rcc_regs where
  "s2_regs = regs_of [(0x28, 1), (0x84, 0x10041), (0x8C, 0x18000), (0x88, 1)]"

definition hse24_osc :: "nat \<Rightarrow> ulong" where
  "hse24_osc = osc_of [(1, 24000000)]"

text \<open>HSI at 64 MHz is the reference of PLL1, M = 7, N = 99, no fractional part.\<close>

definition hsi64_osc :: "nat \<Rightarrow> ulong" where
  "hsi64_osc = osc_of [(0, 64000000)]"

definition wrap_regs :: rcc_regs where
  "wrap_regs = regs_of [(0x28, 0), (0x84, 0x70063), (0x8C, 0), (0x88, 0)]"

section \<open>The AXI subsystem as the spec words it\<close>

text \<open>
  The rate of the source the AXI selector field selects: HSI, HSE or the P output of PLL2,
  and 0 for a field value that selects none of them.
\<close>

definition axi_src_field :: "header \<Rightarrow> rcc_regs \<Rightarrow> u32" where
  "axi_src_field H regs = regs (H ''RCC_ASSCKSELR'') AND RCC_SELR_SRC_MASK"

definition axi_source :: "header \<Rightarrow> (nat \<Rightarrow> ulong) \<Rightarrow> rcc_regs \<Rightarrow> ulong" where
  "axi_source H osc regs =
     (if axi_src_field H regs = hv H ''RCC_ASSCKSELR_HSI'' then stm32mp1_clk_get_fixed osc HSIp
      else if axi_src_field H regs = hv H ''RCC_ASSCKSELR_HSE'' then
        stm32mp1_clk_get_fixed osc HSEp
      else if axi_src_field H regs = hv H ''RCC_ASSCKSELR_PLL'' then
        stm32mp1_read_pll_freq H osc regs PLL2i DIV_P
      else 0)"

text \<open>The divider fields of the AXI, APB4 and APB5 divider registers.\<close>

definition axidiv_field :: "header \<Rightarrow> rcc_regs \<Rightarrow> nat" where
  "axidiv_field H regs = unat (regs (H ''RCC_AXIDIVR'') AND RCC_AXIDIV_MASK)"

definition apb4div_field :: "header \<Rightarrow> rcc_regs \<Rightarrow> nat" where
  "apb4div_field H regs = unat (regs (H ''RCC_APB4DIVR'') AND RCC_APBXDIV_MASK)"

definition apb5div_field :: "header \<Rightarrow> rcc_regs \<Rightarrow> nat" where
  "apb5div_field H regs = unat (regs (H ''RCC_APB5DIVR'') AND RCC_APBXDIV_MASK)"

text \<open>
  Scenario S6: HSE at 24 MHz feeds PLL2 with M = 2, N = 65, FRAC = 4096 and P = 1, so that
  PLL2_P runs at 266 MHz; the AXI selector is on PLL2_P, the AXIDIV field is 1 and the
  APB5DIV field is 2.
\<close>

definition s6_regs :: rcc_regs where
  "s6_regs = regs_of [(0x24, 2), (0x28, 1), (0x30, 1), (0x40, 2),
                      (0x98, 0x20041), (0xA0, 0x18000), (0x9C, 1)]"

section \<open>Gate engine\<close>

text \<open>
  The part of the driver's state the gate engine works on: the RCC registers and the array
  \<^verbatim>\<open>gate_refcounts[NB_GATES]\<close>. The two spin locks protect it against the other
  core; in this sequential model taking and releasing them changes nothing.
\<close>

record clk_state =
  rcc :: rcc_regs
  gate_refcounts :: "nat \<Rightarrow> u32"

definition BIT :: "nat \<Rightarrow> u32" where
  "BIT n = push_bit n 1"

text \<open>
  The memory mapped I/O primitives. A plain register keeps what is written to it, and
  \<^verbatim>\<open>stm32mp_mmio_setbits_32_shregs\<close> and \<^verbatim>\<open>stm32mp_mmio_clrbits_32_shregs\<close> read, modify
  and write it under the register lock.
\<close>

definition mmio_read_32 :: "rcc_regs \<Rightarrow> nat \<Rightarrow> u32" where
  "mmio_read_32 r addr = r addr"

definition stm32mp_mmio_setbits_32_shregs :: "nat \<Rightarrow> u32 \<Rightarrow> rcc_regs \<Rightarrow> rcc_regs" where
  "stm32mp_mmio_setbits_32_shregs addr m r = r(addr := r addr OR m)"

definition stm32mp_mmio_clrbits_32_shregs :: "nat \<Rightarrow> u32 \<Rightarrow> rcc_regs \<Rightarrow> rcc_regs" where
  "stm32mp_mmio_clrbits_32_shregs addr m r = r(addr := r addr AND NOT m)"

text \<open>
  Modelled from the spec: the hardware behind a set/clear pair of registers is not part of
  the sources. Writing 1 to a bit of the set register sets the bit, writing 1 to the same
  bit of the clear register, which sits \<^verbatim>\<open>RCC_MP_ENCLRR_OFFSET\<close> above the set register,
  clears it, and the bits written as 0 keep their value. The state of the pair is read at
  the offset of the set register.
\<close>

definition mmio_write_32_set :: "nat \<Rightarrow> u32 \<Rightarrow> rcc_regs \<Rightarrow> rcc_regs" where
  "mmio_write_32_set addr v r = r(addr := r addr OR v)"

definition mmio_write_32_clr :: "nat \<Rightarrow> u32 \<Rightarrow> rcc_regs \<Rightarrow> rcc_regs" where
  "mmio_write_32_clr addr v r =
     r(addr - RCC_MP_ENCLRR_OFFSET := r (addr - RCC_MP_ENCLRR_OFFSET) AND NOT v)"

text \<open>
  \<^verbatim>\<open>__clk_enable\<close>, \<^verbatim>\<open>__clk_disable\<close> and \<^verbatim>\<open>__clk_is_enabled\<close>; an Isabelle name cannot
  start with an underscore, so the two leading underscores are written \<open>uu_\<close>.
\<close>

definition uu_clk_enable :: "stm32mp1_clk_gate_s \<Rightarrow> rcc_regs \<Rightarrow> rcc_regs" where
  "uu_clk_enable gate r =
     (if g_set_clr gate \<noteq> 0 then mmio_write_32_set (g_offset gate) (BIT (g_bit gate)) r
      else stm32mp_mmio_setbits_32_shregs (g_offset gate) (BIT (g_bit gate)) r)"

definition uu_clk_disable :: "stm32mp1_clk_gate_s \<Rightarrow> rcc_regs \<Rightarrow> rcc_regs" where
  "uu_clk_disable gate r =
     (if g_set_clr gate \<noteq> 0 then
        mmio_write_32_clr (g_offset gate + RCC_MP_ENCLRR_OFFSET) (BIT (g_bit gate)) r
      else stm32mp_mmio_clrbits_32_shregs (g_offset gate) (BIT (g_bit gate)) r)"

definition uu_clk_is_enabled :: "stm32mp1_clk_gate_s \<Rightarrow> rcc_regs \<Rightarrow> bool" where
  "uu_clk_is_enabled gate r = (mmio_read_32 r (g_offset gate) AND BIT (g_bit gate) \<noteq> 0)"

text \<open>
  The build time assertion \<^verbatim>\<open>assert_osc_and_pll_ids_are_contiguous\<close> of
  \<^verbatim>\<open>clock_is_always_on\<close>: a header that fails it does not compile.
\<close>

definition assert_osc_and_pll_ids_are_contiguous :: "header \<Rightarrow> bool" where
  "assert_osc_and_pll_ids_are_contiguous H =
     (H ''CK_HSE'' = 0 \<and>
      H ''CK_HSE'' + 1 = H ''CK_CSI'' \<and>
      H ''CK_HSE'' + 2 = H ''CK_LSI'' \<and>
      H ''CK_HSE'' + 3 = H ''CK_LSE'' \<and>
      H ''CK_HSE'' + 4 = H ''CK_HSI'' \<and>
      H ''CK_HSE'' + 5 = H ''CK_HSE_DIV2'' \<and>
      H ''PLL1_P'' + 1 = H ''PLL1_Q'' \<and>
      H ''PLL1_P'' + 2 = H ''PLL1_R'' \<and>
      H ''PLL1_P'' + 3 = H ''PLL2_P'' \<and>
      H ''PLL1_P'' + 4 = H ''PLL2_Q'' \<and>
      H ''PLL1_P'' + 5 = H ''PLL2_R'' \<and>
      H ''PLL1_P'' + 6 = H ''PLL3_P'' \<and>
      H ''PLL1_P'' + 7 = H ''PLL3_Q'' \<and>
      H ''PLL1_P'' + 8 = H ''PLL3_R'')"

definition clock_is_always_on :: "header \<Rightarrow> nat \<Rightarrow> bool" where
  "clock_is_always_on H cid =
     (if cid \<le> H ''CK_HSE_DIV2'' \<or> (cid \<ge> H ''PLL1_P'' \<and> cid \<le> H ''PLL3_R'') then True
      else if cid = H ''CK_AXI'' \<or> cid = H ''CK_MPU'' \<or> cid = H ''CK_MCU'' \<or> cid = H ''RTC''
      then True
      else False)"

text \<open>
  \<^verbatim>\<open>__stm32mp1_clk_enable\<close> and \<^verbatim>\<open>__stm32mp1_clk_disable\<close>. The test of
  \<^verbatim>\<open>gate_is_non_secure\<close> is compiled for \<^verbatim>\<open>IMAGE_BL32\<close> only.
\<close>

definition uu_stm32mp1_clk_enable ::
  "header \<Rightarrow> image \<Rightarrow> nat \<Rightarrow> bool \<Rightarrow> clk_state \<Rightarrow> clk_state ret" where
  "uu_stm32mp1_clk_enable H img cid with_refcnt st =
     (if clock_is_always_on H cid then Ret st
      else
        case stm32mp1_clk_get_gated_id H img cid of
          None \<Rightarrow> Panic
        | Some i \<Rightarrow>
            let gate = gate_ref H img i in
            if \<not> with_refcnt then Ret (st\<lparr>rcc := uu_clk_enable gate (rcc st)\<rparr>)
            else if img = IMAGE_BL32 \<and> gate_is_non_secure gate then
              Ret (st\<lparr>rcc := uu_clk_enable gate (rcc st)\<rparr>)
            else
              let st1 = (if gate_refcounts st i = 0
                         then st\<lparr>rcc := uu_clk_enable gate (rcc st)\<rparr> else st);
                  st2 = st1\<lparr>gate_refcounts :=
                              (gate_refcounts st1)(i := gate_refcounts st1 i + 1)\<rparr>
              in if gate_refcounts st2 i = UINT_MAX then Panic else Ret st2)"

definition uu_stm32mp1_clk_disable ::
  "header \<Rightarrow> image \<Rightarrow> nat \<Rightarrow> bool \<Rightarrow> clk_state \<Rightarrow> clk_state ret" where
  "uu_stm32mp1_clk_disable H img cid with_refcnt st =
     (if clock_is_always_on H cid then Ret st
      else
        case stm32mp1_clk_get_gated_id H img cid of
          None \<Rightarrow> Panic
        | Some i \<Rightarrow>
            let gate = gate_ref H img i in
            if \<not> with_refcnt then Ret (st\<lparr>rcc := uu_clk_disable gate (rcc st)\<rparr>)
            else if img = IMAGE_BL32 \<and> gate_is_non_secure gate then Ret st
            else if gate_refcounts st i = 0 then Panic
            else
              let st1 = st\<lparr>gate_refcounts :=
                             (gate_refcounts st)(i := gate_refcounts st i - 1)\<rparr>
              in if gate_refcounts st1 i = 0
                 then Ret (st1\<lparr>rcc := uu_clk_disable gate (rcc st1)\<rparr>)
                 else Ret st1)"

definition stm32mp_clk_enable :: "header \<Rightarrow> image \<Rightarrow> nat \<Rightarrow> clk_state \<Rightarrow> clk_state ret" where
  "stm32mp_clk_enable H img cid st = uu_stm32mp1_clk_enable H img cid True st"

definition stm32mp_clk_disable :: "header \<Rightarrow> image \<Rightarrow> nat \<Rightarrow> clk_state \<Rightarrow> clk_state ret" where
  "stm32mp_clk_disable H img cid st = uu_stm32mp1_clk_disable H img cid True st"

definition stm32mp1_clk_force_enable ::
  "header \<Rightarrow> image \<Rightarrow> nat \<Rightarrow> clk_state \<Rightarrow> clk_state ret" where
  "stm32mp1_clk_force_enable H img cid st = uu_stm32mp1_clk_enable H img cid False st"

definition stm32mp1_clk_force_disable ::
  "header \<Rightarrow> image \<Rightarrow> nat \<Rightarrow> clk_state \<Rightarrow> clk_state ret" where
  "stm32mp1_clk_force_disable H img cid st = uu_stm32mp1_clk_disable H img cid False st"

definition stm32mp_clk_is_enabled :: "header \<Rightarrow> image \<Rightarrow> nat \<Rightarrow> clk_state \<Rightarrow> bool ret" where
  "stm32mp_clk_is_enabled H img cid st =
     (if clock_is_always_on H cid then Ret True
      else
        case stm32mp1_clk_get_gated_id H img cid of
          None \<Rightarrow> Panic
        | Some i \<Rightarrow> Ret (uu_clk_is_enabled (gate_ref H img i) (rcc st)))"

section \<open>The always-on set as the spec words it\<close>

text \<open>
  The names of the clocks that \<^verbatim>\<open>clock_is_always_on\<close> accepts: the five oscillator
  rails, the HSE rail divided by two, the outputs of PLL1, PLL2 and PLL3, the AXI, MPU and
  MCU clocks and the RTC. The outputs of PLL4 are listed apart.
\<close>

definition always_on_names :: "string list" where
  "always_on_names =
     [''CK_HSE'', ''CK_CSI'', ''CK_LSI'', ''CK_LSE'', ''CK_HSI'', ''CK_HSE_DIV2'',
      ''PLL1_P'', ''PLL1_Q'', ''PLL1_R'', ''PLL2_P'', ''PLL2_Q'', ''PLL2_R'',
      ''PLL3_P'', ''PLL3_Q'', ''PLL3_R'', ''CK_AXI'', ''CK_MPU'', ''CK_MCU'', ''RTC'']"

definition pll4_output_names :: "string list" where
  "pll4_output_names = [''PLL4_P'', ''PLL4_Q'', ''PLL4_R'']"

text \<open>The fields of a gate as a tuple, to write a table down in one line per gate.\<close>

definition gate_fields ::
  "stm32mp1_clk_gate_s \<Rightarrow> nat \<times> nat \<times> nat \<times> nat \<times> nat \<times> nat \<times> nat" where
  "gate_fields g = (g_offset g, g_bit g, g_index g, g_set_clr g, g_secure g, g_sel g, g_fixed g)"

text \<open>A state with all registers and all reference counts at zero.\<close>

definition zero_state :: clk_state where
  "zero_state = \<lparr>rcc = (\<lambda>_. 0), gate_refcounts = (\<lambda>_. 0)\<rparr>"

text \<open>The USB PHY selector holds the value 3, one past the end of its three candidates.\<close>

definition usbphy3_regs :: rcc_regs where
  "usbphy3_regs = regs_of [(0x91C, 3)]"

text \<open>
  Sequences of calls of \<^verbatim>\<open>stm32mp_clk_enable\<close> and \<^verbatim>\<open>stm32mp_clk_disable\<close> on one
  clock id; a panic ends the run.
\<close>

datatype gate_op = Enable | Disable

fun apply_gate_op :: "header \<Rightarrow> image \<Rightarrow> nat \<Rightarrow> gate_op \<Rightarrow> clk_state \<Rightarrow> clk_state ret" where
  "apply_gate_op H img cid Enable st = stm32mp_clk_enable H img cid st"
| "apply_gate_op H img cid Disable st = stm32mp_clk_disable H img cid st"

fun run_gate_ops :: "header \<Rightarrow> image \<Rightarrow> nat \<Rightarrow> gate_op list \<Rightarrow> clk_state \<Rightarrow> clk_state ret"
  where
  "run_gate_ops H img cid [] st = Ret st"
| "run_gate_ops H img cid (x # xs) st =
     (case apply_gate_op H img cid x st of
        Panic \<Rightarrow> Panic
      | Ret st' \<Rightarrow> run_gate_ops H img cid xs st')"

text \<open>
  The gate of \<^verbatim>\<open>TZC1\<close> is on and its reference count is one below \<^verbatim>\<open>UINT_MAX\<close>.
\<close>

definition near_overflow_state :: clk_state where
  "near_overflow_state =
     \<lparr>rcc = regs_of [(0x208, 0x800)], gate_refcounts = (\<lambda>_. 0xFFFFFFFE)\<rparr>"

text \<open>
  The invariant of a reference counted gate: the count is zero exactly when the gate is off
  in the hardware, and the count has not reached \<^verbatim>\<open>UINT_MAX\<close> (reaching it is fatal).
\<close>

definition refcount_inv :: "stm32mp1_clk_gate_s \<Rightarrow> nat \<Rightarrow> clk_state \<Rightarrow> bool" where
  "refcount_inv gate i st =
     ((gate_refcounts st i = 0 \<longleftrightarrow> \<not> uu_clk_is_enabled gate (rcc st)) \<and>
      gate_refcounts st i \<noteq> UINT_MAX)"

text \<open>The gate of \<^verbatim>\<open>TZC1\<close> is on and held twice.\<close>

definition tzc1_held_state :: clk_state where
  "tzc1_held_state = \<lparr>rcc = regs_of [(0x208, 0x800)], gate_refcounts = (\<lambda>_. 2)\<rparr>"

section \<open>PLL configuration\<close>

text \<open>
  A PLL configuration array \<^verbatim>\<open>uint32_t pllcfg[PLLCFG_NB]\<close> is a function from the index
  to the cell. Plain registers keep what \<^verbatim>\<open>mmio_write_32\<close> writes.
\<close>

type_synonym pllcfg = "nat \<Rightarrow> u32"

definition mmio_write_32 :: "nat \<Rightarrow> u32 \<Rightarrow> rcc_regs \<Rightarrow> rcc_regs" where
  "mmio_write_32 addr v r = r(addr := v)"

definition mmio_setbits_32 :: "nat \<Rightarrow> u32 \<Rightarrow> rcc_regs \<Rightarrow> rcc_regs" where
  "mmio_setbits_32 addr m r = r(addr := r addr OR m)"

definition stm32mp1_pll_compute_pllxcfgr2 :: "pllcfg \<Rightarrow> u32" where
  "stm32mp1_pll_compute_pllxcfgr2 cfg =
     (let v = push_bit RCC_PLLNCFGR2_DIVP_SHIFT (cfg PLLCFG_P) AND RCC_PLLNCFGR2_DIVP_MASK;
          v = v OR (push_bit RCC_PLLNCFGR2_DIVQ_SHIFT (cfg PLLCFG_Q) AND RCC_PLLNCFGR2_DIVQ_MASK);
          v = v OR (push_bit RCC_PLLNCFGR2_DIVR_SHIFT (cfg PLLCFG_R) AND RCC_PLLNCFGR2_DIVR_MASK)
      in v)"

definition stm32mp1_pll_config_output ::
  "header \<Rightarrow> nat \<Rightarrow> pllcfg \<Rightarrow> rcc_regs \<Rightarrow> rcc_regs" where
  "stm32mp1_pll_config_output H pll_id cfg r =
     mmio_write_32 (pllxcfgr2 (pll_ref H pll_id)) (stm32mp1_pll_compute_pllxcfgr2 cfg) r"

text \<open>
  \<^verbatim>\<open>stm32mp1_pll_compute_pllxcfgr1\<close> returns \<^verbatim>\<open>-EINVAL\<close> (here \<open>Inl (- EINVAL)\<close>) or 0
  and the word in \<^verbatim>\<open>*cfgr1\<close> (here \<open>Inr\<close> of the word). The division is the one of
  \<^verbatim>\<open>unsigned long\<close>; the theorems below leave out the cell \<^verbatim>\<open>0xFFFFFFFF\<close> for M, for which
  the C divisor \<^verbatim>\<open>pllcfg[PLLCFG_M] + 1U\<close> is zero.
\<close>

definition stm32mp1_pll_compute_pllxcfgr1 ::
  "(nat \<Rightarrow> ulong) \<Rightarrow> rcc_regs \<Rightarrow> stm32mp1_clk_pll_s \<Rightarrow> pllcfg \<Rightarrow> int + u32" where
  "stm32mp1_pll_compute_pllxcfgr1 osc r pll cfg =
     (let type = plltype pll;
          src = r (rckxselr pll) AND RCC_SELR_REFCLK_SRC_MASK;
          refclk = stm32mp1_clk_get_fixed osc (refclk pll (unat src)) div (cfg PLLCFG_M + 1)
      in if refclk < of_nat (refclk_min (stm32mp1_pll type)) * 1000000 \<or>
            refclk > of_nat (refclk_max (stm32mp1_pll type)) * 1000000
         then Inl (- EINVAL)
         else
           let ifrge = (if type = PLL_800 \<and> refclk \<ge> 8000000 then 1 else 0);
               cfgr1 = push_bit RCC_PLLNCFGR1_DIVN_SHIFT (cfg PLLCFG_N) AND
                       RCC_PLLNCFGR1_DIVN_MASK;
               cfgr1 = cfgr1 OR (push_bit RCC_PLLNCFGR1_DIVM_SHIFT (cfg PLLCFG_M) AND
                                 RCC_PLLNCFGR1_DIVM_MASK);
               cfgr1 = cfgr1 OR (push_bit RCC_PLLNCFGR1_IFRGE_SHIFT ifrge AND
                                 RCC_PLLNCFGR1_IFRGE_MASK)
           in Inr cfgr1)"

text \<open>
  \<^verbatim>\<open>stm32mp1_pll_config\<close> returns its \<^verbatim>\<open>int\<close> result and the registers it leaves.
\<close>

definition stm32mp1_pll_config ::
  "header \<Rightarrow> (nat \<Rightarrow> ulong) \<Rightarrow> nat \<Rightarrow> pllcfg \<Rightarrow> u32 \<Rightarrow> rcc_regs \<Rightarrow> int \<times> rcc_regs" where
  "stm32mp1_pll_config H osc pll_id cfg fracv r =
     (let pll = pll_ref H pll_id in
      case stm32mp1_pll_compute_pllxcfgr1 osc r pll cfg of
        Inl ret \<Rightarrow> (ret, r)
      | Inr v \<Rightarrow>
          let r = mmio_write_32 (pllxcfgr1 pll) v r;
              r = mmio_write_32 (pllxfracr pll) 0 r;
              r = mmio_write_32 (pllxfracr pll) (push_bit RCC_PLLNFRACR_FRACV_SHIFT fracv) r;
              r = mmio_setbits_32 (pllxfracr pll) RCC_PLLNFRACR_FRACLE r;
              r = stm32mp1_pll_config_output H pll_id cfg r
          in (0, r))"

text \<open>
  \<^verbatim>\<open>stm32mp1_check_pll_conf\<close>. It reads the fractional value with
  \<^verbatim>\<open>fdt_read_uint32_default(plloff, "frac", 0)\<close> from the device tree, which is not part of
  the driver: \<open>fracv\<close> is the value that call returns. \<open>clksrc\<close> is a clock source cell
  of the device tree, the register offset shifted left by 4 or-ed with the source value.
\<close>

definition stm32mp1_check_pll_conf ::
  "header \<Rightarrow> (nat \<Rightarrow> ulong) \<Rightarrow> rcc_regs \<Rightarrow> nat \<Rightarrow> u32 \<Rightarrow> pllcfg \<Rightarrow> u32 \<Rightarrow> bool" where
  "stm32mp1_check_pll_conf H osc r pll_id clksrc cfg fracv =
     (let pll = pll_ref H pll_id;
          type = plltype pll;
          clksrc_address = unat (drop_bit 4 clksrc)
      in if r (pllxcr pll) \<noteq> RCC_PLLNCR_PLLON then False
         else if r clksrc_address AND RCC_SELR_SRC_MASK \<noteq> clksrc AND RCC_SELR_SRC_MASK
         then False
         else
           let src = r (rckxselr pll) AND RCC_SELR_REFCLK_SRC_MASK;
               refclk = stm32mp1_clk_get_fixed osc (refclk pll (unat src)) div
                        (cfg PLLCFG_M + 1)
           in if refclk < of_nat (refclk_min (stm32mp1_pll type)) * 1000000 \<or>
                 refclk > of_nat (refclk_max (stm32mp1_pll type)) * 1000000
              then False
              else
                let ifrge = (if type = PLL_800 \<and> refclk \<ge> 8000000 then 1 else 0);
                    v = push_bit RCC_PLLNCFGR1_DIVN_SHIFT (cfg PLLCFG_N) AND
                        RCC_PLLNCFGR1_DIVN_MASK;
                    v = v OR (push_bit RCC_PLLNCFGR1_DIVM_SHIFT (cfg PLLCFG_M) AND
                              RCC_PLLNCFGR1_DIVM_MASK);
                    v = v OR (push_bit RCC_PLLNCFGR1_IFRGE_SHIFT ifrge AND
                              RCC_PLLNCFGR1_IFRGE_MASK)
                in if r (pllxcfgr1 pll) \<noteq> v then False
                   else
                     let v = push_bit RCC_PLLNFRACR_FRACV_SHIFT fracv;
                         v = v OR RCC_PLLNFRACR_FRACLE
                     in if r (pllxfracr pll) \<noteq> v then False
                        else
                          let v = push_bit RCC_PLLNCFGR2_DIVP_SHIFT (cfg PLLCFG_P) AND
                                  RCC_PLLNCFGR2_DIVP_MASK;
                              v = v OR (push_bit RCC_PLLNCFGR2_DIVQ_SHIFT (cfg PLLCFG_Q) AND
                                        RCC_PLLNCFGR2_DIVQ_MASK);
                              v = v OR (push_bit RCC_PLLNCFGR2_DIVR_SHIFT (cfg PLLCFG_R) AND
                                        RCC_PLLNCFGR2_DIVR_MASK)
                          in if r (pllxcfgr2 pll) \<noteq> v then False else True)"

text \<open>
  \<^verbatim>\<open>stm32mp1_is_pll_config_on_the_fly\<close> returns its \<^verbatim>\<open>int\<close> result and what
  \<^verbatim>\<open>*result\<close> holds afterwards; \<open>result0\<close> is what the caller left there. The results are
  -1 (stop and reconfigure), 0 (on the fly) and 1 (same parameters).
\<close>

definition stm32mp1_is_pll_config_on_the_fly ::
  "header \<Rightarrow> (nat \<Rightarrow> ulong) \<Rightarrow> rcc_regs \<Rightarrow> nat \<Rightarrow> pllcfg \<Rightarrow> u32 \<Rightarrow> int \<Rightarrow> int \<times> int" where
  "stm32mp1_is_pll_config_on_the_fly H osc r pll_id cfg fracv result0 =
     (let pll = pll_ref H pll_id in
      case stm32mp1_pll_compute_pllxcfgr1 osc r pll cfg of
        Inl ret \<Rightarrow> (ret, result0)
      | Inr v \<Rightarrow>
          if r (pllxcfgr1 pll) \<noteq> v then (0, - 1)
          else
            let fracr = push_bit RCC_PLLNFRACR_FRACV_SHIFT fracv OR RCC_PLLNFRACR_FRACLE;
                v = stm32mp1_pll_compute_pllxcfgr2 cfg
            in if r (pllxfracr pll) = fracr \<and> r (pllxcfgr2 pll) = v then (0, 1)
               else (0, 0))"

section \<open>The prospective register words as the spec names them\<close>

text \<open>
  The reference divided by M + 1, the test that it lies in the range of the PLL's type, the
  IFRGE value, and the three words a configuration asks for: configuration register 1 from
  N, M and IFRGE, the fractional register from the fractional value and FRACLE, and the
  output divider register from P, Q and R.
\<close>

definition pll_post_divm :: "(nat \<Rightarrow> ulong) \<Rightarrow> rcc_regs \<Rightarrow> stm32mp1_clk_pll_s \<Rightarrow> pllcfg \<Rightarrow> ulong" where
  "pll_post_divm osc r pll cfg = stm32mp1_pll_get_fref osc r pll div (cfg PLLCFG_M + 1)"

definition post_divm_in_range ::
  "(nat \<Rightarrow> ulong) \<Rightarrow> rcc_regs \<Rightarrow> stm32mp1_clk_pll_s \<Rightarrow> pllcfg \<Rightarrow> bool" where
  "post_divm_in_range osc r pll cfg =
     (of_nat (refclk_min (stm32mp1_pll (plltype pll))) * 1000000 \<le> pll_post_divm osc r pll cfg \<and>
      pll_post_divm osc r pll cfg \<le> of_nat (refclk_max (stm32mp1_pll (plltype pll))) * 1000000)"

definition ifrge_of :: "(nat \<Rightarrow> ulong) \<Rightarrow> rcc_regs \<Rightarrow> stm32mp1_clk_pll_s \<Rightarrow> pllcfg \<Rightarrow> u32" where
  "ifrge_of osc r pll cfg =
     (if plltype pll = PLL_800 \<and> pll_post_divm osc r pll cfg \<ge> 8000000 then 1 else 0)"

definition cfgr1_word :: "u32 \<Rightarrow> u32 \<Rightarrow> u32 \<Rightarrow> u32" where
  "cfgr1_word n m ifrge =
     (push_bit RCC_PLLNCFGR1_DIVN_SHIFT n AND RCC_PLLNCFGR1_DIVN_MASK) OR
     (push_bit RCC_PLLNCFGR1_DIVM_SHIFT m AND RCC_PLLNCFGR1_DIVM_MASK) OR
     (push_bit RCC_PLLNCFGR1_IFRGE_SHIFT ifrge AND RCC_PLLNCFGR1_IFRGE_MASK)"

definition fracr_word :: "u32 \<Rightarrow> u32" where
  "fracr_word fracv = push_bit RCC_PLLNFRACR_FRACV_SHIFT fracv OR RCC_PLLNFRACR_FRACLE"

definition cfgr2_word :: "u32 \<Rightarrow> u32 \<Rightarrow> u32 \<Rightarrow> u32" where
  "cfgr2_word p q r =
     (push_bit RCC_PLLNCFGR2_DIVP_SHIFT p AND RCC_PLLNCFGR2_DIVP_MASK) OR
     (push_bit RCC_PLLNCFGR2_DIVQ_SHIFT q AND RCC_PLLNCFGR2_DIVQ_MASK) OR
     (push_bit RCC_PLLNCFGR2_DIVR_SHIFT r AND RCC_PLLNCFGR2_DIVR_MASK)"

definition prospective_cfgr1 ::
  "(nat \<Rightarrow> ulong) \<Rightarrow> rcc_regs \<Rightarrow> stm32mp1_clk_pll_s \<Rightarrow> pllcfg \<Rightarrow> u32" where
  "prospective_cfgr1 osc r pll cfg =
     cfgr1_word (cfg PLLCFG_N) (cfg PLLCFG_M) (ifrge_of osc r pll cfg)"

definition prospective_cfgr2 :: "pllcfg \<Rightarrow> u32" where
  "prospective_cfgr2 cfg = cfgr2_word (cfg PLLCFG_P) (cfg PLLCFG_Q) (cfg PLLCFG_R)"

definition cfg_of :: "u32 list \<Rightarrow> pllcfg" where
  "cfg_of xs i = (if i < length xs then xs ! i else 0)"

text \<open>
  Concrete inputs. PLL1 runs from HSE at 24 MHz with M = 2, N = 99, P = 0, Q = 1, R = 1 and
  no fractional part; PLL3 runs from HSE with M = 1, N = 33, P = 1, Q = 16, R = 36 and the
  fractional value 0x1a04, selected by the clock source cell \<^verbatim>\<open>0x8201\<close> (register offset
  0x820, source 1).
\<close>

definition pll1_cfg :: pllcfg where
  "pll1_cfg = cfg_of [2, 99, 0, 1, 1]"

definition pll1_regs :: rcc_regs where
  "pll1_regs = regs_of [(0x28, 1), (0x80, 0x13), (0x84, 0x20063), (0x8C, 0x10000),
                        (0x88, 0x10100)]"

definition pll1_m0_cfg :: pllcfg where
  "pll1_m0_cfg = cfg_of [0, 32, 0, 1, 1]"

definition pll1_m0_regs :: rcc_regs where
  "pll1_m0_regs = regs_of [(0x28, 1), (0x80, 0x13), (0x84, 0x20), (0x8C, 0x10000),
                           (0x88, 0x10100)]"

definition pll3_cfg :: pllcfg where
  "pll3_cfg = cfg_of [1, 33, 1, 16, 36]"

definition pll3_regs :: "u32 \<Rightarrow> rcc_regs" where
  "pll3_regs cr = regs_of [(0x820, 0x80000001), (0x880, cr), (0x884, 0x1010021),
                           (0x88C, 0x1D020), (0x888, 0x241001)]"

section \<open>Operating points\<close>

text \<open>
  \<^verbatim>\<open>struct stm32mp1_pll_settings\<close>, and the part of the driver's state the operating point
  functions work on: the RCC registers and the globals \<^verbatim>\<open>pll1_settings\<close> and
  \<^verbatim>\<open>current_opp_khz\<close>. The arrays have \<^verbatim>\<open>PLAT_MAX_OPP_NB\<close> cells; that macro and
  \<^verbatim>\<open>PLL1_SETTINGS_VALID_ID\<close> come from the platform's header.
\<close>

record stm32mp1_pll_settings_s =
  ps_valid_id :: u32
  ps_freq :: "nat \<Rightarrow> u32"
  ps_volt :: "nat \<Rightarrow> u32"
  ps_cfg :: "nat \<Rightarrow> pllcfg"
  ps_frac :: "nat \<Rightarrow> u32"

record opp_state =
  opp_rcc :: rcc_regs
  pll1_settings :: stm32mp1_pll_settings_s
  current_opp_khz :: u32

definition PLAT_MAX_OPP_NB :: "header \<Rightarrow> nat" where
  "PLAT_MAX_OPP_NB H = H ''PLAT_MAX_OPP_NB''"

definition clk_pll1_settings_are_valid :: "header \<Rightarrow> opp_state \<Rightarrow> bool" where
  "clk_pll1_settings_are_valid H st =
     (ps_valid_id (pll1_settings st) = of_nat (H ''PLL1_SETTINGS_VALID_ID''))"

text \<open>
  \<^verbatim>\<open>stm32mp1_round_opp_khz\<close> returns its \<^verbatim>\<open>int\<close> result and what \<^verbatim>\<open>*freq_khz\<close> holds
  afterwards. The loop over \<open>i\<close> is a fold over the indices, with \<^verbatim>\<open>round_opp\<close> as the
  accumulator.
\<close>

definition round_opp_step :: "opp_state \<Rightarrow> u32 \<Rightarrow> nat \<Rightarrow> u32 \<Rightarrow> u32" where
  "round_opp_step st freq_khz i round_opp =
     (if ps_freq (pll1_settings st) i \<le> freq_khz \<and> ps_freq (pll1_settings st) i > round_opp
      then ps_freq (pll1_settings st) i else round_opp)"

definition stm32mp1_round_opp_khz :: "header \<Rightarrow> opp_state \<Rightarrow> u32 \<Rightarrow> int \<times> u32" where
  "stm32mp1_round_opp_khz H st freq_khz =
     (if \<not> clk_pll1_settings_are_valid H st then (0, current_opp_khz st)
      else (0, fold (round_opp_step st freq_khz) [0..<PLAT_MAX_OPP_NB H] 0))"

text \<open>
  \<^verbatim>\<open>stm32mp1_pll1_config_from_opp_khz\<close> looks the frequency up in the table and returns
  \<^verbatim>\<open>-ENXIO\<close> when it is not there. What follows programs the MPU divider or PLL1 and waits,
  with a timeout, for the ready flags of the hardware; what it returns and leaves in the
  registers depends on the hardware and is the parameter \<open>hw\<close>, a function of the table,
  the index found, the frequency and the registers. It writes neither the table nor
  \<^verbatim>\<open>current_opp_khz\<close>.
\<close>

type_synonym pll1_hw = "stm32mp1_pll_settings_s \<Rightarrow> nat \<Rightarrow> u32 \<Rightarrow> rcc_regs \<Rightarrow> int \<times> rcc_regs"

definition stm32mp1_pll1_config_from_opp_khz ::
  "header \<Rightarrow> pll1_hw \<Rightarrow> opp_state \<Rightarrow> u32 \<Rightarrow> int \<times> opp_state" where
  "stm32mp1_pll1_config_from_opp_khz H hw st freq_khz =
     (case first_index (\<lambda>i. ps_freq (pll1_settings st) i = freq_khz) [0..<PLAT_MAX_OPP_NB H] 0 of
        None \<Rightarrow> (- ENXIO, st)
      | Some i \<Rightarrow>
          (case hw (pll1_settings st) i freq_khz (opp_rcc st) of
             (ret, r) \<Rightarrow> (ret, st\<lparr>opp_rcc := r\<rparr>)))"

definition stm32mp1_set_opp_khz ::
  "header \<Rightarrow> pll1_hw \<Rightarrow> opp_state \<Rightarrow> u32 \<Rightarrow> (int \<times> opp_state) ret" where
  "stm32mp1_set_opp_khz H hw st freq_khz =
     (if freq_khz = current_opp_khz st then Ret (0, st)
      else if \<not> clk_pll1_settings_are_valid H st then Ret (- EACCES, st)
      else
        let mpu_src = opp_rcc st (H ''RCC_MPCKSELR'') AND RCC_SELR_SRC_MASK
        in if mpu_src \<noteq> of_nat (H ''RCC_MPCKSELR_PLL'') \<and>
              mpu_src \<noteq> of_nat (H ''RCC_MPCKSELR_PLL_MPUDIV'')
           then Ret (- EPERM, st)
           else
             (case stm32mp1_pll1_config_from_opp_khz H hw st freq_khz of
                (ret, st1) \<Rightarrow>
                  if ret \<noteq> 0 then
                    (case stm32mp1_pll1_config_from_opp_khz H hw st1 (current_opp_khz st1) of
                       (ret2, st2) \<Rightarrow> if ret2 \<noteq> 0 then Panic else Ret (- EIO, st2))
                  else Ret (0, st1\<lparr>current_opp_khz := freq_khz\<rparr>)))"

text \<open>
  Concrete inputs: a table of two operating points, 650 MHz and 800 MHz, the first one
  current; the MPU runs from PLL1 (source 2) or from HSI (source 0). The hardware either
  answers in time and keeps the registers, or times out.
\<close>

definition opp_table :: "u32 \<Rightarrow> stm32mp1_pll_settings_s" where
  "opp_table vid =
     \<lparr>ps_valid_id = vid, ps_freq = cfg_of [650000, 800000], ps_volt = cfg_of [1200, 1350],
      ps_cfg = (\<lambda>_. cfg_of [2, 80, 0, 1, 1, 1]), ps_frac = cfg_of [0x800, 0]\<rparr>"

definition opp_st :: "u32 \<Rightarrow> u32 \<Rightarrow> opp_state" where
  "opp_st vid src =
     \<lparr>opp_rcc = regs_of [(0x20, src)], pll1_settings = opp_table vid,
      current_opp_khz = 650000\<rparr>"

definition hw_ready :: pll1_hw where
  "hw_ready tbl i f r = (0, r)"

definition ETIMEDOUT :: int where "ETIMEDOUT = 110"

definition hw_timeout :: pll1_hw where
  "hw_timeout tbl i f r = (- ETIMEDOUT, r)"

section \<open>The reverse PLL1 search\<close>














section \<open>The domain of PLL1 settings as the spec names it\<close>







section \<open>Gates that share no enable bit\<close>

text \<open>
  No two entries of the gate table use the same bit of the same register. This is a
  property of the header, which gives the register offsets; the header of the STM32MP15
  has it.
\<close>

definition gate_bits_distinct :: "header \<Rightarrow> image \<Rightarrow> bool" where
  "gate_bits_distinct H img =
     distinct (map (\<lambda>g. (g_offset g, g_bit g)) (stm32mp1_clk_gate H img))"

text \<open>
  The gate of \<^verbatim>\<open>DDRC2\<close> (entry 2 of the table, bit 2 of the register at 0xD8) is on and
  held once; every other gate is off and not held.
\<close>

definition ddrc2_held_state :: clk_state where
  "ddrc2_held_state =
     \<lparr>rcc = regs_of [(0xD8, 0x4)], gate_refcounts = (\<lambda>i. if i = 2 then 1 else 0)\<rparr>"

section \<open>The invariant of the search and concrete searches\<close>







section \<open>Properties\<close>

subsection \<open>Arithmetic on machine words\<close>

lemma unat_and_le: "unat (x AND m) \<le> unat (m::'a::len word)"
  by (simp add: word_le_nat_alt[symmetric] word_and_le1)

lemma unat_lt32: "unat (x::32 word) < 4294967296"
  using unsigned_less[of x, where 'a=nat] by simp

lemma unat_ucast_32_64: "unat (ucast (x::32 word) :: 64 word) = unat x"
proof -
  have "unat x < 2 ^ 64" using unat_lt32[of x] by simp
  then show ?thesis by (simp add: unsigned_ucast_eq take_bit_nat_eq_self)
qed

lemma unat_ucast_64_32: "unat (ucast (x::64 word) :: 32 word) = unat x mod 2 ^ 32"
  by (simp add: unsigned_ucast_eq take_bit_eq_mod)


lemma unat_push_bit_word:
  "unat (push_bit n (w::'a::len word)) = (unat w * 2 ^ n) mod 2 ^ LENGTH('a)"
proof -
  have "unat (push_bit n w) = take_bit LENGTH('a) (push_bit n (unat w))"
    by (rule unsigned_push_bit_eq)
  then show ?thesis by (simp only: take_bit_eq_mod push_bit_eq_mult)
qed

lemma unat_drop_bit_word: "unat (drop_bit n (w::'a::len word)) = unat w div 2 ^ n"
proof -
  have "unat (drop_bit n w) = drop_bit n (unat w)" by (rule unat_drop_bit_eq)
  then show ?thesis by (simp only: drop_bit_eq_div)
qed

lemma frac_num:
  fixes r divn fracv :: u32
  assumes "unat divn \<le> 511" "unat fracv \<le> 8191"
  shows "unat ((ucast r :: u64) * (push_bit 13 ((ucast divn :: u64) + 1) + ucast fracv))
         = unat r * ((unat divn + 1) * 2 ^ 13 + unat fracv)"
proof -
  have r: "unat r < 2 ^ 32" using unat_lt32[of r] by simp
  have a: "unat ((ucast divn :: u64) + 1) = unat divn + 1"
    using assms by (simp add: unat_word_ariths unat_ucast_32_64)
  have b: "unat (push_bit 13 ((ucast divn :: u64) + 1)) = (unat divn + 1) * 2 ^ 13"
  proof -
    have "unat (push_bit 13 ((ucast divn :: u64) + 1)) =
          (unat ((ucast divn :: u64) + 1) * 2 ^ 13) mod 2 ^ 64"
      by (simp only: unat_push_bit_word) simp
    also have "\<dots> = ((unat divn + 1) * 2 ^ 13) mod 2 ^ 64" by (simp only: a)
    also have "\<dots> = (unat divn + 1) * 2 ^ 13" using assms by simp
    finally show ?thesis .
  qed
  have c: "unat (push_bit 13 ((ucast divn :: u64) + 1) + ucast fracv)
           = (unat divn + 1) * 2 ^ 13 + unat fracv"
  proof -
    have "unat (push_bit 13 ((ucast divn :: u64) + 1) + (ucast fracv :: u64)) =
          (unat (push_bit 13 ((ucast divn :: u64) + 1)) + unat (ucast fracv :: u64)) mod 2 ^ 64"
      by (simp add: unat_word_ariths(1))
    also have "\<dots> = ((unat divn + 1) * 2 ^ 13 + unat fracv) mod 2 ^ 64"
      by (simp only: b unat_ucast_32_64)
    also have "\<dots> = (unat divn + 1) * 2 ^ 13 + unat fracv" using assms by simp
    finally show ?thesis .
  qed
  have d: "(unat divn + 1) * 2 ^ 13 + unat fracv < 2 ^ 23" using assms by simp
  have "unat r * ((unat divn + 1) * 2 ^ 13 + unat fracv) < 2 ^ 32 * 2 ^ 23"
    using r d by (intro mult_strict_mono) auto
  then have e: "unat r * ((unat divn + 1) * 2 ^ 13 + unat fracv) < 2 ^ 64" by simp
  have "unat ((ucast r :: u64) * (push_bit 13 ((ucast divn :: u64) + 1) + ucast fracv)) =
        (unat (ucast r :: u64) * unat (push_bit 13 ((ucast divn :: u64) + 1) + (ucast fracv :: u64))) mod 2 ^ 64"
    by (simp add: unat_word_ariths(2))
  also have "\<dots> = (unat r * ((unat divn + 1) * 2 ^ 13 + unat fracv)) mod 2 ^ 64"
    by (simp only: c unat_ucast_32_64)
  also have "\<dots> = unat r * ((unat divn + 1) * 2 ^ 13 + unat fracv)"
    using e by simp
  finally show ?thesis .
qed

lemma frac_den:
  fixes divm :: u32
  assumes "unat divm \<le> 63"
  shows "unat (push_bit 13 ((ucast divm :: u64) + 1)) = (unat divm + 1) * 2 ^ 13"
proof -
  have a: "unat ((ucast divm :: u64) + 1) = unat divm + 1"
    using assms by (simp add: unat_word_ariths unat_ucast_32_64)
  have "unat (push_bit 13 ((ucast divm :: u64) + 1)) =
        (unat ((ucast divm :: u64) + 1) * 2 ^ 13) mod 2 ^ 64"
    by (simp only: unat_push_bit_word) simp
  also have "\<dots> = ((unat divm + 1) * 2 ^ 13) mod 2 ^ 64" by (simp only: a)
  also have "\<dots> = (unat divm + 1) * 2 ^ 13" using assms by simp
  finally show ?thesis .
qed

lemma field_divm_le: "unat (drop_bit RCC_PLLNCFGR1_DIVM_SHIFT (x AND RCC_PLLNCFGR1_DIVM_MASK)) \<le> 63"
proof -
  have "unat (x AND RCC_PLLNCFGR1_DIVM_MASK) \<le> unat RCC_PLLNCFGR1_DIVM_MASK"
    by (rule unat_and_le)
  then have "unat (x AND RCC_PLLNCFGR1_DIVM_MASK) div 2 ^ 16 \<le> 4128768 div 2 ^ 16"
    unfolding RCC_PLLNCFGR1_DIVM_MASK_def by (intro div_le_mono) simp
  then show ?thesis
    by (simp only: unat_drop_bit_word RCC_PLLNCFGR1_DIVM_SHIFT_def) simp
qed

lemma field_divn_le: "unat (x AND RCC_PLLNCFGR1_DIVN_MASK) \<le> 511"
  using unat_and_le[of x RCC_PLLNCFGR1_DIVN_MASK] by (simp add: RCC_PLLNCFGR1_DIVN_MASK_def)

lemma field_fracv_le: "unat (drop_bit RCC_PLLNFRACR_FRACV_SHIFT (x AND RCC_PLLNFRACR_FRACV_MASK)) \<le> 8191"
proof -
  have "unat (x AND RCC_PLLNFRACR_FRACV_MASK) \<le> unat RCC_PLLNFRACR_FRACV_MASK"
    by (rule unat_and_le)
  then have "unat (x AND RCC_PLLNFRACR_FRACV_MASK) div 2 ^ 3 \<le> 65528 div 2 ^ 3"
    unfolding RCC_PLLNFRACR_FRACV_MASK_def by (intro div_le_mono) simp
  then show ?thesis
    by (simp only: unat_drop_bit_word RCC_PLLNFRACR_FRACV_SHIFT_def) simp
qed

lemma int_branch:
  fixes r divn divm :: u32
  assumes "unat divn \<le> 511" "unat divm \<le> 63" "unat r * (unat divn + 1) < 2 ^ 32"
  shows "unat (r * (divn + 1) div (divm + 1)) = unat r * (unat divn + 1) div (unat divm + 1)"
proof -
  have a: "unat (divn + 1) = unat divn + 1" using assms by (simp add: unat_word_ariths)
  have b: "unat (divm + 1) = unat divm + 1" using assms by (simp add: unat_word_ariths)
  have c: "unat (r * (divn + 1)) = unat r * (unat divn + 1)"
    using assms(3) by (simp add: unat_word_ariths(2) a)
  show ?thesis by (simp only: unat_div a b c)
qed

subsection \<open>Evaluation on the sample header\<close>

lemmas hdr_eval = sample_hdr_def sample_macros_def map_of_Cons_code list.inject list.distinct
  char.inject simp_thms if_True if_False option.case

lemma sample_pll1:
  "pll_ref sample_hdr PLL1i =
     \<lparr>plltype = PLL_1600, rckxselr = 0x28, pllxcfgr1 = 0x84, pllxcfgr2 = 0x88,
      pllxfracr = 0x8C, pllxcr = 0x80, pllxcsgr = 0x90,
      refclk = refclk4 HSIp HSEp UNKNOWN_OSC_ID UNKNOWN_OSC_ID\<rparr>"
  unfolding pll_ref_def stm32mp1_clk_pll_def PLL1i_def nth_Cons_0
  by (simp only: hdr_eval) (simp add: CLK_PLL_def u16_def)

lemmas eval_defs = regs_of_def osc_of_def rcc_layout_defs parent_id_defs pll_enum_defs
  pll_M_def pll_N_def pll_FRAC_def pll_FRACLE_def pll_DIV_def pll_reference_def
  stm32mp1_pll_get_fref_def stm32mp1_clk_get_fixed_def refclk4_def pllncfgr2_def

subsection \<open>PLL mathematics\<close>

lemma fvco_frac:
  assumes "pll_FRACLE regs pll"
  shows "unat (stm32mp1_pll_get_fvco osc regs pll) =
         (pll_reference osc regs pll * ((pll_N regs pll + 1) * 2 ^ 13 + pll_FRAC regs pll) div
          ((pll_M regs pll + 1) * 2 ^ 13)) mod 2 ^ 32"
proof -
  let ?divm = "drop_bit RCC_PLLNCFGR1_DIVM_SHIFT (regs (pllxcfgr1 pll) AND RCC_PLLNCFGR1_DIVM_MASK)"
  let ?divn = "regs (pllxcfgr1 pll) AND RCC_PLLNCFGR1_DIVN_MASK"
  let ?fracv = "drop_bit RCC_PLLNFRACR_FRACV_SHIFT (regs (pllxfracr pll) AND RCC_PLLNFRACR_FRACV_MASK)"
  let ?r = "stm32mp1_pll_get_fref osc regs pll"
  have eq: "stm32mp1_pll_get_fvco osc regs pll =
        ucast ((ucast ?r :: u64) * (push_bit 13 ((ucast ?divn :: u64) + 1) + ucast ?fracv) div
               push_bit 13 ((ucast ?divm :: u64) + 1))"
    using assms by (simp add: stm32mp1_pll_get_fvco_def pll_FRACLE_def Let_def)
  show ?thesis
    unfolding eq pll_reference_def pll_N_def pll_M_def pll_FRAC_def
    by (simp only: unat_ucast_64_32 unat_div frac_num[OF field_divn_le field_fracv_le]
          frac_den[OF field_divm_le])
qed

lemma fvco_int:
  assumes "\<not> pll_FRACLE regs pll"
    and "pll_reference osc regs pll * (pll_N regs pll + 1) < 2 ^ 32"
  shows "unat (stm32mp1_pll_get_fvco osc regs pll) =
         pll_reference osc regs pll * (pll_N regs pll + 1) div (pll_M regs pll + 1)"
proof -
  let ?divm = "drop_bit RCC_PLLNCFGR1_DIVM_SHIFT (regs (pllxcfgr1 pll) AND RCC_PLLNCFGR1_DIVM_MASK)"
  let ?divn = "regs (pllxcfgr1 pll) AND RCC_PLLNCFGR1_DIVN_MASK"
  let ?r = "stm32mp1_pll_get_fref osc regs pll"
  have eq: "stm32mp1_pll_get_fvco osc regs pll = ?r * (?divn + 1) div (?divm + 1)"
    using assms(1) by (simp add: stm32mp1_pll_get_fvco_def pll_FRACLE_def Let_def)
  show ?thesis
    unfolding eq pll_reference_def pll_N_def pll_M_def
    by (rule int_branch[OF field_divn_le field_divm_le])
       (use assms(2) in \<open>simp add: pll_reference_def pll_N_def\<close>)
qed

lemma read_pll_freq_div:
  assumes "div_id < DIV_NB"
  shows "unat (stm32mp1_read_pll_freq H osc regs pll_id div_id) =
         unat (stm32mp1_pll_get_fvco osc regs (pll_ref H pll_id)) div
         (pll_DIV regs (pll_ref H pll_id) div_id + 1)"
proof -
  let ?divy = "drop_bit (pllncfgr2 ! div_id) (regs (pllxcfgr2 (pll_ref H pll_id))) AND RCC_PLLNCFGR2_DIVX_MASK"
  have le: "unat ?divy \<le> 127"
    using unat_and_le[of "drop_bit (pllncfgr2 ! div_id) (regs (pllxcfgr2 (pll_ref H pll_id)))" RCC_PLLNCFGR2_DIVX_MASK]
    by (simp add: RCC_PLLNCFGR2_DIVX_MASK_def)
  have s: "unat (?divy + 1) = unat ?divy + 1" using le by (simp add: unat_word_ariths)
  have eq: "stm32mp1_read_pll_freq H osc regs pll_id div_id =
            stm32mp1_pll_get_fvco osc regs (pll_ref H pll_id) div (?divy + 1)"
    using assms by (simp add: stm32mp1_read_pll_freq_def Let_def)
  show ?thesis unfolding eq pll_DIV_def by (simp only: unat_div s)
qed

text \<open>
  The forward mathematics as the code has it. The frequency \<^verbatim>\<open>stm32mp1_pll_get_fvco\<close>
  computes is
  \<open>reference * ((N+1) * 2^13 + FRAC) div ((M+1) * 2^13)\<close> when FRACLE is set, computed on
  64 bits and truncated to the 32 bits of \<^verbatim>\<open>unsigned long\<close>; when FRACLE is clear it is
  \<open>reference * (N+1) div (M+1)\<close> provided the product \<open>reference * (N+1)\<close> fits the
  32 bits the branch computes on. The rate of an output is that value divided by the
  output's divider plus one. With reference 24 MHz, M = 1, N = 65 and P = 1 the results are
  792 MHz and 396 MHz without a fractional part, and 798 MHz and 399 MHz with FRAC = 4096.
\<close>

theorem pll_forward_math:
  "(pll_FRACLE regs pll \<longrightarrow>
      unat (stm32mp1_pll_get_fvco osc regs pll) =
      (pll_reference osc regs pll * ((pll_N regs pll + 1) * 2 ^ 13 + pll_FRAC regs pll) div
       ((pll_M regs pll + 1) * 2 ^ 13)) mod 2 ^ 32) \<and>
   (\<not> pll_FRACLE regs pll \<and> pll_reference osc regs pll * (pll_N regs pll + 1) < 2 ^ 32 \<longrightarrow>
      unat (stm32mp1_pll_get_fvco osc regs pll) =
      pll_reference osc regs pll * (pll_N regs pll + 1) div (pll_M regs pll + 1)) \<and>
   (div_id < DIV_NB \<longrightarrow>
      unat (stm32mp1_read_pll_freq H osc regs pll_id div_id) =
      unat (stm32mp1_pll_get_fvco osc regs (pll_ref H pll_id)) div
      (pll_DIV regs (pll_ref H pll_id) div_id + 1)) \<and>
   (pll_reference osc regs pll = 24000000 \<and> pll_M regs pll = 1 \<and> pll_N regs pll = 65 \<and>
    \<not> pll_FRACLE regs pll \<longrightarrow>
      stm32mp1_pll_get_fvco osc regs pll = 792000000) \<and>
   (pll_reference osc regs pll = 24000000 \<and> pll_M regs pll = 1 \<and> pll_N regs pll = 65 \<and>
    pll_FRACLE regs pll \<and> pll_FRAC regs pll = 4096 \<longrightarrow>
      stm32mp1_pll_get_fvco osc regs pll = 798000000) \<and>
   (pll_reference osc regs (pll_ref H pll_id) = 24000000 \<and> pll_M regs (pll_ref H pll_id) = 1 \<and>
    pll_N regs (pll_ref H pll_id) = 65 \<and> pll_DIV regs (pll_ref H pll_id) DIV_P = 1 \<and>
    \<not> pll_FRACLE regs (pll_ref H pll_id) \<longrightarrow>
      stm32mp1_read_pll_freq H osc regs pll_id DIV_P = 396000000) \<and>
   (pll_reference osc regs (pll_ref H pll_id) = 24000000 \<and> pll_M regs (pll_ref H pll_id) = 1 \<and>
    pll_N regs (pll_ref H pll_id) = 65 \<and> pll_DIV regs (pll_ref H pll_id) DIV_P = 1 \<and>
    pll_FRACLE regs (pll_ref H pll_id) \<and> pll_FRAC regs (pll_ref H pll_id) = 4096 \<longrightarrow>
      stm32mp1_read_pll_freq H osc regs pll_id DIV_P = 399000000)"
proof -
  have s1: "stm32mp1_pll_get_fvco osc regs q = 792000000"
    if "pll_reference osc regs q = 24000000" "pll_M regs q = 1" "pll_N regs q = 65"
       "\<not> pll_FRACLE regs q" for q
  proof -
    have "pll_reference osc regs q * (pll_N regs q + 1) < 2 ^ 32"
      by (simp only: that) simp
    then have "unat (stm32mp1_pll_get_fvco osc regs q) =
               pll_reference osc regs q * (pll_N regs q + 1) div (pll_M regs q + 1)"
      using that(4) by (rule fvco_int[rotated])
    also have "\<dots> = 792000000" by (simp only: that one_add_one) simp
    finally have "unat (stm32mp1_pll_get_fvco osc regs q) = 792000000" .
    then have "unat (stm32mp1_pll_get_fvco osc regs q) = unat (792000000 :: ulong)" by simp
    then show ?thesis by (simp only: word_unat_eq_iff)
  qed
  have s2: "stm32mp1_pll_get_fvco osc regs q = 798000000"
    if "pll_reference osc regs q = 24000000" "pll_M regs q = 1" "pll_N regs q = 65"
       "pll_FRACLE regs q" "pll_FRAC regs q = 4096" for q
  proof -
    have "unat (stm32mp1_pll_get_fvco osc regs q) =
          (pll_reference osc regs q * ((pll_N regs q + 1) * 2 ^ 13 + pll_FRAC regs q) div
           ((pll_M regs q + 1) * 2 ^ 13)) mod 2 ^ 32"
      using that(4) by (rule fvco_frac)
    also have "\<dots> = 798000000" by (simp only: that one_add_one) simp
    finally have "unat (stm32mp1_pll_get_fvco osc regs q) = 798000000" .
    then have "unat (stm32mp1_pll_get_fvco osc regs q) = unat (798000000 :: ulong)" by simp
    then show ?thesis by (simp only: word_unat_eq_iff)
  qed
  have dp: "DIV_P < DIV_NB" by (simp add: DIV_P_def DIV_NB_def)
  have o1: "stm32mp1_read_pll_freq H osc regs pll_id DIV_P = 396000000"
    if "stm32mp1_pll_get_fvco osc regs (pll_ref H pll_id) = 792000000"
       "pll_DIV regs (pll_ref H pll_id) DIV_P = 1"
  proof -
    have "unat (stm32mp1_read_pll_freq H osc regs pll_id DIV_P) =
          unat (stm32mp1_pll_get_fvco osc regs (pll_ref H pll_id)) div
          (pll_DIV regs (pll_ref H pll_id) DIV_P + 1)"
      by (rule read_pll_freq_div[OF dp])
    also have "\<dots> = 396000000" by (simp only: that one_add_one) simp
    finally have "unat (stm32mp1_read_pll_freq H osc regs pll_id DIV_P) = 396000000" .
    then have "unat (stm32mp1_read_pll_freq H osc regs pll_id DIV_P) = unat (396000000 :: ulong)"
      by simp
    then show ?thesis by (simp only: word_unat_eq_iff)
  qed
  have o2: "stm32mp1_read_pll_freq H osc regs pll_id DIV_P = 399000000"
    if "stm32mp1_pll_get_fvco osc regs (pll_ref H pll_id) = 798000000"
       "pll_DIV regs (pll_ref H pll_id) DIV_P = 1"
  proof -
    have "unat (stm32mp1_read_pll_freq H osc regs pll_id DIV_P) =
          unat (stm32mp1_pll_get_fvco osc regs (pll_ref H pll_id)) div
          (pll_DIV regs (pll_ref H pll_id) DIV_P + 1)"
      by (rule read_pll_freq_div[OF dp])
    also have "\<dots> = 399000000" by (simp only: that one_add_one) simp
    finally have "unat (stm32mp1_read_pll_freq H osc regs pll_id DIV_P) = 399000000" .
    then have "unat (stm32mp1_read_pll_freq H osc regs pll_id DIV_P) = unat (399000000 :: ulong)"
      by simp
    then show ?thesis by (simp only: word_unat_eq_iff)
  qed
  show ?thesis
  proof (intro conjI impI)
    assume "pll_FRACLE regs pll"
    then show "unat (stm32mp1_pll_get_fvco osc regs pll) =
      (pll_reference osc regs pll * ((pll_N regs pll + 1) * 2 ^ 13 + pll_FRAC regs pll) div
       ((pll_M regs pll + 1) * 2 ^ 13)) mod 2 ^ 32"
      by (rule fvco_frac)
  next
    assume "\<not> pll_FRACLE regs pll \<and> pll_reference osc regs pll * (pll_N regs pll + 1) < 2 ^ 32"
    then show "unat (stm32mp1_pll_get_fvco osc regs pll) =
      pll_reference osc regs pll * (pll_N regs pll + 1) div (pll_M regs pll + 1)"
      by (intro fvco_int) simp_all
  next
    assume "div_id < DIV_NB"
    then show "unat (stm32mp1_read_pll_freq H osc regs pll_id div_id) =
      unat (stm32mp1_pll_get_fvco osc regs (pll_ref H pll_id)) div
      (pll_DIV regs (pll_ref H pll_id) div_id + 1)"
      by (rule read_pll_freq_div)
  next
    assume "pll_reference osc regs pll = 24000000 \<and> pll_M regs pll = 1 \<and> pll_N regs pll = 65 \<and>
            \<not> pll_FRACLE regs pll"
    then show "stm32mp1_pll_get_fvco osc regs pll = 792000000"
      by (intro s1) simp_all
  next
    assume "pll_reference osc regs pll = 24000000 \<and> pll_M regs pll = 1 \<and> pll_N regs pll = 65 \<and>
            pll_FRACLE regs pll \<and> pll_FRAC regs pll = 4096"
    then show "stm32mp1_pll_get_fvco osc regs pll = 798000000"
      by (intro s2) simp_all
  next
    assume a: "pll_reference osc regs (pll_ref H pll_id) = 24000000 \<and>
            pll_M regs (pll_ref H pll_id) = 1 \<and> pll_N regs (pll_ref H pll_id) = 65 \<and>
            pll_DIV regs (pll_ref H pll_id) DIV_P = 1 \<and> \<not> pll_FRACLE regs (pll_ref H pll_id)"
    then have "stm32mp1_pll_get_fvco osc regs (pll_ref H pll_id) = 792000000"
      by (intro s1) simp_all
    then show "stm32mp1_read_pll_freq H osc regs pll_id DIV_P = 396000000"
      using a by (intro o1) simp_all
  next
    assume a: "pll_reference osc regs (pll_ref H pll_id) = 24000000 \<and>
            pll_M regs (pll_ref H pll_id) = 1 \<and> pll_N regs (pll_ref H pll_id) = 65 \<and>
            pll_DIV regs (pll_ref H pll_id) DIV_P = 1 \<and> pll_FRACLE regs (pll_ref H pll_id) \<and>
            pll_FRAC regs (pll_ref H pll_id) = 4096"
    then have "stm32mp1_pll_get_fvco osc regs (pll_ref H pll_id) = 798000000"
      by (intro s2) simp_all
    then show "stm32mp1_read_pll_freq H osc regs pll_id DIV_P = 399000000"
      using a by (intro o2) simp_all
  qed
qed

text \<open>The two scenarios S1 and S2 on the registers of PLL1 of the sample header.\<close>

theorem pll_forward_math_witness:
  "stm32mp1_pll_get_fvco hse24_osc s1_regs (pll_ref sample_hdr PLL1i) = 792000000 \<and>
   stm32mp1_read_pll_freq sample_hdr hse24_osc s1_regs PLL1i DIV_P = 396000000 \<and>
   stm32mp1_pll_get_fvco hse24_osc s2_regs (pll_ref sample_hdr PLL1i) = 798000000 \<and>
   stm32mp1_read_pll_freq sample_hdr hse24_osc s2_regs PLL1i DIV_P = 399000000"
proof -
  have h1: "pll_reference hse24_osc s1_regs (pll_ref sample_hdr PLL1i) = 24000000 \<and>
            pll_M s1_regs (pll_ref sample_hdr PLL1i) = 1 \<and>
            pll_N s1_regs (pll_ref sample_hdr PLL1i) = 65 \<and>
            pll_DIV s1_regs (pll_ref sample_hdr PLL1i) DIV_P = 1 \<and>
            \<not> pll_FRACLE s1_regs (pll_ref sample_hdr PLL1i)"
    unfolding sample_pll1 by (simp add: s1_regs_def hse24_osc_def eval_defs)
  have h2: "pll_reference hse24_osc s2_regs (pll_ref sample_hdr PLL1i) = 24000000 \<and>
            pll_M s2_regs (pll_ref sample_hdr PLL1i) = 1 \<and>
            pll_N s2_regs (pll_ref sample_hdr PLL1i) = 65 \<and>
            pll_DIV s2_regs (pll_ref sample_hdr PLL1i) DIV_P = 1 \<and>
            pll_FRACLE s2_regs (pll_ref sample_hdr PLL1i) \<and>
            pll_FRAC s2_regs (pll_ref sample_hdr PLL1i) = 4096"
    unfolding sample_pll1 by (simp add: s2_regs_def hse24_osc_def eval_defs)
  note t1 = pll_forward_math[of s1_regs "pll_ref sample_hdr PLL1i" hse24_osc DIV_P sample_hdr PLL1i]
  note t2 = pll_forward_math[of s2_regs "pll_ref sample_hdr PLL1i" hse24_osc DIV_P sample_hdr PLL1i]
  note c4 = conjunct2[THEN conjunct2, THEN conjunct2, THEN conjunct1, THEN mp]
  note c5 = conjunct2[THEN conjunct2, THEN conjunct2, THEN conjunct2, THEN conjunct1, THEN mp]
  note c6 = conjunct2[THEN conjunct2, THEN conjunct2, THEN conjunct2, THEN conjunct2,
                      THEN conjunct1, THEN mp]
  note c7 = conjunct2[THEN conjunct2, THEN conjunct2, THEN conjunct2, THEN conjunct2,
                      THEN conjunct2, THEN mp]
  have a: "stm32mp1_pll_get_fvco hse24_osc s1_regs (pll_ref sample_hdr PLL1i) = 792000000"
    by (rule t1[THEN c4]) (use h1 in blast)
  have b: "stm32mp1_read_pll_freq sample_hdr hse24_osc s1_regs PLL1i DIV_P = 396000000"
    by (rule t1[THEN c6]) (use h1 in blast)
  have c: "stm32mp1_pll_get_fvco hse24_osc s2_regs (pll_ref sample_hdr PLL1i) = 798000000"
    by (rule t2[THEN c5]) (use h2 in blast)
  have d: "stm32mp1_read_pll_freq sample_hdr hse24_osc s2_regs PLL1i DIV_P = 399000000"
    by (rule t2[THEN c7]) (use h2 in blast)
  from a b c d show ?thesis by (intro conjI)
qed

text \<open>
  Claim C2. The VCO side frequency with FRACLE clear is \<open>reference * (N+1) div (M+1)\<close>,
  computed without loss. The code does not do that: the branch with FRACLE clear multiplies
  on the 32 bits of \<^verbatim>\<open>unsigned long\<close>, where the branch with FRACLE set widens to
  \<^verbatim>\<open>unsigned long long\<close> first. With the 64 MHz HSI as the reference of PLL1, M = 7, N = 99
  and FRACLE clear, \<^verbatim>\<open>stm32mp1_pll_get_fvco\<close> returns 263129088 Hz; the formula of the claim,
  which is the one of the comment above the branch, gives
  \<open>64000000 * 100 div 8 = 800000000\<close>.
\<close>

theorem pll_integer_branch_wraps:
  "pll_reference hsi64_osc wrap_regs (pll_ref sample_hdr PLL1i) = 64000000 \<and>
   pll_M wrap_regs (pll_ref sample_hdr PLL1i) = 7 \<and>
   pll_N wrap_regs (pll_ref sample_hdr PLL1i) = 99 \<and>
   \<not> pll_FRACLE wrap_regs (pll_ref sample_hdr PLL1i) \<and>
   unat (stm32mp1_pll_get_fvco hsi64_osc wrap_regs (pll_ref sample_hdr PLL1i)) = 263129088 \<and>
   unat (stm32mp1_pll_get_fvco hsi64_osc wrap_regs (pll_ref sample_hdr PLL1i)) \<noteq>
     64000000 * (99 + 1) div (7 + 1)"
  unfolding sample_pll1
  by (simp add: wrap_regs_def hsi64_osc_def eval_defs stm32mp1_pll_get_fvco_def)

subsection \<open>The AXI subsystem\<close>

lemma axi_div_nth:
  "k < 8 \<Longrightarrow> unat (stm32mp1_axi_div ! k) = [1, 2, 3, 4, 4, 4, 4, 4] ! k"
proof -
  assume "k < 8"
  then consider "k \<le> 3" "k = 0 \<or> k = 1 \<or> k = 2 \<or> k = 3" |
    "4 \<le> k" "k = 4 \<or> k = 5 \<or> k = 6 \<or> k = 7"
    by linarith
  then show ?thesis by cases (auto simp add: stm32mp1_axi_div_def)
qed

lemma field3_lt8: "unat ((x::u32) AND 7) < 8"
  using unat_and_le[of x 7] by simp

lemma axi_rate_nat:
  "unat (axi_rate H osc regs p) =
     (let c = unat (axi_source H osc regs) div ([1, 2, 3, 4, 4, 4, 4, 4] ! axidiv_field H regs)
      in if p = PCLK4p then c div 2 ^ (stm32mp1_mpu_apbx_div ! apb4div_field H regs)
         else if p = PCLK5p then c div 2 ^ (stm32mp1_mpu_apbx_div ! apb5div_field H regs)
         else c)"
proof -
  have i: "axidiv_field H regs < 8"
    unfolding axidiv_field_def RCC_AXIDIV_MASK_def by (rule field3_lt8)
  have c: "unat (axi_source H osc regs div
                 stm32mp1_axi_div ! unat (regs (H ''RCC_AXIDIVR'') AND RCC_AXIDIV_MASK)) =
           unat (axi_source H osc regs) div ([1, 2, 3, 4, 4, 4, 4, 4] ! axidiv_field H regs)"
    using axi_div_nth[OF i] by (simp only: unat_div axidiv_field_def)
  have e: "axi_rate H osc regs p =
     (let c = axi_source H osc regs div
              stm32mp1_axi_div ! unat (regs (H ''RCC_AXIDIVR'') AND RCC_AXIDIV_MASK)
      in if p = PCLK4p then
           drop_bit (stm32mp1_mpu_apbx_div ! unat (regs (H ''RCC_APB4DIVR'') AND RCC_APBXDIV_MASK)) c
         else if p = PCLK5p then
           drop_bit (stm32mp1_mpu_apbx_div ! unat (regs (H ''RCC_APB5DIVR'') AND RCC_APBXDIV_MASK)) c
         else c)"
    by (simp add: axi_rate_def axi_source_def axi_src_field_def Let_def)
  show ?thesis
    unfolding e Let_def
    by (simp only: if_distrib[of unat] unat_drop_bit_word c apb4div_field_def apb5div_field_def)
qed

text \<open>
  Claim C9. For the clocks of the AXI subsystem (ACLK, HCLK2, HCLK6, PCLK4, PCLK5) the
  computed rate is the rate of the selected source (HSI, HSE or PLL2_P) divided by the entry
  of the table 1, 2, 3, 4, 4, 4, 4, 4 that the AXIDIV field indexes; for PCLK4 and PCLK5 it
  is further shifted right by the entry of the table 0, 1, 2, 3, 4, 4, 4, 4 that the APB4DIV
  or APB5DIV field indexes. With PLL2_P selected at 266000000 Hz, AXIDIV field 1 and
  APB5DIV field 2 the rate of PCLK5 is 33250000 Hz.
\<close>

theorem axi_subsystem_rate:
  "(p = ACLKp \<or> p = HCLK2p \<or> p = HCLK6p \<longrightarrow>
      unat (get_clock_rate H osc regs p) =
      unat (axi_source H osc regs) div ([1, 2, 3, 4, 4, 4, 4, 4] ! axidiv_field H regs)) \<and>
   unat (get_clock_rate H osc regs PCLK4p) =
     unat (axi_source H osc regs) div ([1, 2, 3, 4, 4, 4, 4, 4] ! axidiv_field H regs) div
     2 ^ ([0, 1, 2, 3, 4, 4, 4, 4] ! apb4div_field H regs) \<and>
   unat (get_clock_rate H osc regs PCLK5p) =
     unat (axi_source H osc regs) div ([1, 2, 3, 4, 4, 4, 4, 4] ! axidiv_field H regs) div
     2 ^ ([0, 1, 2, 3, 4, 4, 4, 4] ! apb5div_field H regs) \<and>
   (axi_src_field H regs = hv H ''RCC_ASSCKSELR_PLL'' \<and>
    hv H ''RCC_ASSCKSELR_PLL'' \<noteq> hv H ''RCC_ASSCKSELR_HSI'' \<and>
    hv H ''RCC_ASSCKSELR_PLL'' \<noteq> hv H ''RCC_ASSCKSELR_HSE'' \<and>
    stm32mp1_read_pll_freq H osc regs PLL2i DIV_P = 266000000 \<and>
    axidiv_field H regs = 1 \<and> apb5div_field H regs = 2 \<longrightarrow>
      get_clock_rate H osc regs PCLK5p = 33250000)"
proof -
  have g: "get_clock_rate H osc regs q = axi_rate H osc regs q"
    if "q = ACLKp \<or> q = HCLK2p \<or> q = HCLK6p \<or> q = PCLK4p \<or> q = PCLK5p" for q
    using that by (auto simp: get_clock_rate_def parent_id_defs)
  have a: "unat (get_clock_rate H osc regs p) =
      unat (axi_source H osc regs) div ([1, 2, 3, 4, 4, 4, 4, 4] ! axidiv_field H regs)"
    if "p = ACLKp \<or> p = HCLK2p \<or> p = HCLK6p"
  proof -
    have "p \<noteq> PCLK4p" "p \<noteq> PCLK5p" using that by (auto simp: parent_id_defs)
    then show ?thesis using that by (simp add: g axi_rate_nat Let_def)
  qed
  have b: "unat (get_clock_rate H osc regs PCLK4p) =
     unat (axi_source H osc regs) div ([1, 2, 3, 4, 4, 4, 4, 4] ! axidiv_field H regs) div
     2 ^ ([0, 1, 2, 3, 4, 4, 4, 4] ! apb4div_field H regs)"
    by (simp add: g axi_rate_nat Let_def stm32mp1_mpu_apbx_div_def)
  have c: "unat (get_clock_rate H osc regs PCLK5p) =
     unat (axi_source H osc regs) div ([1, 2, 3, 4, 4, 4, 4, 4] ! axidiv_field H regs) div
     2 ^ ([0, 1, 2, 3, 4, 4, 4, 4] ! apb5div_field H regs)"
    by (simp add: g axi_rate_nat Let_def stm32mp1_mpu_apbx_div_def parent_id_defs)
  have d: "get_clock_rate H osc regs PCLK5p = 33250000"
    if h: "axi_src_field H regs = hv H ''RCC_ASSCKSELR_PLL''"
          "hv H ''RCC_ASSCKSELR_PLL'' \<noteq> hv H ''RCC_ASSCKSELR_HSI''"
          "hv H ''RCC_ASSCKSELR_PLL'' \<noteq> hv H ''RCC_ASSCKSELR_HSE''"
          "stm32mp1_read_pll_freq H osc regs PLL2i DIV_P = 266000000"
          "axidiv_field H regs = 1" "apb5div_field H regs = 2"
  proof -
    have src: "axi_source H osc regs = 266000000"
      using h(1,2,3,4) by (simp add: axi_source_def)
    have "unat (get_clock_rate H osc regs PCLK5p) = 33250000"
      unfolding c src h(5) h(6) by simp
    then have "unat (get_clock_rate H osc regs PCLK5p) = unat (33250000 :: ulong)" by simp
    then show ?thesis by (simp only: word_unat_eq_iff)
  qed
  show ?thesis
  proof (intro conjI impI)
    assume "p = ACLKp \<or> p = HCLK2p \<or> p = HCLK6p"
    then show "unat (get_clock_rate H osc regs p) =
      unat (axi_source H osc regs) div ([1, 2, 3, 4, 4, 4, 4, 4] ! axidiv_field H regs)"
      by (rule a)
  next
    show "unat (get_clock_rate H osc regs PCLK4p) =
     unat (axi_source H osc regs) div ([1, 2, 3, 4, 4, 4, 4, 4] ! axidiv_field H regs) div
     2 ^ ([0, 1, 2, 3, 4, 4, 4, 4] ! apb4div_field H regs)" by (rule b)
  next
    show "unat (get_clock_rate H osc regs PCLK5p) =
     unat (axi_source H osc regs) div ([1, 2, 3, 4, 4, 4, 4, 4] ! axidiv_field H regs) div
     2 ^ ([0, 1, 2, 3, 4, 4, 4, 4] ! apb5div_field H regs)" by (rule c)
  next
    assume "axi_src_field H regs = hv H ''RCC_ASSCKSELR_PLL'' \<and>
      hv H ''RCC_ASSCKSELR_PLL'' \<noteq> hv H ''RCC_ASSCKSELR_HSI'' \<and>
      hv H ''RCC_ASSCKSELR_PLL'' \<noteq> hv H ''RCC_ASSCKSELR_HSE'' \<and>
      stm32mp1_read_pll_freq H osc regs PLL2i DIV_P = 266000000 \<and>
      axidiv_field H regs = 1 \<and> apb5div_field H regs = 2"
    then show "get_clock_rate H osc regs PCLK5p = 33250000"
      by (intro d) simp_all
  qed
qed

lemma sample_pll2:
  "pll_ref sample_hdr PLL2i =
     \<lparr>plltype = PLL_1600, rckxselr = 0x28, pllxcfgr1 = 0x98, pllxcfgr2 = 0x9C,
      pllxfracr = 0xA0, pllxcr = 0x94, pllxcsgr = 0xA4,
      refclk = refclk4 HSIp HSEp UNKNOWN_OSC_ID UNKNOWN_OSC_ID\<rparr>"
  unfolding pll_ref_def stm32mp1_clk_pll_def PLL2i_def
  by (simp only: hdr_eval) (simp add: CLK_PLL_def u16_def)

lemma sample_axi_macros:
  "sample_hdr ''RCC_ASSCKSELR'' = 0x24" "sample_hdr ''RCC_AXIDIVR'' = 0x30"
  "sample_hdr ''RCC_APB4DIVR'' = 0x3C" "sample_hdr ''RCC_APB5DIVR'' = 0x40"
  "sample_hdr ''RCC_ASSCKSELR_HSI'' = 0" "sample_hdr ''RCC_ASSCKSELR_HSE'' = 1"
  "sample_hdr ''RCC_ASSCKSELR_PLL'' = 2"
  by (simp_all only: hdr_eval)

text \<open>Scenario S6 satisfies the hypotheses of C9's theorem.\<close>

theorem axi_subsystem_rate_witness:
  "stm32mp1_read_pll_freq sample_hdr hse24_osc s6_regs PLL2i DIV_P = 266000000 \<and>
   axidiv_field sample_hdr s6_regs = 1 \<and> apb5div_field sample_hdr s6_regs = 2 \<and>
   get_clock_rate sample_hdr hse24_osc s6_regs PCLK5p = 33250000"
proof -
  have p: "stm32mp1_read_pll_freq sample_hdr hse24_osc s6_regs PLL2i DIV_P = 266000000"
    unfolding stm32mp1_read_pll_freq_def stm32mp1_pll_get_fvco_def sample_pll2
    by (simp add: s6_regs_def hse24_osc_def eval_defs)
  have f: "axi_src_field sample_hdr s6_regs = hv sample_hdr ''RCC_ASSCKSELR_PLL'' \<and>
           hv sample_hdr ''RCC_ASSCKSELR_PLL'' \<noteq> hv sample_hdr ''RCC_ASSCKSELR_HSI'' \<and>
           hv sample_hdr ''RCC_ASSCKSELR_PLL'' \<noteq> hv sample_hdr ''RCC_ASSCKSELR_HSE'' \<and>
           axidiv_field sample_hdr s6_regs = 1 \<and> apb5div_field sample_hdr s6_regs = 2"
    by (simp add: axi_src_field_def axidiv_field_def apb5div_field_def hv_def sample_axi_macros
          s6_regs_def eval_defs)
  have "get_clock_rate sample_hdr hse24_osc s6_regs PCLK5p = 33250000"
    by (rule axi_subsystem_rate[of ACLKp sample_hdr hse24_osc s6_regs, THEN conjunct2,
          THEN conjunct2, THEN conjunct2, THEN mp]) (use p f in blast)
  with p f show ?thesis by blast
qed

subsection \<open>The always-on set\<close>

lemma first_index_map:
  "first_index (\<lambda>g. f g = c) gs n = first_index (\<lambda>x. x = c) (map f gs) n"
  by (induction gs arbitrary: n) auto

lemma sample_gates_bl32:
  "map gate_fields (stm32mp1_clk_gate sample_hdr IMAGE_BL32) =
     [(216, 0, 220, 0, 1, 255, 22), (216, 1, 221, 0, 1, 255, 22),
      (216, 2, 222, 0, 1, 255, 22), (216, 3, 223, 0, 1, 255, 22),
      (216, 4, 224, 0, 1, 255, 15), (216, 5, 225, 0, 1, 255, 15),
      (216, 6, 226, 0, 1, 255, 26), (216, 7, 227, 0, 1, 255, 26),
      (216, 8, 228, 0, 1, 255, 22), (216, 9, 229, 0, 1, 255, 26),
      (216, 10, 230, 0, 1, 255, 26), (2560, 6, 203, 1, 0, 255, 23),
      (2568, 2, 208, 1, 0, 255, 24), (2576, 11, 51, 1, 0, 255, 255),
      (512, 0, 167, 1, 0, 255, 255), (512, 8, 231, 1, 0, 255, 255),
      (512, 15, 58, 1, 0, 255, 255), (512, 16, 127, 1, 0, 17, 255),
      (520, 0, 135, 1, 1, 4, 255), (520, 2, 140, 1, 1, 3, 255),
      (520, 3, 142, 1, 1, 3, 255), (520, 4, 148, 1, 1, 5, 255),
      (520, 8, 65, 1, 1, 255, 27), (520, 11, 66, 1, 1, 255, 27),
      (520, 12, 113, 1, 1, 255, 27), (520, 13, 67, 1, 1, 255, 27),
      (520, 15, 68, 1, 1, 255, 27), (520, 16, 69, 1, 1, 255, 27),
      (520, 20, 128, 1, 1, 2, 255), (320, 20, 192, 0, 1, 19, 255),
      (2584, 0, 71, 1, 0, 255, 255), (2584, 1, 72, 1, 0, 255, 255),
      (2584, 8, 166, 1, 0, 18, 255), (2584, 16, 120, 1, 0, 12, 255),
      (2600, 0, 84, 1, 0, 255, 255), (2600, 1, 85, 1, 0, 255, 255),
      (2600, 2, 86, 1, 0, 255, 255), (2600, 3, 87, 1, 0, 255, 255),
      (2600, 4, 88, 1, 0, 255, 255), (2600, 5, 89, 1, 0, 255, 255),
      (2600, 6, 90, 1, 0, 255, 255), (2600, 7, 91, 1, 0, 255, 255),
      (2600, 8, 92, 1, 0, 255, 255), (2600, 9, 93, 1, 0, 255, 255),
      (2600, 10, 94, 1, 0, 255, 255), (528, 0, 95, 1, 1, 255, 27),
      (528, 4, 96, 1, 1, 255, 27), (528, 5, 97, 1, 1, 255, 27),
      (528, 6, 124, 1, 1, 6, 255), (528, 8, 99, 1, 1, 255, 27),
      (544, 0, 100, 1, 1, 255, 22), (536, 5, 101, 1, 0, 255, 255),
      (536, 10, 105, 1, 0, 255, 22), (536, 16, 118, 1, 0, 11, 255),
      (536, 17, 119, 1, 0, 11, 255), (536, 24, 111, 1, 0, 255, 255),
      (2060, 8, 214, 0, 0, 255, 255)]"
  unfolding stm32mp1_clk_gate_def
  by (simp only: hdr_eval)
     (simp add: only_def CLK_FIXED_def CLK_SELEC_def CLK_SC_FIXED_def CLK_SC_SELEC_def u8_def
        u16_def gate_fields_def parent_id_defs parent_sel_defs SEC_def N_S_def)

lemma sample_gate_ids_bl32:
  "map g_index (stm32mp1_clk_gate sample_hdr IMAGE_BL32) =
     [220, 221, 222, 223, 224, 225, 226, 227, 228, 229, 230, 203, 208, 51, 167, 231, 58, 127,
      135, 140, 142, 148, 65, 66, 113, 67, 68, 69, 128, 192, 71, 72, 166, 120,
      84, 85, 86, 87, 88, 89, 90, 91, 92, 93, 94, 95, 96, 97, 124, 99, 100, 101, 105,
      118, 119, 111, 214]"
proof -
  have "map g_index (stm32mp1_clk_gate sample_hdr IMAGE_BL32) =
        map (\<lambda>(off, b, i, r). i) (map gate_fields (stm32mp1_clk_gate sample_hdr IMAGE_BL32))"
    by (simp add: gate_fields_def)
  then show ?thesis unfolding sample_gates_bl32 by simp
qed

lemma sample_gate_nth:
  "i < 57 \<Longrightarrow>
   gate_fields (gate_ref sample_hdr IMAGE_BL32 i) =
   map gate_fields (stm32mp1_clk_gate sample_hdr IMAGE_BL32) ! i"
proof -
  assume "i < 57"
  moreover have "length (stm32mp1_clk_gate sample_hdr IMAGE_BL32) = 57"
    using arg_cong[OF sample_gates_bl32, of length] by simp
  ultimately show ?thesis by (simp add: gate_ref_def)
qed

lemma sample_always_on_macros:
  "sample_hdr ''CK_HSE'' = 0" "sample_hdr ''CK_CSI'' = 1" "sample_hdr ''CK_LSI'' = 2"
  "sample_hdr ''CK_LSE'' = 3" "sample_hdr ''CK_HSI'' = 4" "sample_hdr ''CK_HSE_DIV2'' = 5"
  "sample_hdr ''PLL1_P'' = 180" "sample_hdr ''PLL1_Q'' = 181" "sample_hdr ''PLL1_R'' = 182"
  "sample_hdr ''PLL2_P'' = 183" "sample_hdr ''PLL2_Q'' = 184" "sample_hdr ''PLL2_R'' = 185"
  "sample_hdr ''PLL3_P'' = 186" "sample_hdr ''PLL3_Q'' = 187" "sample_hdr ''PLL3_R'' = 188"
  "sample_hdr ''PLL4_P'' = 189" "sample_hdr ''PLL4_Q'' = 190" "sample_hdr ''PLL4_R'' = 191"
  "sample_hdr ''RTC'' = 192" "sample_hdr ''CK_PER'' = 193" "sample_hdr ''CK_MPU'' = 194"
  "sample_hdr ''CK_AXI'' = 195" "sample_hdr ''CK_MCU'' = 196"
  by (simp_all only: hdr_eval)

lemma sample_cassert: "assert_osc_and_pll_ids_are_contiguous sample_hdr"
  by (simp add: assert_osc_and_pll_ids_are_contiguous_def sample_always_on_macros)

lemma always_on_id_cases:
  assumes "assert_osc_and_pll_ids_are_contiguous H" "cid \<in> set (map H always_on_names)"
  shows "clock_is_always_on H cid"
proof -
  from assms(2) consider
    "cid = H ''CK_HSE''" | "cid = H ''CK_CSI''" | "cid = H ''CK_LSI''" | "cid = H ''CK_LSE''" |
    "cid = H ''CK_HSI''" | "cid = H ''CK_HSE_DIV2''" |
    "cid = H ''PLL1_P''" | "cid = H ''PLL1_Q''" | "cid = H ''PLL1_R''" |
    "cid = H ''PLL2_P''" | "cid = H ''PLL2_Q''" | "cid = H ''PLL2_R''" |
    "cid = H ''PLL3_P''" | "cid = H ''PLL3_Q''" | "cid = H ''PLL3_R''" |
    "cid = H ''CK_AXI''" | "cid = H ''CK_MPU''" | "cid = H ''CK_MCU''" | "cid = H ''RTC''"
    unfolding always_on_names_def list.map set_simps by blast
  then show ?thesis
    using assms(1)
    unfolding assert_osc_and_pll_ids_are_contiguous_def clock_is_always_on_def
    by cases simp_all
qed


lemma distinct_map_append_neq:
  "distinct (map H (xs @ ys)) \<Longrightarrow> n \<in> set ys \<Longrightarrow> m \<in> set xs \<Longrightarrow> H n \<noteq> H m"
  by (auto simp: image_iff)

lemma pll4_not_always_on:
  assumes c: "assert_osc_and_pll_ids_are_contiguous H"
    and d: "distinct (map H (always_on_names @ pll4_output_names))"
    and n: "n \<in> set pll4_output_names"
  shows "\<not> clock_is_always_on H (H n)"
proof
  note ne = distinct_map_append_neq[OF d n]
  have osc: "H n \<noteq> 0" "H n \<noteq> 1" "H n \<noteq> 2" "H n \<noteq> 3" "H n \<noteq> 4" "H n \<noteq> 5"
    using ne[of "''CK_HSE''"] ne[of "''CK_CSI''"] ne[of "''CK_LSI''"] ne[of "''CK_LSE''"]
      ne[of "''CK_HSI''"] ne[of "''CK_HSE_DIV2''"] c
    unfolding assert_osc_and_pll_ids_are_contiguous_def always_on_names_def by simp_all
  have pll: "H n \<noteq> H ''PLL1_P'' + k" if "k \<le> 8" for k
  proof -
    from that consider "k = 0" | "k = 1" | "k = 2" | "k = 3" | "k = 4" | "k = 5" | "k = 6" |
      "k = 7" | "k = 8" by linarith
    then show ?thesis
      using ne[of "''PLL1_P''"] ne[of "''PLL1_Q''"] ne[of "''PLL1_R''"] ne[of "''PLL2_P''"]
        ne[of "''PLL2_Q''"] ne[of "''PLL2_R''"] ne[of "''PLL3_P''"] ne[of "''PLL3_Q''"]
        ne[of "''PLL3_R''"] c
      unfolding assert_osc_and_pll_ids_are_contiguous_def always_on_names_def
      by cases simp_all
  qed
  have bus: "H n \<noteq> H ''CK_AXI''" "H n \<noteq> H ''CK_MPU''" "H n \<noteq> H ''CK_MCU''" "H n \<noteq> H ''RTC''"
    using ne[of "''CK_AXI''"] ne[of "''CK_MPU''"] ne[of "''CK_MCU''"] ne[of "''RTC''"]
    unfolding always_on_names_def by simp_all
  have five: "H ''CK_HSE_DIV2'' = 5" and last: "H ''PLL3_R'' = H ''PLL1_P'' + 8"
    using c unfolding assert_osc_and_pll_ids_are_contiguous_def by simp_all
  assume "clock_is_always_on H (H n)"
  then consider "H n \<le> 5" | "H ''PLL1_P'' \<le> H n \<and> H n \<le> H ''PLL1_P'' + 8"
    unfolding clock_is_always_on_def five last using bus by (auto split: if_splits)
  then show False
  proof cases
    case 1
    then show False using osc by linarith
  next
    case 2
    then obtain k where "H n = H ''PLL1_P'' + k" "k \<le> 8"
      by (metis le_Suc_ex nat_add_left_cancel_le)
    then show False using pll by blast
  qed
qed

text \<open>
  Claim C8, as amended. For every clock id in the always-on set of the code (the HSE, HSI,
  CSI, LSI and LSE rails, the HSE rail divided by two, the P, Q and R outputs of PLL1, PLL2
  and PLL3, CK_AXI, CK_MPU, CK_MCU and RTC) enable and disable return at once, with or
  without reference counting, and leave every register and reference count as it was, and
  \<^verbatim>\<open>stm32mp_clk_is_enabled\<close> returns true. The outputs of PLL4 are not in the set: the
  range test and the build time assertion both end at \<^verbatim>\<open>PLL3_R\<close>. An id outside the set
  that the gate table does not hold makes the three operations panic.
\<close>

theorem always_on_set:
  assumes "assert_osc_and_pll_ids_are_contiguous H"
  shows
  "(cid \<in> set (map H always_on_names) \<longrightarrow>
      uu_stm32mp1_clk_enable H img cid w st = Ret st \<and>
      uu_stm32mp1_clk_disable H img cid w st = Ret st \<and>
      stm32mp_clk_is_enabled H img cid st = Ret True) \<and>
   (distinct (map H (always_on_names @ pll4_output_names)) \<longrightarrow>
      (\<forall>n \<in> set pll4_output_names. \<not> clock_is_always_on H (H n))) \<and>
   (\<not> clock_is_always_on H cid \<and> stm32mp1_clk_get_gated_id H img cid = None \<longrightarrow>
      uu_stm32mp1_clk_enable H img cid w st = Panic \<and>
      uu_stm32mp1_clk_disable H img cid w st = Panic \<and>
      stm32mp_clk_is_enabled H img cid st = Panic)"
proof (intro conjI impI ballI)
  assume "cid \<in> set (map H always_on_names)"
  then have a: "clock_is_always_on H cid" using assms by (intro always_on_id_cases)
  show "uu_stm32mp1_clk_enable H img cid w st = Ret st"
    using a by (simp add: uu_stm32mp1_clk_enable_def)
  show "uu_stm32mp1_clk_disable H img cid w st = Ret st"
    using a by (simp add: uu_stm32mp1_clk_disable_def)
  show "stm32mp_clk_is_enabled H img cid st = Ret True"
    using a by (simp add: stm32mp_clk_is_enabled_def)
next
  fix n
  assume "distinct (map H (always_on_names @ pll4_output_names))" "n \<in> set pll4_output_names"
  then show "\<not> clock_is_always_on H (H n)" using assms by (intro pll4_not_always_on)
next
  assume h: "\<not> clock_is_always_on H cid \<and> stm32mp1_clk_get_gated_id H img cid = None"
  show "uu_stm32mp1_clk_enable H img cid w st = Panic"
    using h by (simp add: uu_stm32mp1_clk_enable_def)
  show "uu_stm32mp1_clk_disable H img cid w st = Panic"
    using h by (simp add: uu_stm32mp1_clk_disable_def)
  show "stm32mp_clk_is_enabled H img cid st = Panic"
    using h by (simp add: stm32mp_clk_is_enabled_def)
qed

lemma first_index_None: "\<forall>x \<in> set xs. \<not> P x \<Longrightarrow> first_index P xs n = None"
  by (induction xs arbitrary: n) auto

lemma sample_gated_id_none:
  "cid \<notin> set (map g_index (stm32mp1_clk_gate sample_hdr IMAGE_BL32)) \<Longrightarrow>
   stm32mp1_clk_get_gated_id sample_hdr IMAGE_BL32 cid = None"
  unfolding stm32mp1_clk_get_gated_id_def by (rule first_index_None) auto

text \<open>
  Claim C8 as stated fails for the outputs of PLL4: \<^verbatim>\<open>PLL4_P\<close> is not always on, the gate
  table has no entry for it, and enable, disable and the enabled test panic.
\<close>

theorem pll4_output_is_gated:
  "sample_hdr ''PLL4_P'' = 189 \<and>
   \<not> clock_is_always_on sample_hdr 189 \<and>
   stm32mp_clk_enable sample_hdr IMAGE_BL32 189 zero_state = Panic \<and>
   stm32mp_clk_disable sample_hdr IMAGE_BL32 189 zero_state = Panic \<and>
   stm32mp_clk_is_enabled sample_hdr IMAGE_BL32 189 zero_state \<noteq> Ret True"
proof -
  have a: "\<not> clock_is_always_on sample_hdr 189"
    by (simp add: clock_is_always_on_def sample_always_on_macros)
  have g: "stm32mp1_clk_get_gated_id sample_hdr IMAGE_BL32 189 = None"
    by (rule sample_gated_id_none) (simp add: sample_gate_ids_bl32)
  show ?thesis
    using a g
    by (simp add: sample_always_on_macros stm32mp_clk_enable_def stm32mp_clk_disable_def
          uu_stm32mp1_clk_enable_def uu_stm32mp1_clk_disable_def stm32mp_clk_is_enabled_def)
qed

text \<open>The hypotheses of C8's theorem hold on the sample header.\<close>

theorem always_on_set_witness:
  "stm32mp_clk_enable sample_hdr IMAGE_BL32 195 zero_state = Ret zero_state \<and>
   stm32mp_clk_disable sample_hdr IMAGE_BL32 195 zero_state = Ret zero_state \<and>
   stm32mp_clk_is_enabled sample_hdr IMAGE_BL32 195 zero_state = Ret True \<and>
   \<not> clock_is_always_on sample_hdr (sample_hdr ''PLL4_Q'') \<and>
   stm32mp1_clk_force_enable sample_hdr IMAGE_BL32 1000 zero_state = Panic"
proof -
  note t = always_on_set[OF sample_cassert]
  have m: "map sample_hdr always_on_names =
           [0, 1, 2, 3, 4, 5, 180, 181, 182, 183, 184, 185, 186, 187, 188, 195, 194, 196, 192]"
    unfolding always_on_names_def by (simp add: sample_always_on_macros)
  have m4: "map sample_hdr pll4_output_names = [189, 190, 191]"
    unfolding pll4_output_names_def by (simp add: sample_always_on_macros)
  have h1: "195 \<in> set (map sample_hdr always_on_names)" unfolding m by simp
  have h2: "distinct (map sample_hdr (always_on_names @ pll4_output_names))"
    unfolding map_append m m4 by simp
  have h3: "\<not> clock_is_always_on sample_hdr 1000 \<and>
            stm32mp1_clk_get_gated_id sample_hdr IMAGE_BL32 1000 = None"
    by (simp add: clock_is_always_on_def sample_always_on_macros sample_gated_id_none
          sample_gate_ids_bl32)
  have q: "''PLL4_Q'' \<in> set pll4_output_names" by (simp add: pll4_output_names_def)
  from t[of 195 IMAGE_BL32 True zero_state, THEN conjunct1, THEN mp, OF h1]
  have a: "stm32mp_clk_enable sample_hdr IMAGE_BL32 195 zero_state = Ret zero_state \<and>
           stm32mp_clk_disable sample_hdr IMAGE_BL32 195 zero_state = Ret zero_state \<and>
           stm32mp_clk_is_enabled sample_hdr IMAGE_BL32 195 zero_state = Ret True"
    by (simp add: stm32mp_clk_enable_def stm32mp_clk_disable_def)
  from t[of 195 IMAGE_BL32 True zero_state, THEN conjunct2, THEN conjunct1, THEN mp, OF h2] q
  have b: "\<not> clock_is_always_on sample_hdr (sample_hdr ''PLL4_Q'')" by blast
  from t[of 1000 IMAGE_BL32 False zero_state, THEN conjunct2, THEN conjunct2, THEN mp, OF h3]
  have c: "stm32mp1_clk_force_enable sample_hdr IMAGE_BL32 1000 zero_state = Panic"
    by (simp add: stm32mp1_clk_force_enable_def)
  from a b c show ?thesis by blast
qed

subsection \<open>Rates of clocks without a parent\<close>

text \<open>
  Claim C10, as amended. \<^verbatim>\<open>stm32mp_clk_get_rate\<close> returns 0 when the gate of the id has
  no fixed parent and the unknown selector, and when the field read from the selector
  register indexes past the end of the selector's candidates. For an id that matches no
  entry of the identity table and no entry of the gate table it does not return:
  \<^verbatim>\<open>stm32mp1_clk_get_parent\<close> calls \<^verbatim>\<open>panic()\<close>.
\<close>

theorem clk_get_rate_no_parent:
  "(clock_id2parent_id H cid = UNKNOWN_ID \<and> stm32mp1_clk_get_gated_id H img cid = None \<longrightarrow>
      stm32mp_clk_get_rate H img osc regs cid = Panic) \<and>
   (clock_id2parent_id H cid = UNKNOWN_ID \<and> stm32mp1_clk_get_gated_id H img cid = Some i \<and>
    \<not> g_fixed (gate_ref H img i) < PARENT_NB \<and> g_sel (gate_ref H img i) = UNKNOWN_SEL \<longrightarrow>
      stm32mp_clk_get_rate H img osc regs cid = Ret 0) \<and>
   (clock_id2parent_id H cid = UNKNOWN_ID \<and> stm32mp1_clk_get_gated_id H img cid = Some i \<and>
    \<not> g_fixed (gate_ref H img i) < PARENT_NB \<and> g_sel (gate_ref H img i) < PARENT_SEL_NB \<and>
    \<not> unat (sel_field regs (clk_sel_ref H (g_sel (gate_ref H img i)))) <
        s_nb_parent (clk_sel_ref H (g_sel (gate_ref H img i))) \<longrightarrow>
      stm32mp_clk_get_rate H img osc regs cid = Ret 0)"
proof (intro conjI impI)
  assume "clock_id2parent_id H cid = UNKNOWN_ID \<and> stm32mp1_clk_get_gated_id H img cid = None"
  then show "stm32mp_clk_get_rate H img osc regs cid = Panic"
    by (simp add: stm32mp_clk_get_rate_def stm32mp1_clk_get_parent_def)
next
  assume "clock_id2parent_id H cid = UNKNOWN_ID \<and>
    stm32mp1_clk_get_gated_id H img cid = Some i \<and>
    \<not> g_fixed (gate_ref H img i) < PARENT_NB \<and> g_sel (gate_ref H img i) = UNKNOWN_SEL"
  then show "stm32mp_clk_get_rate H img osc regs cid = Ret 0"
    by (simp add: stm32mp_clk_get_rate_def stm32mp1_clk_get_parent_def EINVAL_def
          stm32mp1_clk_get_fixed_parent_def stm32mp1_clk_get_sel_def)
next
  assume a: "clock_id2parent_id H cid = UNKNOWN_ID \<and>
    stm32mp1_clk_get_gated_id H img cid = Some i \<and>
    \<not> g_fixed (gate_ref H img i) < PARENT_NB \<and> g_sel (gate_ref H img i) < PARENT_SEL_NB \<and>
    \<not> unat (sel_field regs (clk_sel_ref H (g_sel (gate_ref H img i)))) <
        s_nb_parent (clk_sel_ref H (g_sel (gate_ref H img i)))"
  then have "g_sel (gate_ref H img i) \<noteq> UNKNOWN_SEL" "\<not> PARENT_SEL_NB \<le> g_sel (gate_ref H img i)"
    by (simp_all add: PARENT_SEL_NB_def UNKNOWN_SEL_def)
  then show "stm32mp_clk_get_rate H img osc regs cid = Ret 0"
    using a
    by (simp add: stm32mp_clk_get_rate_def stm32mp1_clk_get_parent_def EINVAL_def
          stm32mp1_clk_get_fixed_parent_def stm32mp1_clk_get_sel_def Let_def)
qed

lemma u8_lt: "u8 n < 256" by (simp add: u8_def)

lemma gate_index_lt:
  "g \<in> set (stm32mp1_clk_gate H img) \<Longrightarrow> g_index g < 256"
  unfolding stm32mp1_clk_gate_def only_def
  by (auto simp: CLK_FIXED_def CLK_SELEC_def CLK_SC_FIXED_def CLK_SC_SELEC_def u8_lt
        split: if_splits)

lemma big_id_not_gated: "256 \<le> cid \<Longrightarrow> stm32mp1_clk_get_gated_id H img cid = None"
  unfolding stm32mp1_clk_get_gated_id_def
  by (rule first_index_None) (use gate_index_lt in fastforce)

lemma big_id_no_static_parent: "256 \<le> cid \<Longrightarrow> clock_id2parent_id H cid = UNKNOWN_ID"
proof -
  assume c: "256 \<le> cid"
  have "\<forall>x \<in> set (parent_id_clock_id H). \<not> x = cid"
    using c u8_lt unfolding parent_id_clock_id_def by (auto simp: less_le_not_le)
  then have "first_index (\<lambda>c. c = cid) (parent_id_clock_id H) 0 = None"
    by (rule first_index_None)
  then show ?thesis by (simp add: clock_id2parent_id_def)
qed

text \<open>
  Claim C10 as stated fails for an id that no table holds: the entries of both tables are
  8 bits wide, so the id 1000 matches none, and the rate request panics instead of
  returning 0.
\<close>

theorem clk_get_rate_panics:
  "clock_id2parent_id sample_hdr 1000 = UNKNOWN_ID \<and>
   stm32mp1_clk_get_gated_id sample_hdr IMAGE_BL32 1000 = None \<and>
   stm32mp_clk_get_rate sample_hdr IMAGE_BL32 hse24_osc s1_regs 1000 = Panic \<and>
   stm32mp_clk_get_rate sample_hdr IMAGE_BL32 hse24_osc s1_regs 1000 \<noteq> Ret 0"
  by (simp add: big_id_not_gated big_id_no_static_parent stm32mp_clk_get_rate_def
        stm32mp1_clk_get_parent_def)

lemma sample_parent_id_clock_id:
  "parent_id_clock_id sample_hdr =
     [4, 0, 1, 2, 3, 255, 4, 0, 5, 1, 180, 181, 182, 183, 184, 185, 186, 187, 188, 189, 190,
      191, 195, 195, 195, 195, 195, 195, 0, 0, 193, 194, 196, 255]"
  by (simp add: parent_id_clock_id_def sample_always_on_macros u8_def UNKNOWN_ID_def)

lemma clk_sel_ref_usbphy:
  "clk_sel_ref H USBPHY_SEL = CLK_PARENT_SEL H ''USBPHY'' ''RCC_USBCKSELR'' usbphy_parents"
  by (simp add: clk_sel_ref_def stm32mp1_clk_sel_def USBPHY_SEL_def)

lemma sample_sel_usbphy:
  "clk_sel_ref sample_hdr USBPHY_SEL =
     \<lparr>s_offset = 0x91C, s_src = 0, s_msk = 3, s_nb_parent = 3, s_parent = usbphy_parents\<rparr>"
  unfolding clk_sel_ref_usbphy CLK_PARENT_SEL_def append.simps
  by (simp only: hdr_eval) (simp add: u8_def u16_def usbphy_parents_def)

lemma sample_gated_id_some:
  "first_index (\<lambda>x. x = cid) (map g_index (stm32mp1_clk_gate sample_hdr IMAGE_BL32)) 0 = r \<Longrightarrow>
   stm32mp1_clk_get_gated_id sample_hdr IMAGE_BL32 cid = r"
  by (simp add: stm32mp1_clk_get_gated_id_def first_index_map[of g_index])

text \<open>
  The three cases of C10's theorem on the sample header: the id 1000, the gate of
  \<^verbatim>\<open>SYSCFG\<close> (no parent at all) and the gate of \<^verbatim>\<open>USBPHY_K\<close> with the selector
  field at 3.
\<close>

theorem clk_get_rate_no_parent_witness:
  "stm32mp1_clk_force_disable sample_hdr IMAGE_BL32 1000 zero_state = Panic \<and>
   stm32mp_clk_get_rate sample_hdr IMAGE_BL32 hse24_osc usbphy3_regs 1000 = Panic \<and>
   stm32mp_clk_get_rate sample_hdr IMAGE_BL32 hse24_osc usbphy3_regs 51 = Ret 0 \<and>
   stm32mp_clk_get_rate sample_hdr IMAGE_BL32 hse24_osc usbphy3_regs 127 = Ret 0"
proof -
  note t = clk_get_rate_no_parent[where H = sample_hdr and img = IMAGE_BL32 and osc = hse24_osc
      and regs = usbphy3_regs]
  have g13: "gate_fields (gate_ref sample_hdr IMAGE_BL32 13) = (2576, 11, 51, 1, 0, 255, 255)"
    by (simp add: sample_gate_nth sample_gates_bl32)
  have g17: "gate_fields (gate_ref sample_hdr IMAGE_BL32 17) = (512, 16, 127, 1, 0, 17, 255)"
    by (simp add: sample_gate_nth sample_gates_bl32)
  have h1: "clock_id2parent_id sample_hdr 1000 = UNKNOWN_ID \<and>
            stm32mp1_clk_get_gated_id sample_hdr IMAGE_BL32 1000 = None"
    by (simp add: big_id_not_gated big_id_no_static_parent)
  have h2: "clock_id2parent_id sample_hdr 51 = UNKNOWN_ID \<and>
            stm32mp1_clk_get_gated_id sample_hdr IMAGE_BL32 51 = Some 13 \<and>
            \<not> g_fixed (gate_ref sample_hdr IMAGE_BL32 13) < PARENT_NB \<and>
            g_sel (gate_ref sample_hdr IMAGE_BL32 13) = UNKNOWN_SEL"
    using g13
    by (simp add: clock_id2parent_id_def sample_parent_id_clock_id sample_gated_id_some
          sample_gate_ids_bl32 gate_fields_def PARENT_NB_def UNKNOWN_SEL_def UNKNOWN_ID_def)
  have s17: "g_sel (gate_ref sample_hdr IMAGE_BL32 17) = USBPHY_SEL"
    using g17 by (simp add: gate_fields_def USBPHY_SEL_def)
  have h3: "clock_id2parent_id sample_hdr 127 = UNKNOWN_ID \<and>
            stm32mp1_clk_get_gated_id sample_hdr IMAGE_BL32 127 = Some 17 \<and>
            \<not> g_fixed (gate_ref sample_hdr IMAGE_BL32 17) < PARENT_NB \<and>
            g_sel (gate_ref sample_hdr IMAGE_BL32 17) < PARENT_SEL_NB \<and>
            \<not> unat (sel_field usbphy3_regs
                      (clk_sel_ref sample_hdr (g_sel (gate_ref sample_hdr IMAGE_BL32 17)))) <
              s_nb_parent (clk_sel_ref sample_hdr (g_sel (gate_ref sample_hdr IMAGE_BL32 17)))"
    unfolding s17 sample_sel_usbphy using g17
    by (simp add: clock_id2parent_id_def sample_parent_id_clock_id sample_gated_id_some
          sample_gate_ids_bl32 gate_fields_def PARENT_NB_def PARENT_SEL_NB_def USBPHY_SEL_def
          UNKNOWN_ID_def sel_field_def usbphy3_regs_def regs_of_def)
  have a: "stm32mp_clk_get_rate sample_hdr IMAGE_BL32 hse24_osc usbphy3_regs 1000 = Panic"
    by (rule t[THEN conjunct1, THEN mp, OF h1])
  have b: "stm32mp_clk_get_rate sample_hdr IMAGE_BL32 hse24_osc usbphy3_regs 51 = Ret 0"
    by (rule t[THEN conjunct2, THEN conjunct1, THEN mp, OF h2])
  have c: "stm32mp_clk_get_rate sample_hdr IMAGE_BL32 hse24_osc usbphy3_regs 127 = Ret 0"
    by (rule t[THEN conjunct2, THEN conjunct2, THEN mp, OF h3])
  have d: "stm32mp1_clk_force_disable sample_hdr IMAGE_BL32 1000 zero_state = Panic"
    using h1
    by (simp add: stm32mp1_clk_force_disable_def uu_stm32mp1_clk_disable_def
          clock_is_always_on_def sample_always_on_macros)
  from a b c d show ?thesis by blast
qed

subsection \<open>Reference counts of the gates\<close>

lemma first_index_Some:
  "first_index P xs n = Some k \<Longrightarrow> n \<le> k \<and> k - n < length xs \<and> P (xs ! (k - n))"
proof (induction xs arbitrary: n)
  case Nil
  then show ?case by simp
next
  case (Cons x xs)
  show ?case
  proof (cases "P x")
    case True
    then show ?thesis using Cons.prems by simp
  next
    case False
    then have "first_index P xs (Suc n) = Some k" using Cons.prems by simp
    from Cons.IH[OF this] show ?thesis by (auto simp: Suc_diff_Suc Suc_le_eq)
  qed
qed

lemma gate_bit_lt:
  "g \<in> set (stm32mp1_clk_gate H img) \<Longrightarrow> g_bit g < 32"
  unfolding stm32mp1_clk_gate_def only_def
  by (auto simp: CLK_FIXED_def CLK_SELEC_def CLK_SC_FIXED_def CLK_SC_SELEC_def u8_def
        split: if_splits)

lemma gated_id_bit_lt:
  assumes "stm32mp1_clk_get_gated_id H img cid = Some i"
  shows "g_bit (gate_ref H img i) < 32"
proof -
  from first_index_Some[OF assms[unfolded stm32mp1_clk_get_gated_id_def]]
  have "i < length (stm32mp1_clk_gate H img)" by simp
  then show ?thesis unfolding gate_ref_def using gate_bit_lt[OF nth_mem] by simp
qed

lemma BIT_nonzero: "n < 32 \<Longrightarrow> BIT n \<noteq> 0"
proof
  assume n: "n < 32" and z: "BIT n = 0"
  have "bit (BIT n) n" using n by (simp add: BIT_def bit_simps)
  then show False unfolding z by simp
qed

lemma or_and_same: "(x OR m) AND m = (m :: 'a::len word)"
  by (rule bit_word_eqI) (auto simp: bit_simps)

lemma andnot_and_same: "(x AND NOT m) AND m = (0 :: 'a::len word)"
  by (rule bit_word_eqI) (auto simp: bit_simps)

lemma enabled_after_enable:
  "g_bit g < 32 \<Longrightarrow> uu_clk_is_enabled g (uu_clk_enable g r)"
  by (simp add: uu_clk_is_enabled_def uu_clk_enable_def mmio_read_32_def mmio_write_32_set_def
        stm32mp_mmio_setbits_32_shregs_def or_and_same BIT_nonzero)

lemma disabled_after_disable:
  "\<not> uu_clk_is_enabled g (uu_clk_disable g r)"
  by (simp add: uu_clk_is_enabled_def uu_clk_disable_def mmio_read_32_def mmio_write_32_clr_def
        stm32mp_mmio_clrbits_32_shregs_def andnot_and_same)

lemma uint_max_minus_one: "UINT_MAX = - 1"
  by (simp add: UINT_MAX_def)

lemma word32_inc_zero: "(x :: u32) + 1 = 0 \<longleftrightarrow> x = UINT_MAX"
  unfolding uint_max_minus_one by (metis add_neg_numeral_special(8) add_right_cancel)

lemma word32_dec_max: "(x :: u32) - 1 = UINT_MAX \<longleftrightarrow> x = 0"
  unfolding uint_max_minus_one by simp

text \<open>What one reference counted call does to the gate \<open>i\<close> of a secure clock.\<close>

lemma enable_refcounted:
  assumes "stm32mp1_clk_get_gated_id H img cid = Some i" "\<not> clock_is_always_on H cid"
    "\<not> gate_is_non_secure (gate_ref H img i)"
  shows "stm32mp_clk_enable H img cid st =
     (if gate_refcounts st i + 1 = UINT_MAX then Panic
      else Ret \<lparr>rcc = (if gate_refcounts st i = 0 then uu_clk_enable (gate_ref H img i) (rcc st)
                       else rcc st),
                gate_refcounts = (gate_refcounts st)(i := gate_refcounts st i + 1)\<rparr>)"
  using assms
  by (simp add: stm32mp_clk_enable_def uu_stm32mp1_clk_enable_def Let_def)

lemma disable_refcounted:
  assumes "stm32mp1_clk_get_gated_id H img cid = Some i" "\<not> clock_is_always_on H cid"
    "\<not> gate_is_non_secure (gate_ref H img i)"
  shows "stm32mp_clk_disable H img cid st =
     (if gate_refcounts st i = 0 then Panic
      else Ret \<lparr>rcc = (if gate_refcounts st i - 1 = 0
                       then uu_clk_disable (gate_ref H img i) (rcc st) else rcc st),
                gate_refcounts = (gate_refcounts st)(i := gate_refcounts st i - 1)\<rparr>)"
  using assms
  by (simp add: stm32mp_clk_disable_def uu_stm32mp1_clk_disable_def Let_def)

lemma apply_gate_op_inv:
  assumes g: "stm32mp1_clk_get_gated_id H img cid = Some i" "\<not> clock_is_always_on H cid"
    "\<not> gate_is_non_secure (gate_ref H img i)"
    and inv: "refcount_inv (gate_ref H img i) i st"
    and r: "apply_gate_op H img cid x st = Ret st'"
  shows "refcount_inv (gate_ref H img i) i st'"
proof (cases x)
  case Enable
  have b: "g_bit (gate_ref H img i) < 32" by (rule gated_id_bit_lt[OF g(1)])
  from r Enable have ne: "gate_refcounts st i + 1 \<noteq> UINT_MAX"
    and st': "st' = \<lparr>rcc = (if gate_refcounts st i = 0
                            then uu_clk_enable (gate_ref H img i) (rcc st) else rcc st),
                     gate_refcounts = (gate_refcounts st)(i := gate_refcounts st i + 1)\<rparr>"
    by (auto simp: enable_refcounted[OF g] split: if_splits)
  have nz: "gate_refcounts st i + 1 \<noteq> 0"
    using inv by (simp add: refcount_inv_def word32_inc_zero)
  show ?thesis
    using inv ne nz b unfolding st' refcount_inv_def
    by (simp add: enabled_after_enable)
next
  case Disable
  from r Disable have pos: "gate_refcounts st i \<noteq> 0"
    and st': "st' = \<lparr>rcc = (if gate_refcounts st i - 1 = 0
                            then uu_clk_disable (gate_ref H img i) (rcc st) else rcc st),
                     gate_refcounts = (gate_refcounts st)(i := gate_refcounts st i - 1)\<rparr>"
    by (auto simp: disable_refcounted[OF g] split: if_splits)
  have nm: "gate_refcounts st i - 1 \<noteq> UINT_MAX"
    using pos by (simp add: word32_dec_max)
  show ?thesis
    using inv pos nm unfolding st' refcount_inv_def
    by (simp add: disabled_after_disable)
qed

lemma run_gate_ops_inv:
  assumes g: "stm32mp1_clk_get_gated_id H img cid = Some i" "\<not> clock_is_always_on H cid"
    "\<not> gate_is_non_secure (gate_ref H img i)"
  shows "refcount_inv (gate_ref H img i) i st \<Longrightarrow> run_gate_ops H img cid ops st = Ret st' \<Longrightarrow>
         refcount_inv (gate_ref H img i) i st'"
proof (induction ops arbitrary: st)
  case Nil
  then show ?case by simp
next
  case (Cons x xs)
  from Cons.prems(2) obtain s1 where s1: "apply_gate_op H img cid x st = Ret s1"
    and rest: "run_gate_ops H img cid xs s1 = Ret st'"
    by (auto split: ret.splits)
  from apply_gate_op_inv[OF g Cons.prems(1) s1] have "refcount_inv (gate_ref H img i) i s1" .
  from Cons.IH[OF this rest] show ?case .
qed

lemma bit_BIT: "bit (BIT b) n \<longleftrightarrow> n = b \<and> n < 32"
  by (auto simp add: BIT_def bit_simps)

lemma or_and_other: "b \<noteq> b' \<Longrightarrow> (x OR BIT b) AND BIT b' = x AND BIT b'"
  by (rule bit_word_eqI) (auto simp add: bit_simps bit_BIT)

lemma andnot_and_other: "b \<noteq> b' \<Longrightarrow> (x AND NOT (BIT b)) AND BIT b' = x AND BIT b'"
  by (rule bit_word_eqI) (auto simp add: bit_simps bit_BIT)

lemma enable_other_gate:
  assumes "(g_offset g', g_bit g') \<noteq> (g_offset g, g_bit g)"
  shows "uu_clk_is_enabled g' (uu_clk_enable g r) = uu_clk_is_enabled g' r"
  using assms
  by (auto simp add: uu_clk_is_enabled_def uu_clk_enable_def mmio_read_32_def
        mmio_write_32_set_def stm32mp_mmio_setbits_32_shregs_def or_and_other)

lemma disable_other_gate:
  assumes "(g_offset g', g_bit g') \<noteq> (g_offset g, g_bit g)"
  shows "uu_clk_is_enabled g' (uu_clk_disable g r) = uu_clk_is_enabled g' r"
  using assms
  by (auto simp add: uu_clk_is_enabled_def uu_clk_disable_def mmio_read_32_def
        mmio_write_32_clr_def stm32mp_mmio_clrbits_32_shregs_def andnot_and_other)

lemma distinct_gate_bits:
  assumes d: "gate_bits_distinct H img"
    and i: "i < length (stm32mp1_clk_gate H img)" and j: "j < length (stm32mp1_clk_gate H img)"
    and n: "j \<noteq> i"
  shows "(g_offset (gate_ref H img j), g_bit (gate_ref H img j)) \<noteq>
         (g_offset (gate_ref H img i), g_bit (gate_ref H img i))"
proof -
  let ?xs = "map (\<lambda>g. (g_offset g, g_bit g)) (stm32mp1_clk_gate H img)"
  have "(?xs ! j = ?xs ! i) = (j = i)"
    using d i j unfolding gate_bits_distinct_def by (intro nth_eq_iff_index_eq) simp_all
  then show ?thesis using i j n by (simp add: gate_ref_def)
qed

lemma gated_id_lt:
  assumes "stm32mp1_clk_get_gated_id H img cid = Some i"
  shows "i < length (stm32mp1_clk_gate H img)"
  using first_index_Some[OF assms[unfolded stm32mp1_clk_get_gated_id_def]] by simp

lemma enable_frame:
  assumes r: "stm32mp_clk_enable H img c st = Ret st'"
    and g: "stm32mp1_clk_get_gated_id H img c = Some i" "\<not> clock_is_always_on H c"
  shows "(rcc st' = rcc st \<or> rcc st' = uu_clk_enable (gate_ref H img i) (rcc st)) \<and>
         (\<forall>j. j \<noteq> i \<longrightarrow> gate_refcounts st' j = gate_refcounts st j)"
  using r g
  by (auto simp add: stm32mp_clk_enable_def uu_stm32mp1_clk_enable_def Let_def
        split: if_splits)

lemma disable_frame:
  assumes r: "stm32mp_clk_disable H img c st = Ret st'"
    and g: "stm32mp1_clk_get_gated_id H img c = Some i" "\<not> clock_is_always_on H c"
  shows "(rcc st' = rcc st \<or> rcc st' = uu_clk_disable (gate_ref H img i) (rcc st)) \<and>
         (\<forall>j. j \<noteq> i \<longrightarrow> gate_refcounts st' j = gate_refcounts st j)"
  using r g
  by (auto simp add: stm32mp_clk_disable_def uu_stm32mp1_clk_disable_def Let_def
        split: if_splits)

lemma other_gate_inv:
  assumes d: "gate_bits_distinct H img"
    and j: "j < length (stm32mp1_clk_gate H img)"
    and s: "\<not> gate_is_non_secure (gate_ref H img j)"
    and inv: "refcount_inv (gate_ref H img j) j st"
    and r: "stm32mp_clk_enable H img c st = Ret st' \<or> stm32mp_clk_disable H img c st = Ret st'"
  shows "refcount_inv (gate_ref H img j) j st'"
proof (cases "clock_is_always_on H c")
  case True
  then have "st' = st"
    using r by (auto simp add: stm32mp_clk_enable_def stm32mp_clk_disable_def
        uu_stm32mp1_clk_enable_def uu_stm32mp1_clk_disable_def)
  then show ?thesis using inv by simp
next
  case na: False
  show ?thesis
  proof (cases "stm32mp1_clk_get_gated_id H img c")
    case None
    then show ?thesis
      using r na by (auto simp add: stm32mp_clk_enable_def stm32mp_clk_disable_def
        uu_stm32mp1_clk_enable_def uu_stm32mp1_clk_disable_def)
  next
    case (Some i)
    show ?thesis
    proof (cases "j = i")
      case True
      from r have "\<exists>x. apply_gate_op H img c x st = Ret st'"
      proof
        assume "stm32mp_clk_enable H img c st = Ret st'"
        then have "apply_gate_op H img c Enable st = Ret st'" by simp
        then show ?thesis ..
      next
        assume "stm32mp_clk_disable H img c st = Ret st'"
        then have "apply_gate_op H img c Disable st = Ret st'" by simp
        then show ?thesis ..
      qed
      then obtain x where x: "apply_gate_op H img c x st = Ret st'" ..
      show ?thesis
        using apply_gate_op_inv[OF Some na s[unfolded True] inv[unfolded True] x]
        unfolding True .
    next
      case False
      have ne: "(g_offset (gate_ref H img j), g_bit (gate_ref H img j)) \<noteq>
                (g_offset (gate_ref H img i), g_bit (gate_ref H img i))"
        by (rule distinct_gate_bits[OF d gated_id_lt[OF Some] j False])
      from r have "uu_clk_is_enabled (gate_ref H img j) (rcc st') =
                   uu_clk_is_enabled (gate_ref H img j) (rcc st) \<and>
                   gate_refcounts st' j = gate_refcounts st j"
      proof
        assume e: "stm32mp_clk_enable H img c st = Ret st'"
        from enable_frame[OF e Some na] False show ?thesis
          by (auto simp add: enable_other_gate[OF ne])
      next
        assume e: "stm32mp_clk_disable H img c st = Ret st'"
        from disable_frame[OF e Some na] False show ?thesis
          by (auto simp add: disable_other_gate[OF ne])
      qed
      then show ?thesis using inv by (simp add: refcount_inv_def)
    qed
  qed
qed

lemma sample_gate_bits_distinct: "gate_bits_distinct sample_hdr IMAGE_BL32"
proof -
  have "map (\<lambda>g. (g_offset g, g_bit g)) (stm32mp1_clk_gate sample_hdr IMAGE_BL32) =
        map (\<lambda>(off, b, r). (off, b)) (map gate_fields (stm32mp1_clk_gate sample_hdr IMAGE_BL32))"
    by (simp add: gate_fields_def)
  then show ?thesis unfolding gate_bits_distinct_def sample_gates_bl32 by simp
qed

text \<open>
  Claim C1. Let \<open>cid\<close> be the id of a secure gate that is not always on, and \<open>i\<close> its
  index in the gate table. Starting with reference count 0 and the gate off, the calls
  enable, enable, disable, disable return with the counts 1, 2, 1, 0; the enable bit is
  set by the first call, is left alone by the second and the third and is cleared by the
  fourth, and one more disable panics. After every sequence of enables and disables that
  returns, the count is 0 exactly when the gate is off. An enable at a count that is not 0
  and a disable that leaves a count that is not 0 do not touch the registers. An enable
  that would bring the count to \<^verbatim>\<open>UINT_MAX\<close> panics, and so does a disable at count 0.
  Last, the invariant of every secure gate \<open>j\<close> of the table, that its count is 0 exactly
  when its enable bit is off and that its count is not \<^verbatim>\<open>UINT_MAX\<close>, is preserved by every
  call of \<^verbatim>\<open>stm32mp_clk_enable\<close> and \<^verbatim>\<open>stm32mp_clk_disable\<close> that returns, on any clock
  id \<open>c\<close>, the one of the gate \<open>j\<close> or another, provided no two gates of the table share
  an enable bit.
\<close>

theorem refcount_discipline:
  assumes g: "stm32mp1_clk_get_gated_id H img cid = Some i" "\<not> clock_is_always_on H cid"
    "\<not> gate_is_non_secure (gate_ref H img i)"
  shows
  "(gate_refcounts st i = 0 \<and> \<not> uu_clk_is_enabled (gate_ref H img i) (rcc st) \<longrightarrow>
      (\<exists>s1 s2 s3 s4.
         stm32mp_clk_enable H img cid st = Ret s1 \<and> gate_refcounts s1 i = 1 \<and>
         uu_clk_is_enabled (gate_ref H img i) (rcc s1) \<and>
         stm32mp_clk_enable H img cid s1 = Ret s2 \<and> gate_refcounts s2 i = 2 \<and>
         uu_clk_is_enabled (gate_ref H img i) (rcc s2) \<and>
         stm32mp_clk_disable H img cid s2 = Ret s3 \<and> gate_refcounts s3 i = 1 \<and>
         uu_clk_is_enabled (gate_ref H img i) (rcc s3) \<and>
         stm32mp_clk_disable H img cid s3 = Ret s4 \<and> gate_refcounts s4 i = 0 \<and>
         \<not> uu_clk_is_enabled (gate_ref H img i) (rcc s4) \<and>
         stm32mp_clk_disable H img cid s4 = Panic)) \<and>
   (gate_refcounts st i = 0 \<and> \<not> uu_clk_is_enabled (gate_ref H img i) (rcc st) \<longrightarrow>
      (\<forall>ops st'. run_gate_ops H img cid ops st = Ret st' \<longrightarrow>
         (gate_refcounts st' i = 0 \<longleftrightarrow> \<not> uu_clk_is_enabled (gate_ref H img i) (rcc st')))) \<and>
   (\<forall>st'. gate_refcounts st i \<noteq> 0 \<and> stm32mp_clk_enable H img cid st = Ret st' \<longrightarrow>
      rcc st' = rcc st \<and> gate_refcounts st' i = gate_refcounts st i + 1) \<and>
   (\<forall>st'. stm32mp_clk_disable H img cid st = Ret st' \<and> gate_refcounts st' i \<noteq> 0 \<longrightarrow>
      rcc st' = rcc st \<and> gate_refcounts st' i = gate_refcounts st i - 1) \<and>
   (gate_refcounts st i + 1 = UINT_MAX \<longrightarrow> stm32mp_clk_enable H img cid st = Panic) \<and>
   (gate_refcounts st i = 0 \<longrightarrow> stm32mp_clk_disable H img cid st = Panic) \<and>
   (gate_bits_distinct H img \<longrightarrow>
      (\<forall>c j st'.
         j < NB_GATES H img \<and> \<not> gate_is_non_secure (gate_ref H img j) \<and>
         refcount_inv (gate_ref H img j) j st \<and>
         (stm32mp_clk_enable H img c st = Ret st' \<or>
          stm32mp_clk_disable H img c st = Ret st') \<longrightarrow>
         refcount_inv (gate_ref H img j) j st'))"
proof (intro conjI impI allI)
  let ?g = "gate_ref H img i"
  have b: "g_bit ?g < 32" by (rule gated_id_bit_lt[OF g(1)])
  note en = enable_refcounted[OF g] and dis = disable_refcounted[OF g]
  {
    assume init: "gate_refcounts st i = 0 \<and> \<not> uu_clk_is_enabled ?g (rcc st)"
    define s1 where "s1 = \<lparr>rcc = uu_clk_enable ?g (rcc st),
                            gate_refcounts = (gate_refcounts st)(i := 1)\<rparr>"
    define s2 where "s2 = \<lparr>rcc = uu_clk_enable ?g (rcc st),
                            gate_refcounts = (gate_refcounts st)(i := 2)\<rparr>"
    define s4 where "s4 = \<lparr>rcc = uu_clk_disable ?g (uu_clk_enable ?g (rcc st)),
                            gate_refcounts = (gate_refcounts st)(i := 0)\<rparr>"
    have e1: "stm32mp_clk_enable H img cid st = Ret s1"
      using init by (simp add: en s1_def UINT_MAX_def)
    have e2: "stm32mp_clk_enable H img cid s1 = Ret s2"
      by (simp add: en s1_def s2_def UINT_MAX_def)
    have d1: "stm32mp_clk_disable H img cid s2 = Ret s1"
      by (simp add: dis s1_def s2_def)
    have d2: "stm32mp_clk_disable H img cid s1 = Ret s4"
      by (simp add: dis s1_def s4_def)
    have d3: "stm32mp_clk_disable H img cid s4 = Panic"
      by (simp add: dis s4_def)
    have on1: "uu_clk_is_enabled ?g (rcc s1)" "uu_clk_is_enabled ?g (rcc s2)"
      by (simp_all add: s1_def s2_def enabled_after_enable[OF b])
    have off4: "\<not> uu_clk_is_enabled ?g (rcc s4)"
      by (simp add: s4_def disabled_after_disable)
    have c: "gate_refcounts s1 i = 1" "gate_refcounts s2 i = 2" "gate_refcounts s4 i = 0"
      by (simp_all add: s1_def s2_def s4_def)
    show "\<exists>s1 s2 s3 s4.
         stm32mp_clk_enable H img cid st = Ret s1 \<and> gate_refcounts s1 i = 1 \<and>
         uu_clk_is_enabled ?g (rcc s1) \<and>
         stm32mp_clk_enable H img cid s1 = Ret s2 \<and> gate_refcounts s2 i = 2 \<and>
         uu_clk_is_enabled ?g (rcc s2) \<and>
         stm32mp_clk_disable H img cid s2 = Ret s3 \<and> gate_refcounts s3 i = 1 \<and>
         uu_clk_is_enabled ?g (rcc s3) \<and>
         stm32mp_clk_disable H img cid s3 = Ret s4 \<and> gate_refcounts s4 i = 0 \<and>
         \<not> uu_clk_is_enabled ?g (rcc s4) \<and>
         stm32mp_clk_disable H img cid s4 = Panic"
      using e1 e2 d1 d2 d3 on1 off4 c by blast
  }
  {
    fix ops st'
    assume init: "gate_refcounts st i = 0 \<and> \<not> uu_clk_is_enabled ?g (rcc st)"
      and run: "run_gate_ops H img cid ops st = Ret st'"
    from init have "refcount_inv ?g i st" by (simp add: refcount_inv_def UINT_MAX_def)
    from run_gate_ops_inv[OF g this run]
    show "gate_refcounts st' i = 0 \<longleftrightarrow> \<not> uu_clk_is_enabled ?g (rcc st')"
      by (simp add: refcount_inv_def)
  }
  {
    fix st'
    assume a: "gate_refcounts st i \<noteq> 0 \<and> stm32mp_clk_enable H img cid st = Ret st'"
    then show "rcc st' = rcc st" by (auto simp: en split: if_splits)
    from a show "gate_refcounts st' i = gate_refcounts st i + 1"
      by (auto simp: en split: if_splits)
  }
  {
    fix st'
    assume a: "stm32mp_clk_disable H img cid st = Ret st' \<and> gate_refcounts st' i \<noteq> 0"
    then show "rcc st' = rcc st" by (auto simp: dis split: if_splits)
    from a show "gate_refcounts st' i = gate_refcounts st i - 1"
      by (auto simp: dis split: if_splits)
  }
  {
    assume "gate_refcounts st i + 1 = UINT_MAX"
    then show "stm32mp_clk_enable H img cid st = Panic" by (simp add: en)
  }
  {
    assume "gate_refcounts st i = 0"
    then show "stm32mp_clk_disable H img cid st = Panic" by (simp add: dis)
  }
  {
    fix c j st'
    assume d: "gate_bits_distinct H img"
      and a: "j < NB_GATES H img \<and> \<not> gate_is_non_secure (gate_ref H img j) \<and>
         refcount_inv (gate_ref H img j) j st \<and>
         (stm32mp_clk_enable H img c st = Ret st' \<or>
          stm32mp_clk_disable H img c st = Ret st')"
    from a have j: "j < length (stm32mp1_clk_gate H img)" by (simp add: NB_GATES_def)
    from a show "refcount_inv (gate_ref H img j) j st'"
      by (intro other_gate_inv[OF d j, of st c st']) simp_all
  }
qed

text \<open>
  The gate of \<^verbatim>\<open>TZC1\<close> (id 66, entry 23 of the table of the secure runtime image) satisfies
  the hypotheses of C1's theorem. The gates of the sample header share no enable bit, and
  enabling \<^verbatim>\<open>DDRC1\<close> (id 220, entry 0, bit 0 of the register at 0xD8) while \<^verbatim>\<open>DDRC2\<close>
  (entry 2, bit 2 of the same register) is on and held once leaves \<^verbatim>\<open>DDRC2\<close> on and held
  once.
\<close>

theorem refcount_discipline_witness:
  "(\<exists>s1 s2 s3 s4.
      stm32mp_clk_enable sample_hdr IMAGE_BL32 66 zero_state = Ret s1 \<and>
      gate_refcounts s1 23 = 1 \<and>
      uu_clk_is_enabled (gate_ref sample_hdr IMAGE_BL32 23) (rcc s1) \<and>
      stm32mp_clk_enable sample_hdr IMAGE_BL32 66 s1 = Ret s2 \<and> gate_refcounts s2 23 = 2 \<and>
      uu_clk_is_enabled (gate_ref sample_hdr IMAGE_BL32 23) (rcc s2) \<and>
      stm32mp_clk_disable sample_hdr IMAGE_BL32 66 s2 = Ret s3 \<and> gate_refcounts s3 23 = 1 \<and>
      uu_clk_is_enabled (gate_ref sample_hdr IMAGE_BL32 23) (rcc s3) \<and>
      stm32mp_clk_disable sample_hdr IMAGE_BL32 66 s3 = Ret s4 \<and> gate_refcounts s4 23 = 0 \<and>
      \<not> uu_clk_is_enabled (gate_ref sample_hdr IMAGE_BL32 23) (rcc s4) \<and>
      stm32mp_clk_disable sample_hdr IMAGE_BL32 66 s4 = Panic) \<and>
   (\<exists>st'. run_gate_ops sample_hdr IMAGE_BL32 66 [Enable, Enable, Disable] zero_state = Ret st' \<and>
      (gate_refcounts st' 23 = 0 \<longleftrightarrow>
       \<not> uu_clk_is_enabled (gate_ref sample_hdr IMAGE_BL32 23) (rcc st'))) \<and>
   (\<exists>st'. stm32mp_clk_enable sample_hdr IMAGE_BL32 66 tzc1_held_state = Ret st' \<and>
      rcc st' = rcc tzc1_held_state \<and> gate_refcounts st' 23 = 3) \<and>
   (\<exists>st'. stm32mp_clk_disable sample_hdr IMAGE_BL32 66 tzc1_held_state = Ret st' \<and>
      rcc st' = rcc tzc1_held_state \<and> gate_refcounts st' 23 = 1) \<and>
   stm32mp_clk_enable sample_hdr IMAGE_BL32 66 near_overflow_state = Panic \<and>
   stm32mp_clk_disable sample_hdr IMAGE_BL32 66 zero_state = Panic \<and>
   gate_bits_distinct sample_hdr IMAGE_BL32 \<and>
   (\<exists>st'. stm32mp_clk_enable sample_hdr IMAGE_BL32 220 ddrc2_held_state = Ret st' \<and>
      gate_refcounts st' 0 = 1 \<and>
      uu_clk_is_enabled (gate_ref sample_hdr IMAGE_BL32 0) (rcc st') \<and>
      gate_refcounts st' 2 = 1 \<and>
      uu_clk_is_enabled (gate_ref sample_hdr IMAGE_BL32 2) (rcc st'))"
proof -
  have g23: "gate_fields (gate_ref sample_hdr IMAGE_BL32 23) = (520, 11, 66, 1, 1, 255, 27)"
    by (simp add: sample_gate_nth sample_gates_bl32)
  have g: "stm32mp1_clk_get_gated_id sample_hdr IMAGE_BL32 66 = Some 23"
    "\<not> clock_is_always_on sample_hdr 66"
    "\<not> gate_is_non_secure (gate_ref sample_hdr IMAGE_BL32 23)"
    using g23
    by (simp_all add: sample_gated_id_some sample_gate_ids_bl32 clock_is_always_on_def
          sample_always_on_macros gate_is_non_secure_def gate_fields_def N_S_def)
  note t = refcount_discipline[OF g]
  note en = enable_refcounted[OF g] and dis = disable_refcounted[OF g]
  have z: "gate_refcounts zero_state 23 = 0 \<and>
           \<not> uu_clk_is_enabled (gate_ref sample_hdr IMAGE_BL32 23) (rcc zero_state)"
    by (simp add: zero_state_def uu_clk_is_enabled_def mmio_read_32_def)
  have c1: "\<exists>s1 s2 s3 s4.
      stm32mp_clk_enable sample_hdr IMAGE_BL32 66 zero_state = Ret s1 \<and>
      gate_refcounts s1 23 = 1 \<and>
      uu_clk_is_enabled (gate_ref sample_hdr IMAGE_BL32 23) (rcc s1) \<and>
      stm32mp_clk_enable sample_hdr IMAGE_BL32 66 s1 = Ret s2 \<and> gate_refcounts s2 23 = 2 \<and>
      uu_clk_is_enabled (gate_ref sample_hdr IMAGE_BL32 23) (rcc s2) \<and>
      stm32mp_clk_disable sample_hdr IMAGE_BL32 66 s2 = Ret s3 \<and> gate_refcounts s3 23 = 1 \<and>
      uu_clk_is_enabled (gate_ref sample_hdr IMAGE_BL32 23) (rcc s3) \<and>
      stm32mp_clk_disable sample_hdr IMAGE_BL32 66 s3 = Ret s4 \<and> gate_refcounts s4 23 = 0 \<and>
      \<not> uu_clk_is_enabled (gate_ref sample_hdr IMAGE_BL32 23) (rcc s4) \<and>
      stm32mp_clk_disable sample_hdr IMAGE_BL32 66 s4 = Panic"
    by (rule t[of zero_state, THEN conjunct1, THEN mp, OF z])
  have r: "\<exists>st'. run_gate_ops sample_hdr IMAGE_BL32 66 [Enable, Enable, Disable] zero_state = Ret st'"
    by (simp add: en dis zero_state_def UINT_MAX_def)
  then obtain st' where
    st': "run_gate_ops sample_hdr IMAGE_BL32 66 [Enable, Enable, Disable] zero_state = Ret st'" ..
  from t[of zero_state, THEN conjunct2, THEN conjunct1, THEN mp, OF z, THEN spec, THEN spec,
         THEN mp, OF st'] st'
  have c2: "\<exists>st'. run_gate_ops sample_hdr IMAGE_BL32 66 [Enable, Enable, Disable] zero_state = Ret st' \<and>
      (gate_refcounts st' 23 = 0 \<longleftrightarrow>
       \<not> uu_clk_is_enabled (gate_ref sample_hdr IMAGE_BL32 23) (rcc st'))"
    by blast
  have "\<exists>st'. stm32mp_clk_enable sample_hdr IMAGE_BL32 66 tzc1_held_state = Ret st'"
    by (simp add: en tzc1_held_state_def UINT_MAX_def)
  then obtain e where e: "stm32mp_clk_enable sample_hdr IMAGE_BL32 66 tzc1_held_state = Ret e" ..
  have he: "gate_refcounts tzc1_held_state 23 \<noteq> 0 \<and>
            stm32mp_clk_enable sample_hdr IMAGE_BL32 66 tzc1_held_state = Ret e"
    using e by (simp add: tzc1_held_state_def)
  from t[of tzc1_held_state, THEN conjunct2, THEN conjunct2, THEN conjunct1, THEN spec,
         THEN mp, OF he] e
  have c3: "\<exists>st'. stm32mp_clk_enable sample_hdr IMAGE_BL32 66 tzc1_held_state = Ret st' \<and>
      rcc st' = rcc tzc1_held_state \<and> gate_refcounts st' 23 = 3"
    by (simp add: tzc1_held_state_def)
  have "\<exists>st'. stm32mp_clk_disable sample_hdr IMAGE_BL32 66 tzc1_held_state = Ret st' \<and>
          gate_refcounts st' 23 \<noteq> 0"
    by (simp add: dis tzc1_held_state_def)
  then obtain d where d: "stm32mp_clk_disable sample_hdr IMAGE_BL32 66 tzc1_held_state = Ret d \<and>
          gate_refcounts d 23 \<noteq> 0" ..
  from t[of tzc1_held_state, THEN conjunct2, THEN conjunct2, THEN conjunct2, THEN conjunct1,
         THEN spec, THEN mp, OF d] d
  have c4: "\<exists>st'. stm32mp_clk_disable sample_hdr IMAGE_BL32 66 tzc1_held_state = Ret st' \<and>
      rcc st' = rcc tzc1_held_state \<and> gate_refcounts st' 23 = 1"
    by (simp add: tzc1_held_state_def)
  have o: "gate_refcounts near_overflow_state 23 + 1 = UINT_MAX"
    by (simp add: near_overflow_state_def UINT_MAX_def)
  have c5: "stm32mp_clk_enable sample_hdr IMAGE_BL32 66 near_overflow_state = Panic"
    by (rule t[of near_overflow_state, THEN conjunct2, THEN conjunct2, THEN conjunct2,
          THEN conjunct2, THEN conjunct1, THEN mp, OF o])
  have c6: "stm32mp_clk_disable sample_hdr IMAGE_BL32 66 zero_state = Panic"
    by (rule t[of zero_state, THEN conjunct2, THEN conjunct2, THEN conjunct2, THEN conjunct2,
          THEN conjunct2, THEN conjunct1, THEN mp]) (simp add: zero_state_def)
  have g0: "gate_fields (gate_ref sample_hdr IMAGE_BL32 0) = (216, 0, 220, 0, 1, 255, 22)"
    and g2: "gate_fields (gate_ref sample_hdr IMAGE_BL32 2) = (216, 2, 222, 0, 1, 255, 22)"
    by (simp_all add: sample_gate_nth sample_gates_bl32)
  have i0: "stm32mp1_clk_get_gated_id sample_hdr IMAGE_BL32 220 = Some 0"
    "\<not> clock_is_always_on sample_hdr 220"
    "\<not> gate_is_non_secure (gate_ref sample_hdr IMAGE_BL32 0)"
    using g0
    by (simp_all add: sample_gated_id_some sample_gate_ids_bl32 clock_is_always_on_def
          sample_always_on_macros gate_is_non_secure_def gate_fields_def N_S_def)
  define s where "s = \<lparr>rcc = uu_clk_enable (gate_ref sample_hdr IMAGE_BL32 0) (rcc ddrc2_held_state),
                         gate_refcounts = (gate_refcounts ddrc2_held_state)(0 := 1)\<rparr>"
  have e0: "stm32mp_clk_enable sample_hdr IMAGE_BL32 220 ddrc2_held_state = Ret s"
    unfolding enable_refcounted[OF i0] s_def
    by (simp add: ddrc2_held_state_def UINT_MAX_def)
  have n2: "2 < NB_GATES sample_hdr IMAGE_BL32"
    using arg_cong[OF sample_gates_bl32, of length] by (simp add: NB_GATES_def)
  have s2: "\<not> gate_is_non_secure (gate_ref sample_hdr IMAGE_BL32 2)"
    using g2 by (simp add: gate_is_non_secure_def gate_fields_def N_S_def)
  have inv2: "refcount_inv (gate_ref sample_hdr IMAGE_BL32 2) 2 ddrc2_held_state"
    using g2
    by (simp add: refcount_inv_def ddrc2_held_state_def uu_clk_is_enabled_def mmio_read_32_def
          gate_fields_def regs_of_def BIT_def UINT_MAX_def)
  have c7: "gate_bits_distinct sample_hdr IMAGE_BL32"
    by (rule sample_gate_bits_distinct)
  have "refcount_inv (gate_ref sample_hdr IMAGE_BL32 2) 2 s"
    using t[of ddrc2_held_state, THEN conjunct2, THEN conjunct2, THEN conjunct2,
          THEN conjunct2, THEN conjunct2, THEN conjunct2, THEN mp, OF c7,
          THEN spec[where x = 220], THEN spec[where x = 2], THEN spec[where x = s]]
      n2 s2 inv2 e0
    by simp
  moreover have k: "gate_refcounts s 2 = 1" "gate_refcounts s 0 = 1"
    by (simp_all add: s_def ddrc2_held_state_def)
  ultimately have on2: "uu_clk_is_enabled (gate_ref sample_hdr IMAGE_BL32 2) (rcc s)"
    by (simp add: refcount_inv_def)
  have b0: "g_bit (gate_ref sample_hdr IMAGE_BL32 0) < 32" by (rule gated_id_bit_lt[OF i0(1)])
  have on0: "uu_clk_is_enabled (gate_ref sample_hdr IMAGE_BL32 0) (rcc s)"
    unfolding s_def by (simp add: enabled_after_enable[OF b0])
  have c8: "\<exists>st'. stm32mp_clk_enable sample_hdr IMAGE_BL32 220 ddrc2_held_state = Ret st' \<and>
      gate_refcounts st' 0 = 1 \<and>
      uu_clk_is_enabled (gate_ref sample_hdr IMAGE_BL32 0) (rcc st') \<and>
      gate_refcounts st' 2 = 1 \<and>
      uu_clk_is_enabled (gate_ref sample_hdr IMAGE_BL32 2) (rcc st')"
    using e0 k on0 on2 by blast
  from c1 c2 c3 c4 c5 c6 c7 c8 show ?thesis by (intro conjI)
qed

subsection \<open>PLL configuration words\<close>

lemma compute_pllxcfgr1_eq:
  "stm32mp1_pll_compute_pllxcfgr1 osc r pll cfg =
     (if post_divm_in_range osc r pll cfg then Inr (prospective_cfgr1 osc r pll cfg)
      else Inl (- EINVAL))"
  unfolding stm32mp1_pll_compute_pllxcfgr1_def post_divm_in_range_def pll_post_divm_def
    prospective_cfgr1_def cfgr1_word_def ifrge_of_def stm32mp1_pll_get_fref_def Let_def
  by (auto simp add: not_le not_less or.assoc)

lemma compute_pllxcfgr2_eq:
  "stm32mp1_pll_compute_pllxcfgr2 cfg = prospective_cfgr2 cfg"
  unfolding stm32mp1_pll_compute_pllxcfgr2_def prospective_cfgr2_def cfgr2_word_def Let_def
  by (simp add: or.assoc)

lemma on_the_fly_eq:
  "stm32mp1_is_pll_config_on_the_fly H osc r pll_id cfg fracv result0 =
     (if \<not> post_divm_in_range osc r (pll_ref H pll_id) cfg then (- EINVAL, result0)
      else if r (pllxcfgr1 (pll_ref H pll_id)) \<noteq> prospective_cfgr1 osc r (pll_ref H pll_id) cfg
      then (0, - 1)
      else if r (pllxfracr (pll_ref H pll_id)) = fracr_word fracv \<and>
              r (pllxcfgr2 (pll_ref H pll_id)) = prospective_cfgr2 cfg
      then (0, 1)
      else (0, 0))"
  unfolding stm32mp1_is_pll_config_on_the_fly_def compute_pllxcfgr1_eq compute_pllxcfgr2_eq
    fracr_word_def Let_def
  by simp

lemma check_pll_conf_eq:
  "stm32mp1_check_pll_conf H osc r pll_id clksrc cfg fracv =
     (r (pllxcr (pll_ref H pll_id)) = RCC_PLLNCR_PLLON \<and>
      r (unat (drop_bit 4 clksrc)) AND RCC_SELR_SRC_MASK = clksrc AND RCC_SELR_SRC_MASK \<and>
      post_divm_in_range osc r (pll_ref H pll_id) cfg \<and>
      r (pllxcfgr1 (pll_ref H pll_id)) = prospective_cfgr1 osc r (pll_ref H pll_id) cfg \<and>
      r (pllxfracr (pll_ref H pll_id)) = fracr_word fracv \<and>
      r (pllxcfgr2 (pll_ref H pll_id)) = prospective_cfgr2 cfg)"
  unfolding stm32mp1_check_pll_conf_def post_divm_in_range_def pll_post_divm_def
    prospective_cfgr1_def cfgr1_word_def ifrge_of_def stm32mp1_pll_get_fref_def Let_def
    fracr_word_def prospective_cfgr2_def cfgr2_word_def
  by (auto simp add: not_le not_less or.assoc)

lemma pll_config_unchanged:
  assumes "post_divm_in_range osc r (pll_ref H pll_id) cfg"
    and "r (pllxcfgr1 (pll_ref H pll_id)) = prospective_cfgr1 osc r (pll_ref H pll_id) cfg"
    and "r (pllxfracr (pll_ref H pll_id)) = fracr_word fracv"
    and "r (pllxcfgr2 (pll_ref H pll_id)) = prospective_cfgr2 cfg"
  shows "stm32mp1_pll_config H osc pll_id cfg fracv r = (0, r)"
proof -
  let ?p = "pll_ref H pll_id"
  have 1: "mmio_write_32 (pllxcfgr1 ?p) (prospective_cfgr1 osc r ?p cfg) r = r"
    unfolding mmio_write_32_def assms(2)[symmetric] by simp
  have 2: "mmio_setbits_32 (pllxfracr ?p) RCC_PLLNFRACR_FRACLE
             (mmio_write_32 (pllxfracr ?p) (push_bit RCC_PLLNFRACR_FRACV_SHIFT fracv)
               (mmio_write_32 (pllxfracr ?p) 0 r)) = r"
    unfolding mmio_write_32_def mmio_setbits_32_def
    using fun_upd_idem[of r "pllxfracr ?p" "fracr_word fracv", OF assms(3)]
    by (simp add: fracr_word_def)
  have 3: "stm32mp1_pll_config_output H pll_id cfg r = r"
    unfolding stm32mp1_pll_config_output_def mmio_write_32_def compute_pllxcfgr2_eq
      assms(4)[symmetric] by simp
  show ?thesis
    unfolding stm32mp1_pll_config_def compute_pllxcfgr1_eq Let_def
    using assms(1) by (simp add: 1 2 3)
qed


lemma sample_pll3:
  "pll_ref sample_hdr PLL3i =
     \<lparr>plltype = PLL_800, rckxselr = 0x820, pllxcfgr1 = 0x884, pllxcfgr2 = 0x888,
      pllxfracr = 0x88C, pllxcr = 0x880, pllxcsgr = 0x890,
      refclk = refclk4 HSIp HSEp CSIp UNKNOWN_OSC_ID\<rparr>"
  unfolding pll_ref_def stm32mp1_clk_pll_def PLL3i_def
  by (simp only: hdr_eval) (simp add: CLK_PLL_def u16_def)

lemmas pllcfg_eval = eval_defs cfg_of_def post_divm_in_range_def pll_post_divm_def
  prospective_cfgr1_def prospective_cfgr2_def cfgr1_word_def cfgr2_word_def fracr_word_def
  ifrge_of_def hse24_osc_def EINVAL_def

subsection \<open>The on-the-fly decision\<close>

text \<open>
  Claim C4, amended. The cell for M is not \<^verbatim>\<open>0xFFFFFFFF\<close>. When the reference divided by
  M + 1 lies outside the range of the PLL's type, \<^verbatim>\<open>stm32mp1_is_pll_config_on_the_fly\<close>
  returns \<^verbatim>\<open>-EINVAL\<close> and leaves \<^verbatim>\<open>*result\<close> as the caller set it: it takes no decision.
  Otherwise it returns 0 and the decision is -1 (stop and reconfigure) exactly when the
  prospective word of configuration register 1 (N, M, IFRGE) differs from the register;
  else 1 (same) exactly when the fractional register equals the fractional value shifted
  with FRACLE set and the output divider register equals the word of P, Q and R; and
  0 (on the fly) in every remaining case.
\<close>

theorem on_the_fly_decision:
  assumes "cfg PLLCFG_M + 1 \<noteq> 0"
  shows "stm32mp1_is_pll_config_on_the_fly H osc r pll_id cfg fracv result0 =
     (if \<not> post_divm_in_range osc r (pll_ref H pll_id) cfg then (- EINVAL, result0)
      else if r (pllxcfgr1 (pll_ref H pll_id)) \<noteq> prospective_cfgr1 osc r (pll_ref H pll_id) cfg
      then (0, - 1)
      else if r (pllxfracr (pll_ref H pll_id)) = fracr_word fracv \<and>
              r (pllxcfgr2 (pll_ref H pll_id)) = prospective_cfgr2 cfg
      then (0, 1)
      else (0, 0))"
  by (rule on_the_fly_eq)

text \<open>
  The theorem at PLL1 of the sample header, HSE at 24 MHz: the registers hold M = 2, N = 99,
  P = 0, Q = 1, R = 1 and no fractional part. The same request is "same", a fractional value
  of 0x800 is "on the fly", and M = 1, N = 65 is "stop and reconfigure".
\<close>

theorem on_the_fly_decision_witness:
  "pll1_cfg PLLCFG_M + 1 \<noteq> 0 \<and>
   stm32mp1_is_pll_config_on_the_fly sample_hdr hse24_osc pll1_regs PLL1i pll1_cfg 0 (- 1) =
     (0, 1) \<and>
   stm32mp1_is_pll_config_on_the_fly sample_hdr hse24_osc pll1_regs PLL1i pll1_cfg 0x800 (- 1) =
     (0, 0) \<and>
   cfg_of [1, 65, 0, 1, 1] PLLCFG_M + 1 \<noteq> 0 \<and>
   stm32mp1_is_pll_config_on_the_fly sample_hdr hse24_osc pll1_regs PLL1i
     (cfg_of [1, 65, 0, 1, 1]) 0 (- 1) = (0, - 1)"
proof -
  have m1: "pll1_cfg PLLCFG_M + 1 \<noteq> 0"
    by (simp add: pll1_cfg_def cfg_of_def pll_enum_defs)
  have m2: "cfg_of [1, 65, 0, 1, 1] PLLCFG_M + 1 \<noteq> 0"
    by (simp add: cfg_of_def pll_enum_defs)
  have a: "stm32mp1_is_pll_config_on_the_fly sample_hdr hse24_osc pll1_regs PLL1i pll1_cfg 0
             (- 1) = (0, 1)"
    unfolding on_the_fly_decision[where cfg = pll1_cfg, OF m1] sample_pll1
    by (simp add: pll1_cfg_def pll1_regs_def pllcfg_eval)
  have b: "stm32mp1_is_pll_config_on_the_fly sample_hdr hse24_osc pll1_regs PLL1i pll1_cfg
             0x800 (- 1) = (0, 0)"
    unfolding on_the_fly_decision[where cfg = pll1_cfg, OF m1] sample_pll1
    by (simp add: pll1_cfg_def pll1_regs_def pllcfg_eval)
  have c: "stm32mp1_is_pll_config_on_the_fly sample_hdr hse24_osc pll1_regs PLL1i
             (cfg_of [1, 65, 0, 1, 1]) 0 (- 1) = (0, - 1)"
    unfolding on_the_fly_decision[where cfg = "cfg_of [1, 65, 0, 1, 1]", OF m2] sample_pll1
    by (simp add: pll1_regs_def pllcfg_eval)
  show ?thesis using m1 m2 a b c by (intro conjI)
qed

text \<open>
  The claim as first worded fails: with M = 0 the reference after M is 24 MHz, above the
  16 MHz of the PLL's type. The three registers hold exactly the three prospective words, so
  the claim's decision is "same"; the function returns \<^verbatim>\<open>-EINVAL\<close> and \<^verbatim>\<open>*result\<close> keeps
  what the caller put there, -1 or 0.
\<close>

theorem on_the_fly_no_decision:
  "pll1_m0_regs (pllxcfgr1 (pll_ref sample_hdr PLL1i)) =
     prospective_cfgr1 hse24_osc pll1_m0_regs (pll_ref sample_hdr PLL1i) pll1_m0_cfg \<and>
   pll1_m0_regs (pllxfracr (pll_ref sample_hdr PLL1i)) = fracr_word 0 \<and>
   pll1_m0_regs (pllxcfgr2 (pll_ref sample_hdr PLL1i)) = prospective_cfgr2 pll1_m0_cfg \<and>
   stm32mp1_is_pll_config_on_the_fly sample_hdr hse24_osc pll1_m0_regs PLL1i pll1_m0_cfg 0
     (- 1) = (- EINVAL, - 1) \<and>
   stm32mp1_is_pll_config_on_the_fly sample_hdr hse24_osc pll1_m0_regs PLL1i pll1_m0_cfg 0
     0 = (- EINVAL, 0)"
  unfolding on_the_fly_eq sample_pll1
  by (simp add: pll1_m0_cfg_def pll1_m0_regs_def pllcfg_eval)

subsection \<open>Matching a PLL against a configuration\<close>

text \<open>
  The tests of \<^verbatim>\<open>stm32mp1_check_pll_conf\<close> as the code has them. The cell for M is not
  \<^verbatim>\<open>0xFFFFFFFF\<close>. The function returns true if and only if the PLL's control register holds exactly the PLLON bit and no
  other, the mux field of the register at offset \<^verbatim>\<open>clksrc >> 4\<close> equals the source field of
  \<^verbatim>\<open>clksrc\<close>, the reference divided by M + 1 lies in the range of the PLL's type,
  configuration register 1 equals the word of N, M and IFRGE, the fractional register equals
  the fractional value shifted with FRACLE set, and the output divider register equals the
  word of P, Q and R. When it returns true, \<^verbatim>\<open>stm32mp1_pll_config\<close> with the same parameters
  returns 0 and leaves the whole register file as it was.
\<close>

theorem check_pll_conf_exact:
  assumes "cfg PLLCFG_M + 1 \<noteq> 0"
  shows "stm32mp1_check_pll_conf H osc r pll_id clksrc cfg fracv =
     (r (pllxcr (pll_ref H pll_id)) = RCC_PLLNCR_PLLON \<and>
      r (unat (drop_bit 4 clksrc)) AND RCC_SELR_SRC_MASK = clksrc AND RCC_SELR_SRC_MASK \<and>
      post_divm_in_range osc r (pll_ref H pll_id) cfg \<and>
      r (pllxcfgr1 (pll_ref H pll_id)) = prospective_cfgr1 osc r (pll_ref H pll_id) cfg \<and>
      r (pllxfracr (pll_ref H pll_id)) = fracr_word fracv \<and>
      r (pllxcfgr2 (pll_ref H pll_id)) = prospective_cfgr2 cfg) \<and>
   (stm32mp1_check_pll_conf H osc r pll_id clksrc cfg fracv \<longrightarrow>
      stm32mp1_pll_config H osc pll_id cfg fracv r = (0, r))"
proof (intro conjI impI)
  show "stm32mp1_check_pll_conf H osc r pll_id clksrc cfg fracv =
     (r (pllxcr (pll_ref H pll_id)) = RCC_PLLNCR_PLLON \<and>
      r (unat (drop_bit 4 clksrc)) AND RCC_SELR_SRC_MASK = clksrc AND RCC_SELR_SRC_MASK \<and>
      post_divm_in_range osc r (pll_ref H pll_id) cfg \<and>
      r (pllxcfgr1 (pll_ref H pll_id)) = prospective_cfgr1 osc r (pll_ref H pll_id) cfg \<and>
      r (pllxfracr (pll_ref H pll_id)) = fracr_word fracv \<and>
      r (pllxcfgr2 (pll_ref H pll_id)) = prospective_cfgr2 cfg)"
    by (rule check_pll_conf_eq)
next
  assume "stm32mp1_check_pll_conf H osc r pll_id clksrc cfg fracv"
  then show "stm32mp1_pll_config H osc pll_id cfg fracv r = (0, r)"
    unfolding check_pll_conf_eq by (intro pll_config_unchanged) simp_all
qed

lemma pll3_regs_match:
  "pll3_regs cr (unat (drop_bit 4 (0x8201::u32))) AND RCC_SELR_SRC_MASK =
     0x8201 AND RCC_SELR_SRC_MASK"
  "post_divm_in_range hse24_osc (pll3_regs cr) (pll_ref sample_hdr PLL3i) pll3_cfg"
  "pll3_regs cr (pllxcfgr1 (pll_ref sample_hdr PLL3i)) =
     prospective_cfgr1 hse24_osc (pll3_regs cr) (pll_ref sample_hdr PLL3i) pll3_cfg"
  "pll3_regs cr (pllxfracr (pll_ref sample_hdr PLL3i)) = fracr_word 0x1a04"
  "pll3_regs cr (pllxcfgr2 (pll_ref sample_hdr PLL3i)) = prospective_cfgr2 pll3_cfg"
  "pll3_regs cr (pllxcr (pll_ref sample_hdr PLL3i)) = cr"
  unfolding sample_pll3
  by (simp_all add: pll3_cfg_def pll3_regs_def pllcfg_eval)

text \<open>
  The theorem at PLL3 of the sample header, HSE at 24 MHz, M = 1, N = 33, P = 1, Q = 16,
  R = 36, fractional value 0x1a04, with the control register holding PLLON alone.
\<close>

theorem check_pll_conf_exact_witness:
  "pll3_cfg PLLCFG_M + 1 \<noteq> 0 \<and>
   stm32mp1_check_pll_conf sample_hdr hse24_osc (pll3_regs 1) PLL3i 0x8201 pll3_cfg 0x1a04 \<and>
   stm32mp1_pll_config sample_hdr hse24_osc PLL3i pll3_cfg 0x1a04 (pll3_regs 1) =
     (0, pll3_regs 1)"
proof -
  have m: "pll3_cfg PLLCFG_M + 1 \<noteq> 0"
    by (simp add: pll3_cfg_def cfg_of_def pll_enum_defs)
  note t = check_pll_conf_exact[where cfg = pll3_cfg and H = sample_hdr and osc = hse24_osc
      and r = "pll3_regs 1" and pll_id = PLL3i and clksrc = "0x8201" and fracv = "0x1a04", OF m]
  have c: "stm32mp1_check_pll_conf sample_hdr hse24_osc (pll3_regs 1) PLL3i 0x8201 pll3_cfg
             0x1a04"
    unfolding t[THEN conjunct1]
    by (simp only: pll3_regs_match simp_thms RCC_PLLNCR_PLLON_def)
  show ?thesis using m c t[THEN conjunct2, THEN mp, OF c] by (intro conjI)
qed

text \<open>
  Claim C5. \<^verbatim>\<open>stm32mp1_check_pll_conf\<close> is to return true when PLLON is set, the mux field
  equals the source, the reference after M is in range and the three registers hold the
  three expected words, which is when configuring leaves every register as it was. The
  code does not do that: it compares the whole control register with \<^verbatim>\<open>RCC_PLLNCR_PLLON\<close>
  instead of testing the bit. On PLL3 of the sample header, locked and with its outputs
  enabled, the control register holds \<^verbatim>\<open>0x73\<close> (PLLON, PLLRDY and the three output
  enables): PLLON is set, the mux field equals the source, the reference after M is in
  range, the three registers equal the three expected words and configuring leaves every
  register as it was, and \<^verbatim>\<open>stm32mp1_check_pll_conf\<close> returns false.
\<close>

theorem check_pll_conf_rejects_locked_pll:
  "pll3_regs 0x73 (pllxcr (pll_ref sample_hdr PLL3i)) AND RCC_PLLNCR_PLLON =
     RCC_PLLNCR_PLLON \<and>
   pll3_regs 0x73 (unat (drop_bit 4 (0x8201::u32))) AND RCC_SELR_SRC_MASK =
     0x8201 AND RCC_SELR_SRC_MASK \<and>
   post_divm_in_range hse24_osc (pll3_regs 0x73) (pll_ref sample_hdr PLL3i) pll3_cfg \<and>
   pll3_regs 0x73 (pllxcfgr1 (pll_ref sample_hdr PLL3i)) =
     prospective_cfgr1 hse24_osc (pll3_regs 0x73) (pll_ref sample_hdr PLL3i) pll3_cfg \<and>
   pll3_regs 0x73 (pllxfracr (pll_ref sample_hdr PLL3i)) = fracr_word 0x1a04 \<and>
   pll3_regs 0x73 (pllxcfgr2 (pll_ref sample_hdr PLL3i)) = prospective_cfgr2 pll3_cfg \<and>
   stm32mp1_pll_config sample_hdr hse24_osc PLL3i pll3_cfg 0x1a04 (pll3_regs 0x73) =
     (0, pll3_regs 0x73) \<and>
   \<not> stm32mp1_check_pll_conf sample_hdr hse24_osc (pll3_regs 0x73) PLL3i 0x8201 pll3_cfg
       0x1a04"
proof -
  have cr: "pll3_regs 0x73 (pllxcr (pll_ref sample_hdr PLL3i)) AND RCC_PLLNCR_PLLON =
     RCC_PLLNCR_PLLON"
    unfolding pll3_regs_match by (simp add: RCC_PLLNCR_PLLON_def)
  have cfgd: "stm32mp1_pll_config sample_hdr hse24_osc PLL3i pll3_cfg 0x1a04 (pll3_regs 0x73) =
     (0, pll3_regs 0x73)"
    by (intro pll_config_unchanged pll3_regs_match)
  have n: "\<not> stm32mp1_check_pll_conf sample_hdr hse24_osc (pll3_regs 0x73) PLL3i 0x8201
       pll3_cfg 0x1a04"
    unfolding check_pll_conf_eq pll3_regs_match(6) by (simp add: RCC_PLLNCR_PLLON_def)
  show ?thesis using cr pll3_regs_match[where cr = "0x73"] cfgd n by (intro conjI)
qed

text \<open>
  With the PLL off, the control register at 0, configuring leaves every register as it
  was as well, and \<^verbatim>\<open>stm32mp1_check_pll_conf\<close> returns false: it asks for a running PLL and
  for the mux, which configuring does not write.
\<close>

lemma check_pll_conf_pll_off:
  "stm32mp1_pll_config sample_hdr hse24_osc PLL3i pll3_cfg 0x1a04 (pll3_regs 0) =
     (0, pll3_regs 0) \<and>
   \<not> stm32mp1_check_pll_conf sample_hdr hse24_osc (pll3_regs 0) PLL3i 0x8201 pll3_cfg 0x1a04"
proof -
  have cfgd: "stm32mp1_pll_config sample_hdr hse24_osc PLL3i pll3_cfg 0x1a04 (pll3_regs 0) =
     (0, pll3_regs 0)"
    by (intro pll_config_unchanged pll3_regs_match)
  have n: "\<not> stm32mp1_check_pll_conf sample_hdr hse24_osc (pll3_regs 0) PLL3i 0x8201
       pll3_cfg 0x1a04"
    unfolding check_pll_conf_eq pll3_regs_match(6) by (simp add: RCC_PLLNCR_PLLON_def)
  show ?thesis using cfgd n by (intro conjI)
qed

subsection \<open>Rounding to an operating point\<close>

lemma round_opp_step_cases:
  "round_opp_step st f x r0 = r0 \<or> round_opp_step st f x r0 = ps_freq (pll1_settings st) x"
  by (simp add: round_opp_step_def)

lemma round_opp_step_ge: "r0 \<le> round_opp_step st f x r0"
  by (auto simp add: round_opp_step_def less_imp_le)

lemma round_opp_step_le: "r0 \<le> f \<Longrightarrow> round_opp_step st f x r0 \<le> f"
  by (simp add: round_opp_step_def)

lemma round_opp_step_dom:
  "ps_freq (pll1_settings st) x \<le> f \<Longrightarrow> ps_freq (pll1_settings st) x \<le> round_opp_step st f x r0"
  by (auto simp add: round_opp_step_def not_less)

lemma fold_round_le:
  "r0 \<le> f \<Longrightarrow> fold (round_opp_step st f) xs r0 \<le> f"
  by (induction xs arbitrary: r0) (simp_all add: round_opp_step_le)

lemma fold_round_ge:
  "r0 \<le> fold (round_opp_step st f) xs r0"
proof (induction xs arbitrary: r0)
  case Nil
  show ?case by simp
next
  case (Cons x xs)
  have "r0 \<le> round_opp_step st f x r0" by (rule round_opp_step_ge)
  also have "\<dots> \<le> fold (round_opp_step st f) xs (round_opp_step st f x r0)" by (rule Cons.IH)
  finally show ?case by simp
qed

lemma fold_round_dom:
  "i \<in> set xs \<Longrightarrow> ps_freq (pll1_settings st) i \<le> f \<Longrightarrow>
   ps_freq (pll1_settings st) i \<le> fold (round_opp_step st f) xs r0"
proof (induction xs arbitrary: r0)
  case Nil
  then show ?case by simp
next
  case (Cons x xs)
  show ?case
  proof (cases "i = x")
    case True
    have "ps_freq (pll1_settings st) i \<le> round_opp_step st f x r0"
      unfolding True using Cons.prems(2) True by (intro round_opp_step_dom) simp
    also have "\<dots> \<le> fold (round_opp_step st f) xs (round_opp_step st f x r0)"
      by (rule fold_round_ge)
    finally show ?thesis by simp
  next
    case False
    then have "i \<in> set xs" using Cons.prems(1) by simp
    from Cons.IH[OF this Cons.prems(2)] show ?thesis by simp
  qed
qed

lemma fold_round_mem:
  "fold (round_opp_step st f) xs r0 = r0 \<or>
   (\<exists>i\<in>set xs. ps_freq (pll1_settings st) i = fold (round_opp_step st f) xs r0)"
proof (induction xs arbitrary: r0)
  case Nil
  show ?case by simp
next
  case (Cons x xs)
  let ?r1 = "round_opp_step st f x r0"
  let ?v = "fold (round_opp_step st f) xs ?r1"
  from Cons.IH[of ?r1] consider "?v = ?r1" | "\<exists>i\<in>set xs. ps_freq (pll1_settings st) i = ?v"
    by blast
  then show ?case
  proof cases
    case 1
    with round_opp_step_cases[of st f x r0] show ?thesis by auto
  next
    case 2
    then show ?thesis by auto
  qed
qed


lemma round_opp_khz_valid:
  assumes "clk_pll1_settings_are_valid H st"
  shows "stm32mp1_round_opp_khz H st f =
           (0, fold (round_opp_step st f) [0..<PLAT_MAX_OPP_NB H] 0)"
  using assms by (simp add: stm32mp1_round_opp_khz_def)

lemma round_opp_khz_invalid:
  assumes "\<not> clk_pll1_settings_are_valid H st"
  shows "stm32mp1_round_opp_khz H st f = (0, current_opp_khz st)"
  using assms by (simp add: stm32mp1_round_opp_khz_def)

text \<open>
  Claim C6, amended. \<^verbatim>\<open>stm32mp1_round_opp_khz\<close> always returns 0. When the table is not
  valid, \<^verbatim>\<open>*freq_khz\<close> becomes the current operating point. When it is valid, the value \<open>v\<close>
  left in \<^verbatim>\<open>*freq_khz\<close> is at most the requested \<open>f\<close> and at least every table frequency that
  is at most \<open>f\<close>; when some table frequency is at most \<open>f\<close>, \<open>v\<close> is a frequency of the
  table, hence the largest one not above \<open>f\<close>; when every table frequency is above \<open>f\<close>,
  \<open>v\<close> is 0.
\<close>

theorem round_opp_khz_result:
  "fst (stm32mp1_round_opp_khz H st f) = 0 \<and>
   (\<not> clk_pll1_settings_are_valid H st \<longrightarrow>
      snd (stm32mp1_round_opp_khz H st f) = current_opp_khz st) \<and>
   (clk_pll1_settings_are_valid H st \<longrightarrow>
      snd (stm32mp1_round_opp_khz H st f) \<le> f \<and>
      (\<forall>i<PLAT_MAX_OPP_NB H. ps_freq (pll1_settings st) i \<le> f \<longrightarrow>
         ps_freq (pll1_settings st) i \<le> snd (stm32mp1_round_opp_khz H st f)) \<and>
      ((\<exists>i<PLAT_MAX_OPP_NB H. ps_freq (pll1_settings st) i \<le> f) \<longrightarrow>
         (\<exists>i<PLAT_MAX_OPP_NB H.
            ps_freq (pll1_settings st) i = snd (stm32mp1_round_opp_khz H st f))) \<and>
      ((\<forall>i<PLAT_MAX_OPP_NB H. f < ps_freq (pll1_settings st) i) \<longrightarrow>
         snd (stm32mp1_round_opp_khz H st f) = 0))"
proof (intro conjI impI)
  show "fst (stm32mp1_round_opp_khz H st f) = 0"
    by (simp add: stm32mp1_round_opp_khz_def)
next
  assume "\<not> clk_pll1_settings_are_valid H st"
  then show "snd (stm32mp1_round_opp_khz H st f) = current_opp_khz st"
    by (simp add: round_opp_khz_invalid)
next
  assume v: "clk_pll1_settings_are_valid H st"
  let ?n = "PLAT_MAX_OPP_NB H"
  let ?v = "fold (round_opp_step st f) [0..<?n] 0"
  have e: "snd (stm32mp1_round_opp_khz H st f) = ?v"
    by (simp add: round_opp_khz_valid[OF v])
  have le: "?v \<le> f" by (rule fold_round_le) simp
  have dom: "ps_freq (pll1_settings st) i \<le> ?v"
    if "i < ?n" "ps_freq (pll1_settings st) i \<le> f" for i
    using that by (intro fold_round_dom) simp_all
  have mem: "?v = 0 \<or> (\<exists>i<?n. ps_freq (pll1_settings st) i = ?v)"
    using fold_round_mem[of st f "[0..<?n]" 0] by auto
  show "snd (stm32mp1_round_opp_khz H st f) \<le> f"
    unfolding e by (rule le)
  show "\<forall>i<?n. ps_freq (pll1_settings st) i \<le> f \<longrightarrow>
         ps_freq (pll1_settings st) i \<le> snd (stm32mp1_round_opp_khz H st f)"
    unfolding e using dom by blast
  show "\<exists>i<?n. ps_freq (pll1_settings st) i = snd (stm32mp1_round_opp_khz H st f)"
    if "\<exists>i<?n. ps_freq (pll1_settings st) i \<le> f"
  proof -
    from that obtain i where i: "i < ?n" "ps_freq (pll1_settings st) i \<le> f" by blast
    from mem show ?thesis
    proof
      assume z: "?v = 0"
      have "ps_freq (pll1_settings st) i \<le> 0" using dom[OF i] z by simp
      then have "ps_freq (pll1_settings st) i = ?v" using z by simp
      then show ?thesis unfolding e using i(1) by blast
    next
      assume "\<exists>i<?n. ps_freq (pll1_settings st) i = ?v"
      then show ?thesis unfolding e .
    qed
  qed
  show "snd (stm32mp1_round_opp_khz H st f) = 0"
    if a: "\<forall>i<?n. f < ps_freq (pll1_settings st) i"
  proof -
    from mem show ?thesis
    proof
      assume "?v = 0" then show ?thesis unfolding e .
    next
      assume "\<exists>i<?n. ps_freq (pll1_settings st) i = ?v"
      then obtain i where i: "i < ?n" "ps_freq (pll1_settings st) i = ?v" by blast
      have "f < ?v" using a i by auto
      with le show ?thesis by simp
    qed
  qed
qed

lemma upt_0_2: "[0..<2] = [0, Suc 0]"
  by (simp add: numeral_2_eq_2)

lemma ex_less_2: "(\<exists>i<2. P i) = (P 0 \<or> P (Suc 0))"
  by (auto simp add: less_2_cases_iff)

lemma sample_opp_macros:
  "PLAT_MAX_OPP_NB sample_hdr = 2" "sample_hdr ''PLL1_SETTINGS_VALID_ID'' = 0x504C4C31"
  "sample_hdr ''RCC_MPCKSELR'' = 0x20" "sample_hdr ''RCC_MPCKSELR_PLL'' = 2"
  "sample_hdr ''RCC_MPCKSELR_PLL_MPUDIV'' = 3"
  unfolding PLAT_MAX_OPP_NB_def by (simp_all only: hdr_eval)

lemma opp_st_valid:
  "clk_pll1_settings_are_valid sample_hdr (opp_st 0x504C4C31 src)"
  "\<not> clk_pll1_settings_are_valid sample_hdr (opp_st 0 src)"
  unfolding clk_pll1_settings_are_valid_def sample_opp_macros
  by (simp_all add: opp_st_def opp_table_def)

lemma opp_st_freq:
  "ps_freq (pll1_settings (opp_st vid src)) 0 = 650000"
  "ps_freq (pll1_settings (opp_st vid src)) 1 = 800000"
  "ps_freq (pll1_settings (opp_st vid src)) (Suc 0) = 800000"
  "current_opp_khz (opp_st vid src) = 650000"
  by (simp_all add: opp_st_def opp_table_def cfg_of_def)

text \<open>
  The theorem at the table of 650 MHz and 800 MHz: a request of 700 MHz is rounded to
  650 MHz; with the table not valid a request of 800 MHz gives the current 650 MHz.
\<close>

theorem round_opp_khz_result_witness:
  "clk_pll1_settings_are_valid sample_hdr (opp_st 0x504C4C31 2) \<and>
   stm32mp1_round_opp_khz sample_hdr (opp_st 0x504C4C31 2) 700000 = (0, 650000) \<and>
   \<not> clk_pll1_settings_are_valid sample_hdr (opp_st 0 2) \<and>
   stm32mp1_round_opp_khz sample_hdr (opp_st 0 2) 800000 = (0, 650000)"
proof -
  let ?s = "opp_st 0x504C4C31 2"
  let ?v = "snd (stm32mp1_round_opp_khz sample_hdr ?s 700000)"
  note t = round_opp_khz_result[of sample_hdr ?s 700000]
  note tv = t[THEN conjunct2, THEN conjunct2, THEN mp, OF opp_st_valid(1)]
  have le: "?v \<le> 700000" using tv by simp
  have ge: "650000 \<le> ?v"
    using tv[THEN conjunct2, THEN conjunct1, THEN spec, of 0]
    by (simp add: sample_opp_macros opp_st_freq)
  have ex: "\<exists>i<PLAT_MAX_OPP_NB sample_hdr. ps_freq (pll1_settings ?s) i \<le> 700000"
    unfolding sample_opp_macros ex_less_2 by (simp add: opp_st_freq)
  have "?v = 650000 \<or> ?v = 800000"
    using tv[THEN conjunct2, THEN conjunct2, THEN conjunct1, THEN mp, OF ex]
    unfolding sample_opp_macros ex_less_2 opp_st_freq by auto
  with le have v: "?v = 650000" by auto
  have a: "stm32mp1_round_opp_khz sample_hdr ?s 700000 = (0, 650000)"
    using t[THEN conjunct1] v by (simp add: prod_eq_iff)
  note u = round_opp_khz_result[of sample_hdr "opp_st 0 2" 800000]
  have b: "stm32mp1_round_opp_khz sample_hdr (opp_st 0 2) 800000 = (0, 650000)"
    using u[THEN conjunct1] u[THEN conjunct2, THEN conjunct1, THEN mp, OF opp_st_valid(2)]
    by (simp add: prod_eq_iff opp_st_freq)
  show ?thesis using opp_st_valid a b by (intro conjI)
qed

text \<open>
  The claim as first worded fails below the table: the table is valid and holds the two
  frequencies 650000 and 800000 in its two cells; a request of 100000 gives 0, which is not
  a frequency of the table.
\<close>

theorem round_opp_khz_below_table:
  "clk_pll1_settings_are_valid sample_hdr (opp_st 0x504C4C31 2) \<and>
   PLAT_MAX_OPP_NB sample_hdr = 2 \<and>
   ps_freq (pll1_settings (opp_st 0x504C4C31 2)) 0 = 650000 \<and>
   ps_freq (pll1_settings (opp_st 0x504C4C31 2)) 1 = 800000 \<and>
   stm32mp1_round_opp_khz sample_hdr (opp_st 0x504C4C31 2) 100000 = (0, 0)"
proof -
  have "stm32mp1_round_opp_khz sample_hdr (opp_st 0x504C4C31 2) 100000 = (0, 0)"
    unfolding round_opp_khz_valid[OF opp_st_valid(1)] sample_opp_macros
    by (simp add: upt_0_2 round_opp_step_def opp_st_freq)
  then show ?thesis using opp_st_valid(1) sample_opp_macros(1) opp_st_freq(1,2)
    by (intro conjI)
qed

subsection \<open>Setting an operating point\<close>

lemma config_from_opp_keeps:
  "current_opp_khz (snd (stm32mp1_pll1_config_from_opp_khz H hw st f)) = current_opp_khz st"
  "pll1_settings (snd (stm32mp1_pll1_config_from_opp_khz H hw st f)) = pll1_settings st"
  unfolding stm32mp1_pll1_config_from_opp_khz_def
  by (simp_all split: option.splits prod.splits)

lemma set_opp_khz_success:
  assumes "stm32mp1_set_opp_khz H hw st f = Ret (0, st')"
  shows "current_opp_khz st' = f \<and> pll1_settings st' = pll1_settings st"
proof (cases "f = current_opp_khz st")
  case True
  then show ?thesis using assms by (simp add: stm32mp1_set_opp_khz_def)
next
  case False
  obtain ret st1 where c: "stm32mp1_pll1_config_from_opp_khz H hw st f = (ret, st1)"
    by (cases "stm32mp1_pll1_config_from_opp_khz H hw st f")
  obtain ret2 st2 where
    c2: "stm32mp1_pll1_config_from_opp_khz H hw st1 (current_opp_khz st1) = (ret2, st2)"
    by (cases "stm32mp1_pll1_config_from_opp_khz H hw st1 (current_opp_khz st1)")
  have k: "pll1_settings st1 = pll1_settings st"
    using config_from_opp_keeps(2)[of H hw st f] c by simp
  have "ret = 0 \<and> st' = st1\<lparr>current_opp_khz := f\<rparr>"
    using assms False c c2
    by (simp add: stm32mp1_set_opp_khz_def Let_def EACCES_def EPERM_def EIO_def
        split: if_splits)
  then show ?thesis using k by simp
qed

text \<open>
  Claim C7. \<^verbatim>\<open>stm32mp1_set_opp_khz\<close> returns 0 and leaves the state as it was when the
  frequency equals the current operating point, whatever the table and the mux. Otherwise
  it returns \<^verbatim>\<open>-EACCES\<close> when the table is not valid, whatever the mux; otherwise \<^verbatim>\<open>-EPERM\<close>
  when the MPU source field is neither PLL1_P nor PLL1_P through MPUDIV; in both cases the
  state is as it was. Otherwise, when the PLL1 configuration for the frequency returns 0,
  it returns 0 and stores the frequency in \<^verbatim>\<open>current_opp_khz\<close>. Whenever it returns 0 the
  stored current operating point is the requested frequency and the table is as it was.
\<close>

theorem set_opp_khz_checks:
  "(f = current_opp_khz st \<longrightarrow> stm32mp1_set_opp_khz H hw st f = Ret (0, st)) \<and>
   (f \<noteq> current_opp_khz st \<and> \<not> clk_pll1_settings_are_valid H st \<longrightarrow>
      stm32mp1_set_opp_khz H hw st f = Ret (- EACCES, st)) \<and>
   (f \<noteq> current_opp_khz st \<and> clk_pll1_settings_are_valid H st \<and>
    opp_rcc st (H ''RCC_MPCKSELR'') AND RCC_SELR_SRC_MASK \<noteq> of_nat (H ''RCC_MPCKSELR_PLL'') \<and>
    opp_rcc st (H ''RCC_MPCKSELR'') AND RCC_SELR_SRC_MASK \<noteq>
      of_nat (H ''RCC_MPCKSELR_PLL_MPUDIV'') \<longrightarrow>
      stm32mp1_set_opp_khz H hw st f = Ret (- EPERM, st)) \<and>
   (f \<noteq> current_opp_khz st \<and> clk_pll1_settings_are_valid H st \<and>
    (opp_rcc st (H ''RCC_MPCKSELR'') AND RCC_SELR_SRC_MASK = of_nat (H ''RCC_MPCKSELR_PLL'') \<or>
     opp_rcc st (H ''RCC_MPCKSELR'') AND RCC_SELR_SRC_MASK =
       of_nat (H ''RCC_MPCKSELR_PLL_MPUDIV'')) \<and>
    fst (stm32mp1_pll1_config_from_opp_khz H hw st f) = 0 \<longrightarrow>
      stm32mp1_set_opp_khz H hw st f =
        Ret (0, (snd (stm32mp1_pll1_config_from_opp_khz H hw st f))\<lparr>current_opp_khz := f\<rparr>)) \<and>
   (\<forall>st'. stm32mp1_set_opp_khz H hw st f = Ret (0, st') \<longrightarrow>
      current_opp_khz st' = f \<and> pll1_settings st' = pll1_settings st)"
proof (intro conjI impI allI)
  show "stm32mp1_set_opp_khz H hw st f = Ret (0, st)" if "f = current_opp_khz st"
    using that by (simp add: stm32mp1_set_opp_khz_def)
  show "stm32mp1_set_opp_khz H hw st f = Ret (- EACCES, st)"
    if "f \<noteq> current_opp_khz st \<and> \<not> clk_pll1_settings_are_valid H st"
    using that by (simp add: stm32mp1_set_opp_khz_def)
  show "stm32mp1_set_opp_khz H hw st f = Ret (- EPERM, st)"
    if "f \<noteq> current_opp_khz st \<and> clk_pll1_settings_are_valid H st \<and>
    opp_rcc st (H ''RCC_MPCKSELR'') AND RCC_SELR_SRC_MASK \<noteq> of_nat (H ''RCC_MPCKSELR_PLL'') \<and>
    opp_rcc st (H ''RCC_MPCKSELR'') AND RCC_SELR_SRC_MASK \<noteq>
      of_nat (H ''RCC_MPCKSELR_PLL_MPUDIV'')"
    using that by (simp add: stm32mp1_set_opp_khz_def Let_def)
  show "stm32mp1_set_opp_khz H hw st f =
        Ret (0, (snd (stm32mp1_pll1_config_from_opp_khz H hw st f))\<lparr>current_opp_khz := f\<rparr>)"
    if "f \<noteq> current_opp_khz st \<and> clk_pll1_settings_are_valid H st \<and>
    (opp_rcc st (H ''RCC_MPCKSELR'') AND RCC_SELR_SRC_MASK = of_nat (H ''RCC_MPCKSELR_PLL'') \<or>
     opp_rcc st (H ''RCC_MPCKSELR'') AND RCC_SELR_SRC_MASK =
       of_nat (H ''RCC_MPCKSELR_PLL_MPUDIV'')) \<and>
    fst (stm32mp1_pll1_config_from_opp_khz H hw st f) = 0"
    using that
    by (cases "stm32mp1_pll1_config_from_opp_khz H hw st f")
      (auto simp add: stm32mp1_set_opp_khz_def Let_def)
  show "current_opp_khz st' = f" "pll1_settings st' = pll1_settings st"
    if "stm32mp1_set_opp_khz H hw st f = Ret (0, st')" for st'
    using set_opp_khz_success[OF that] by simp_all
qed

lemma opp_st_mux:
  "opp_rcc (opp_st vid src) 0x20 = src"
  by (simp add: opp_st_def regs_of_def)

lemma config_from_opp_ready:
  "stm32mp1_pll1_config_from_opp_khz sample_hdr hw_ready (opp_st vid src) 800000 =
     (0, opp_st vid src)"
  unfolding stm32mp1_pll1_config_from_opp_khz_def sample_opp_macros upt_0_2
  by (simp add: opp_st_freq hw_ready_def)

text \<open>
  The theorem at the table of 650 MHz and 800 MHz with 650 MHz current: the current
  frequency succeeds with the table not valid, the mux on HSI and the hardware timing out;
  800 MHz is refused with \<^verbatim>\<open>-EACCES\<close> when the table is not valid (the mux is on HSI as
  well), with \<^verbatim>\<open>-EPERM\<close> when the table is valid and the mux on HSI, and is stored when the
  mux is on PLL1 and the hardware answers.
\<close>

theorem set_opp_khz_checks_witness:
  "stm32mp1_set_opp_khz sample_hdr hw_timeout (opp_st 0 0) 650000 = Ret (0, opp_st 0 0) \<and>
   stm32mp1_set_opp_khz sample_hdr hw_ready (opp_st 0 0) 800000 =
     Ret (- EACCES, opp_st 0 0) \<and>
   stm32mp1_set_opp_khz sample_hdr hw_ready (opp_st 0x504C4C31 0) 800000 =
     Ret (- EPERM, opp_st 0x504C4C31 0) \<and>
   stm32mp1_set_opp_khz sample_hdr hw_ready (opp_st 0x504C4C31 2) 800000 =
     Ret (0, (opp_st 0x504C4C31 2)\<lparr>current_opp_khz := 800000\<rparr>) \<and>
   current_opp_khz (opp_st 0x504C4C31 2) = 650000"
proof -
  note t1 = set_opp_khz_checks[of 650000 "opp_st 0 0" sample_hdr hw_timeout]
  have a: "stm32mp1_set_opp_khz sample_hdr hw_timeout (opp_st 0 0) 650000 =
             Ret (0, opp_st 0 0)"
    using t1[THEN conjunct1] by (simp add: opp_st_freq)
  note t2 = set_opp_khz_checks[of 800000 "opp_st 0 0" sample_hdr hw_ready]
  have b: "stm32mp1_set_opp_khz sample_hdr hw_ready (opp_st 0 0) 800000 =
             Ret (- EACCES, opp_st 0 0)"
    using t2[THEN conjunct2, THEN conjunct1] opp_st_valid(2)[of 0]
    by (simp add: opp_st_freq)
  note t3 = set_opp_khz_checks[of 800000 "opp_st 0x504C4C31 0" sample_hdr hw_ready]
  have c: "stm32mp1_set_opp_khz sample_hdr hw_ready (opp_st 0x504C4C31 0) 800000 =
             Ret (- EPERM, opp_st 0x504C4C31 0)"
    using t3[THEN conjunct2, THEN conjunct2, THEN conjunct1] opp_st_valid(1)[of 0]
    unfolding sample_opp_macros
    by (simp add: opp_st_freq opp_st_mux RCC_SELR_SRC_MASK_def)
  note t4 = set_opp_khz_checks[of 800000 "opp_st 0x504C4C31 2" sample_hdr hw_ready]
  have d: "stm32mp1_set_opp_khz sample_hdr hw_ready (opp_st 0x504C4C31 2) 800000 =
             Ret (0, (opp_st 0x504C4C31 2)\<lparr>current_opp_khz := 800000\<rparr>)"
    using t4[THEN conjunct2, THEN conjunct2, THEN conjunct2, THEN conjunct1]
      opp_st_valid(1)[of 2]
    unfolding sample_opp_macros config_from_opp_ready
    by (simp add: opp_st_freq opp_st_mux RCC_SELR_SRC_MASK_def)
  show ?thesis using a b c d opp_st_freq(4) by (intro conjI)
qed

subsection \<open>The reverse PLL1 search\<close>








lemma word_less_not_max: "(d :: u32) < b \<Longrightarrow> d \<noteq> UINT_MAX"
  by (metis UINT_MAX_def uint_max_minus_one word_order.extremum_strict)


































end
